theory Spec2Isabelle
  imports Complex_Main "HOL-Library.Sublist"
begin

section \<open>Numbers\<close>

text \<open>
  A JavaScript number is an IEEE-754 double. A finite double is modelled by the real number
  it denotes, the two infinities and NaN by constants. The two zeros are one value: the
  program never tells them apart (\<^verbatim>\<open>===\<close> and the comparisons treat them alike, and its
  only division is guarded against a zero divisor).

  An arithmetic operation of IEEE-754 (\<^verbatim>\<open>+\<close>, \<^verbatim>\<open>-\<close>, \<^verbatim>\<open>*\<close>, \<^verbatim>\<open>/\<close>,
  \<^verbatim>\<open>Math.sqrt\<close>) returns the exact result rounded to the nearest double, a tie going to
  the even significand. A double has 53 significant bits; the unit in the last place of a
  number \<open>x\<close> is \<open>2\<close> to the power \<open>\<lfloor>log\<^sub>2 \<bar>x\<bar>\<rfloor> - 52\<close>, and not less than \<open>2\<close> to the power
  \<open>-1074\<close> (the subnormal numbers). A result that rounds to \<open>2\<close> to the power \<open>1024\<close> or beyond
  is an infinity. The same rounding reads a decimal number of a JSON text or of the program
  text.
\<close>

datatype double = Num real | PInf | NInf | NaN

definition round_half_even :: "real \<Rightarrow> int" where
  "round_half_even q =
     (let f = \<lfloor>q\<rfloor>
      in if q - of_int f < 1 / 2 then f
         else if q - of_int f > 1 / 2 then f + 1
         else if even f then f else f + 1)"

definition ulp_exponent :: "real \<Rightarrow> int" where
  "ulp_exponent x = max (\<lfloor>log 2 \<bar>x\<bar>\<rfloor> - 52) (- 1074)"

definition rnd :: "real \<Rightarrow> double" where
  "rnd x =
     (if x = 0 then Num 0
      else
        (let e = ulp_exponent x;
             y = of_int (round_half_even (x / 2 powi e)) * 2 powi e
         in if \<bar>y\<bar> \<ge> 2 ^ 1024 then (if x > 0 then PInf else NInf) else Num y))"

fun d_add :: "double \<Rightarrow> double \<Rightarrow> double" where
  "d_add (Num x) (Num y) = rnd (x + y)"
| "d_add NaN b = NaN"
| "d_add a NaN = NaN"
| "d_add PInf NInf = NaN"
| "d_add NInf PInf = NaN"
| "d_add PInf b = PInf"
| "d_add a PInf = PInf"
| "d_add NInf b = NInf"
| "d_add a NInf = NInf"

fun d_neg :: "double \<Rightarrow> double" where
  "d_neg (Num x) = Num (- x)"
| "d_neg PInf = NInf"
| "d_neg NInf = PInf"
| "d_neg NaN = NaN"

definition d_sub :: "double \<Rightarrow> double \<Rightarrow> double" where
  "d_sub a b = d_add a (d_neg b)"

fun d_mul :: "double \<Rightarrow> double \<Rightarrow> double" where
  "d_mul (Num x) (Num y) = rnd (x * y)"
| "d_mul NaN b = NaN"
| "d_mul a NaN = NaN"
| "d_mul (Num x) PInf = (if x = 0 then NaN else if x > 0 then PInf else NInf)"
| "d_mul (Num x) NInf = (if x = 0 then NaN else if x > 0 then NInf else PInf)"
| "d_mul PInf (Num y) = (if y = 0 then NaN else if y > 0 then PInf else NInf)"
| "d_mul NInf (Num y) = (if y = 0 then NaN else if y > 0 then NInf else PInf)"
| "d_mul PInf PInf = PInf"
| "d_mul NInf NInf = PInf"
| "d_mul PInf NInf = NInf"
| "d_mul NInf PInf = NInf"

fun d_sqrt :: "double \<Rightarrow> double" where
  "d_sqrt (Num x) = (if x < 0 then NaN else rnd (sqrt x))"
| "d_sqrt PInf = PInf"
| "d_sqrt NInf = NaN"
| "d_sqrt NaN = NaN"

text \<open>\<^verbatim>\<open>a < b\<close>; a comparison with NaN is false.\<close>

fun d_less :: "double \<Rightarrow> double \<Rightarrow> bool" where
  "d_less (Num x) (Num y) = (x < y)"
| "d_less NaN b = False"
| "d_less a NaN = False"
| "d_less a NInf = False"
| "d_less PInf b = False"
| "d_less NInf b = True"
| "d_less a PInf = True"

text \<open>\<^verbatim>\<open>a >= b\<close>\<close>

definition d_greater_eq :: "double \<Rightarrow> double \<Rightarrow> bool" where
  "d_greater_eq a b = (a \<noteq> NaN \<and> b \<noteq> NaN \<and> \<not> d_less a b)"

text \<open>\<^verbatim>\<open>Math.max(a, b)\<close>: NaN as soon as one argument is NaN.\<close>

definition d_max :: "double \<Rightarrow> double \<Rightarrow> double" where
  "d_max a b = (if a = NaN \<or> b = NaN then NaN else if d_less a b then b else a)"

text \<open>
  The numbers of a stored JSON array. \<^verbatim>\<open>JSON.stringify\<close> writes a finite double so that
  \<^verbatim>\<open>JSON.parse\<close> reads the same double again, and writes \<^verbatim>\<open>null\<close> for an infinity or NaN;
  a product reads \<^verbatim>\<open>null\<close> as 0.
\<close>

datatype json_number = JNumber real | JNull

fun json_stringify :: "double \<Rightarrow> json_number" where
  "json_stringify (Num x) = JNumber x"
| "json_stringify d = JNull"

fun json_parse :: "json_number \<Rightarrow> double" where
  "json_parse (JNumber x) = rnd x"
| "json_parse JNull = Num 0"

section \<open>Errors, effects and the environment\<close>

text \<open>
  The services of the repository are asynchronous TypeScript methods that talk to external
  providers (OpenAI, Gemini, ChromaDB, the relational database), write log lines, and throw.
  A method is modelled as a function from the world before the call to its outcome
  (\<open>Inl\<close> a thrown error, \<open>Inr\<close> the returned value) and the world after the call.
  Only warnings and errors of the logger are recorded, by the fixed leading text of their
  message; informational log lines are not. A request to a provider is recorded with what
  it sends: the texts to embed, the model and the messages of a chat completion, the model,
  the prompt, the MIME type and the image of an image completion.

  A string of the model is a sequence of 8-bit characters: the model covers the strings whose
  code units are below 256.
\<close>

datatype error =
    BadRequestException string
  | Error string

fun error_message :: "error \<Rightarrow> string" where
  "error_message (BadRequestException m) = m"
| "error_message (Error m) = m"

datatype event =
    LogWarn string
  | LogError string
  | Delay nat
  | OpenAIEmbeddings "string list"
  | GeminiEmbedContent string
  | OpenAIChatCompletion string "(string \<times> string) list"
  | OpenAIImageCompletion string string string string
  | CollectionQuery nat
  | CollectionAdd "string list"
  | CollectionGetWhere string
  | CollectionDeleteIds "string list"

datatype role = User | Assistant

record ChatMessage =
  cm_role :: role
  cm_content :: string

record Metadata =
  md_documentId :: "string option"
  md_fileName :: "string option"
  md_chunkIndex :: "nat option"
  md_totalChunks :: "nat option"
  md_source :: "string option"
  md_createdAt :: "nat option"
  md_uploadedAt :: "nat option"
  md_extra :: "(string \<times> string) list"

record DocumentChunk =
  dc_id :: "string option"
  dc_content :: string
  dc_metadata :: Metadata

record StoredChunk =
  st_id :: string
  st_embedding :: "double list"
  st_document :: string
  st_metadata :: Metadata

record SearchResult =
  sr_id :: string
  sr_content :: string
  sr_metadata :: "Metadata option"
  sr_score :: double

text \<open>
  The answer of \<^verbatim>\<open>collection.query\<close>: the parallel arrays \<^verbatim>\<open>ids[0]\<close>,
  \<^verbatim>\<open>documents[0]\<close>, \<^verbatim>\<open>metadatas[0]\<close>, \<^verbatim>\<open>distances[0]\<close> as one list of rows,
  and whether \<^verbatim>\<open>distances\<close> is present. A distance is the decimal number of the JSON
  answer.
\<close>

record QueryResult =
  qr_rows :: "(string \<times> string \<times> Metadata option \<times> real) list"
  qr_has_distances :: bool

record ChatSessionEntity =
  cs_id :: string
  cs_userId :: string
  cs_messages :: "ChatMessage list option"
  cs_createdAt :: nat
  cs_updatedAt :: nat

record ChatSession =
  s_id :: string
  s_userId :: string
  s_history :: "ChatMessage list"
  s_createdAt :: nat
  s_updatedAt :: nat

text \<open>
  A row of table \<^verbatim>\<open>qa_cache\<close>. The text column \<^verbatim>\<open>embedding\<close> holds
  \<^verbatim>\<open>JSON.stringify\<close> of a number array and is read back with \<^verbatim>\<open>JSON.parse\<close>; the
  model keeps the numbers of the JSON text, \<open>None\<close> for a null column. \<^verbatim>\<open>lastUsedAt\<close> is
  set by the only writer of the table and is kept as a time stamp.
\<close>

record QACache =
  qc_id :: string
  qc_userId :: string
  qc_question :: string
  qc_answer :: string
  qc_source :: string
  qc_model :: string
  qc_documentSources :: "string list option"
  qc_usageCount :: nat
  qc_embedding :: "json_number list option"
  qc_createdAt :: nat
  qc_updatedAt :: nat
  qc_lastUsedAt :: nat

text \<open>A row of table \<^verbatim>\<open>documents\<close>, with the columns that re-indexing reads or writes.\<close>

record DocumentEntity =
  doc_id :: string
  doc_userId :: string
  doc_originalName :: string
  doc_filePath :: string
  doc_mimeType :: string
  doc_status :: string
  doc_errorMessage :: "string option"

record UploadedFile =
  f_originalname :: string
  f_mimetype :: string
  f_size :: nat
  f_buffer :: string

text \<open>
  The environment of a run: the configuration values read through \<^verbatim>\<open>ConfigService\<close> and
  the behaviour of the external providers. Every external request consumes one tick of the
  world, and a provider's answer may depend on the tick, so a provider may answer the same
  request differently at different times. The numbers of a provider's answer are the decimal
  numbers of its JSON text. \<open>env_relevanceThreshold\<close> is the number that
  \<^verbatim>\<open>parseFloat(process.env.CHAT_RELEVANCE_THRESHOLD)\<close> reads, \<open>None\<close> when it reads NaN.
\<close>

record env =
  cfg_openai_model :: string
  env_relevanceThreshold :: "real option"
  cfg_topK :: nat
  cfg_enableSuggestions :: bool
  openai_embeddings_create :: "nat \<Rightarrow> string list \<Rightarrow> error + real list list"
  openai_chat_create :: "nat \<Rightarrow> string \<Rightarrow> (string \<times> string) list \<Rightarrow> error + string"
  openai_vision_create :: "nat \<Rightarrow> string \<Rightarrow> string \<Rightarrow> string \<Rightarrow> string \<Rightarrow> error + string"
  gemini_embedContent :: "nat \<Rightarrow> string \<Rightarrow> error + real list"
  chroma_query :: "nat \<Rightarrow> StoredChunk list \<Rightarrow> double list \<Rightarrow> nat \<Rightarrow> error + QueryResult"
  chroma_fault :: "nat \<Rightarrow> error option"
  db_fault :: "nat \<Rightarrow> error option"
  uuidv4 :: "nat \<Rightarrow> string"
  extract_text :: "UploadedFile \<Rightarrow> string + string"
  read_document :: "string \<Rightarrow> string \<Rightarrow> string + string"
  split_text :: "string \<Rightarrow> string + string list"
  parse_questions :: "string \<Rightarrow> string list"

record world =
  tick :: nat
  now :: nat
  trace :: "event list"
  chat_sessions :: "ChatSessionEntity list"
  qa_cache :: "QACache list"
  document_table :: "DocumentEntity list"
  collection :: "StoredChunk list option"

type_synonym 'a io = "world \<Rightarrow> (error + 'a) \<times> world"

definition io_return :: "'a \<Rightarrow> 'a io" where
  "io_return x = (\<lambda>w. (Inr x, w))"

definition io_throw :: "error \<Rightarrow> 'a io" where
  "io_throw e = (\<lambda>w. (Inl e, w))"

definition io_bind :: "'a io \<Rightarrow> ('a \<Rightarrow> 'b io) \<Rightarrow> 'b io" where
  "io_bind m f = (\<lambda>w. case m w of (Inl e, w') \<Rightarrow> (Inl e, w') | (Inr x, w') \<Rightarrow> f x w')"

definition io_then :: "unit io \<Rightarrow> 'b io \<Rightarrow> 'b io" where
  "io_then m k = io_bind m (\<lambda>_. k)"

text \<open>\<^verbatim>\<open>try { m } catch (error) { h(error) }\<close>\<close>

definition io_catch :: "'a io \<Rightarrow> (error \<Rightarrow> 'a io) \<Rightarrow> 'a io" where
  "io_catch m h = (\<lambda>w. case m w of (Inl e, w') \<Rightarrow> h e w' | (Inr x, w') \<Rightarrow> (Inr x, w'))"

definition emit :: "event \<Rightarrow> unit io" where
  "emit ev = (\<lambda>w. (Inr (), w\<lparr>trace := trace w @ [ev]\<rparr>))"

text \<open>A request to an external provider: recorded in the trace, answered by the provider.\<close>

definition external :: "event \<Rightarrow> (nat \<Rightarrow> error + 'a) \<Rightarrow> 'a io" where
  "external ev f = (\<lambda>w. (f (tick w), w\<lparr>tick := Suc (tick w), trace := trace w @ [ev]\<rparr>))"

definition gen_uuid :: "env \<Rightarrow> string io" where
  "gen_uuid env = (\<lambda>w. (Inr (uuidv4 env (tick w)), w\<lparr>tick := Suc (tick w)\<rparr>))"

text \<open>\<^verbatim>\<open>new Date()\<close>\<close>

definition get_now :: "nat io" where
  "get_now = (\<lambda>w. (Inr (now w), w))"

text \<open>
  An operation of a TypeORM repository: it fails when the database does, and otherwise
  reads or changes the tables.
\<close>

definition db_op :: "env \<Rightarrow> (world \<Rightarrow> 'a \<times> world) \<Rightarrow> 'a io" where
  "db_op env f = (\<lambda>w.
     case db_fault env (tick w) of
       Some e \<Rightarrow> (Inl e, w\<lparr>tick := Suc (tick w)\<rparr>)
     | None \<Rightarrow> (case f (w\<lparr>tick := Suc (tick w)\<rparr>) of (x, w') \<Rightarrow> (Inr x, w')))"

text \<open>\<^verbatim>\<open>a || b\<close> on an optional string \<open>a\<close>.\<close>

fun js_or :: "string option \<Rightarrow> string \<Rightarrow> string" where
  "js_or None d = d"
| "js_or (Some x) d = (if x \<noteq> [] then x else d)"

text \<open>JavaScript truthiness of an optional string: \<^verbatim>\<open>undefined\<close> and the empty string are falsy.\<close>

fun truthy :: "string option \<Rightarrow> bool" where
  "truthy None = False"
| "truthy (Some s) = (s \<noteq> [])"

text \<open>
  \<^verbatim>\<open>String.prototype.trim\<close> strips the white space and the line terminators of ECMAScript.
  Among the code units below 256 these are TAB, LF, VT, FF, CR, SP and NBSP.
\<close>

definition is_space :: "char \<Rightarrow> bool" where
  "is_space c = (c \<in> set [CHR '' '', CHR 0x09, CHR 0x0A, CHR 0x0B, CHR 0x0C, CHR 0x0D, CHR 0xA0])"

definition js_trim :: "string \<Rightarrow> string" where
  "js_trim s = rev (dropWhile is_space (rev (dropWhile is_space s)))"

text \<open>
  \<^verbatim>\<open>relevanceThreshold: parseFloat(process.env.CHAT_RELEVANCE_THRESHOLD) || 0.5\<close> of the
  configuration: NaN and 0 are falsy.
\<close>

definition relevanceThreshold :: "env \<Rightarrow> double" where
  "relevanceThreshold env =
     (case env_relevanceThreshold env of
        None \<Rightarrow> rnd (1 / 2)
      | Some x \<Rightarrow> if rnd x = Num 0 then rnd (1 / 2) else rnd x)"

section \<open>Semantic cache: cosine similarity\<close>

text \<open>
  Embedding of \<^verbatim>\<open>src/modules/chat/services/qa-cache.service.ts\<close>.
  A division whose divisor is zero does not raise in JavaScript but yields an infinity or
  NaN; the model makes that outcome visible as \<open>None\<close>.
\<close>

fun js_divide :: "double \<Rightarrow> double \<Rightarrow> double option" where
  "js_divide a (Num y) =
     (if y = 0 then None
      else Some (case a of
                   Num x \<Rightarrow> rnd (x / y)
                 | PInf \<Rightarrow> if y > 0 then PInf else NInf
                 | NInf \<Rightarrow> if y > 0 then NInf else PInf
                 | NaN \<Rightarrow> NaN))"
| "js_divide a NaN = Some NaN"
| "js_divide (Num x) b = Some (Num 0)"
| "js_divide a b = Some NaN"

text \<open>One iteration of the loop body of \<^verbatim>\<open>cosineSimilarity\<close>, at index \<open>i\<close>.\<close>

definition cosine_step ::
  "double list \<Rightarrow> double list \<Rightarrow> nat \<Rightarrow> double \<times> double \<times> double \<Rightarrow> double \<times> double \<times> double" where
  "cosine_step vecA vecB i acc =
     (case acc of (dotProduct, normA, normB) \<Rightarrow>
        (d_add dotProduct (d_mul (vecA ! i) (vecB ! i)),
         d_add normA (d_mul (vecA ! i) (vecA ! i)),
         d_add normB (d_mul (vecB ! i) (vecB ! i))))"

text \<open>
  \<^verbatim>\<open>cosineSimilarity(vecA, vecB)\<close>: the length test returns before the loop; the loop
  runs \<open>i\<close> over \<open>0 ..< vecA.length\<close>, where both reads are in range because the lengths agree.
\<close>

definition cosineSimilarity :: "double list \<Rightarrow> double list \<Rightarrow> double option" where
  "cosineSimilarity vecA vecB =
     (if length vecA \<noteq> length vecB then Some (Num 0)
      else
        (case fold (cosine_step vecA vecB) [0..<length vecA] (Num 0, Num 0, Num 0) of
           (dotProduct, normA, normB) \<Rightarrow>
             let denominator = d_mul (d_sqrt normA) (d_sqrt normB)
             in if denominator = Num 0 then Some (Num 0) else js_divide dotProduct denominator))"




section \<open>Embedding providers\<close>

text \<open>
  \<^verbatim>\<open>GeminiService\<close> and \<^verbatim>\<open>OpenAIService\<close>. A single OpenAI embedding request
  sends one input and reads \<^verbatim>\<open>response.data[0].embedding\<close>. The client library parses
  the JSON answer, so the program holds the doubles nearest to the numbers of the answer.
\<close>

definition gemini_generateEmbedding :: "env \<Rightarrow> string \<Rightarrow> double list io" where
  "gemini_generateEmbedding env text =
     io_catch
       (io_bind (external (GeminiEmbedContent text) (\<lambda>t. gemini_embedContent env t text))
          (\<lambda>values. io_return (map rnd values)))
       (\<lambda>error. io_then (emit (LogError ''Failed to generate embedding'')) (io_throw error))"

definition openai_generateEmbedding :: "env \<Rightarrow> string \<Rightarrow> double list io" where
  "openai_generateEmbedding env text =
     io_catch
       (io_bind (external (OpenAIEmbeddings [text]) (\<lambda>t. openai_embeddings_create env t [text]))
          (\<lambda>data. case data of
                     [] \<Rightarrow> io_throw (Error ''TypeError: Cannot read properties of undefined'')
                   | d # _ \<Rightarrow> io_return (map rnd d)))
       (\<lambda>error. io_then (emit (LogError ''Failed to generate embedding'')) (io_throw error))"



text \<open>
  \<^verbatim>\<open>GeminiService.generateEmbeddings\<close>: batches of 5; inside a batch
  \<^verbatim>\<open>Promise.all(batch.map((text) => this.generateEmbedding(text)))\<close>. Every call of
  \<^verbatim>\<open>generateEmbedding\<close> runs up to its request, so the requests of a batch are all sent,
  in input order, before an answer is looked at. \<^verbatim>\<open>Promise.all\<close> collects the answers in
  input order, and is rejected by the first request that fails; the answers are taken in
  the order of the requests, and the failed request writes its error line. (A further
  failed request of the same batch writes its line at a later time, which the trace does
  not hold.)
\<close>

fun first_failure :: "(error + 'a) list \<Rightarrow> error option" where
  "first_failure [] = None"
| "first_failure (Inl e # answers) = Some e"
| "first_failure (Inr v # answers) = first_failure answers"

fun answered :: "(error + 'a) list \<Rightarrow> 'a list" where
  "answered [] = []"
| "answered (Inl e # answers) = answered answers"
| "answered (Inr v # answers) = v # answered answers"

definition gemini_embed_batch :: "env \<Rightarrow> string list \<Rightarrow> world \<Rightarrow> (error + double list list) \<times> world" where
  "gemini_embed_batch env batch w =
     (let answers = map (\<lambda>(j, text). gemini_embedContent env (tick w + j) text)
                      (zip [0..<length batch] batch);
          w1 = w\<lparr>tick := tick w + length batch,
                 trace := trace w @ map GeminiEmbedContent batch\<rparr>
      in case first_failure answers of
           Some e \<Rightarrow> (Inl e, w1\<lparr>trace := trace w1 @ [LogError ''Failed to generate embedding'']\<rparr>)
         | None \<Rightarrow> (Inr (map (map rnd) (answered answers)), w1))"

function gemini_embeddings_loop ::
  "env \<Rightarrow> string list \<Rightarrow> nat \<Rightarrow> double list list \<Rightarrow> world \<Rightarrow> (error + double list list) \<times> world" where
  "gemini_embeddings_loop env texts i embeddings w =
     (if i < length texts then
        (let batch = take 5 (drop i texts) in
         case gemini_embed_batch env batch w of
           (Inl e, w1) \<Rightarrow> (Inl e, w1)
         | (Inr batchResults, w1) \<Rightarrow>
             (case (if i + 5 < length texts then emit (Delay 100) else io_return ()) w1 of
                (Inl e, w2) \<Rightarrow> (Inl e, w2)
              | (Inr _, w2) \<Rightarrow>
                  gemini_embeddings_loop env texts (i + 5) (embeddings @ batchResults) w2))
      else (Inr embeddings, w))"
  by pat_completeness auto
termination
  by (relation "measure (\<lambda>(env, texts, i, embeddings, w). length texts - i)") auto

definition gemini_generateEmbeddings :: "env \<Rightarrow> string list \<Rightarrow> double list list io" where
  "gemini_generateEmbeddings env texts =
     io_catch (gemini_embeddings_loop env texts 0 [])
       (\<lambda>error. io_then (emit (LogError ''Failed to generate embeddings'')) (io_throw error))"



section \<open>Semantic cache\<close>

text \<open>\<^verbatim>\<open>SIMILARITY_THRESHOLD = 0.85\<close>: the double nearest to 0.85.\<close>

definition SIMILARITY_THRESHOLD :: double where
  "SIMILARITY_THRESHOLD = rnd (85 / 100)"

record CachedResponse =
  cr_id :: string
  cr_question :: string
  cr_answer :: string
  cr_source :: string
  cr_similarity :: "double option"
  cr_usageCount :: nat
  cr_lastUsedAt :: nat
  cr_documentSources :: "string list option"

record CacheSearchResult =
  csr_found :: bool
  csr_response :: "CachedResponse option"
  csr_similarity :: "double option"

definition not_found :: CacheSearchResult where
  "not_found = \<lparr>csr_found = False, csr_response = None, csr_similarity = None\<rparr>"

text \<open>
  \<^verbatim>\<open>qaCacheRepository.find({ where: { userId }, order: { lastUsedAt: 'DESC' }, take: 100 })\<close>.
  Rows with equal \<^verbatim>\<open>lastUsedAt\<close> keep their table order.
\<close>

definition find_recent :: "string \<Rightarrow> QACache list \<Rightarrow> QACache list" where
  "find_recent userId table =
     take 100 (sort_key (\<lambda>e. - int (qc_lastUsedAt e)) (filter (\<lambda>e. qc_userId e = userId) table))"

text \<open>
  The loop \<^verbatim>\<open>for (const item of cachedItems)\<close> of \<^verbatim>\<open>searchCache\<close>, on the pair
  \<^verbatim>\<open>(bestMatch, highestSimilarity)\<close>. \<^verbatim>\<open>similarity > highestSimilarity\<close> is false for a
  similarity that is NaN.
\<close>

fun best_match_loop ::
  "double list \<Rightarrow> QACache list \<Rightarrow> QACache option \<times> double \<Rightarrow> QACache option \<times> double" where
  "best_match_loop questionEmbedding [] acc = acc"
| "best_match_loop questionEmbedding (item # items) (bestMatch, highestSimilarity) =
     (case qc_embedding item of
        None \<Rightarrow> best_match_loop questionEmbedding items (bestMatch, highestSimilarity)
      | Some embedding \<Rightarrow>
          (let cachedEmbedding = map json_parse embedding in
           case cosineSimilarity questionEmbedding cachedEmbedding of
             None \<Rightarrow> best_match_loop questionEmbedding items (bestMatch, highestSimilarity)
           | Some similarity \<Rightarrow>
               if d_less highestSimilarity similarity
               then best_match_loop questionEmbedding items (Some item, similarity)
               else best_match_loop questionEmbedding items (bestMatch, highestSimilarity)))"

text \<open>The result that \<^verbatim>\<open>searchCache\<close> builds on a hit.\<close>

definition hit_result :: "QACache \<Rightarrow> double \<Rightarrow> nat \<Rightarrow> CacheSearchResult" where
  "hit_result bm s t =
     \<lparr>csr_found = True,
      csr_response = Some \<lparr>cr_id = qc_id bm, cr_question = qc_question bm, cr_answer = qc_answer bm,
                            cr_source = ''cached'', cr_similarity = Some s,
                            cr_usageCount = qc_usageCount bm + 1, cr_lastUsedAt = t,
                            cr_documentSources = qc_documentSources bm\<rparr>,
      csr_similarity = Some s\<rparr>"

text \<open>
  \<^verbatim>\<open>qaCacheRepository.update(cacheId, { usageCount: () => 'usage_count + 1', lastUsedAt: new Date() })\<close>.
  TypeORM copies the text that the function returns into the statement,
  \<^verbatim>\<open>UPDATE "qa_cache" SET "usageCount" = usage_count + 1, "lastUsedAt" = $1, "updatedAt" = CURRENT_TIMESTAMP WHERE "id" IN ($2)\<close>,
  and PostgreSQL resolves the identifier of that text against the columns of the table. A
  column of an entity carries the name of its property (no column of \<^verbatim>\<open>QACache\<close> is given
  a name, and no naming strategy is configured), and \<^verbatim>\<open>usageCount\<close> is the only integer
  column: the statement is rejected, whatever the rows are, unless the identifier is
  \<^verbatim>\<open>usageCount\<close> in double quotes (PostgreSQL reads an identifier without quotes in
  lower case).
\<close>

definition increment_column :: "env \<Rightarrow> string \<Rightarrow> string \<Rightarrow> unit io" where
  "increment_column env identifier cacheId = (\<lambda>w.
     case db_fault env (tick w) of
       Some e \<Rightarrow> (Inl e, w\<lparr>tick := Suc (tick w)\<rparr>)
     | None \<Rightarrow>
         if identifier = [CHR 0x22] @ ''usageCount'' @ [CHR 0x22]
         then (Inr (), w\<lparr>tick := Suc (tick w),
                         qa_cache := map (\<lambda>e. if qc_id e = cacheId
                                                then e\<lparr>qc_usageCount := qc_usageCount e + 1,
                                                       qc_lastUsedAt := now w, qc_updatedAt := now w\<rparr>
                                                else e) (qa_cache w)\<rparr>)
         else (Inl (Error (''column '' @ identifier @ '' does not exist'')),
               w\<lparr>tick := Suc (tick w)\<rparr>))"

definition updateUsageStats :: "env \<Rightarrow> string \<Rightarrow> unit io" where
  "updateUsageStats env cacheId =
     io_catch (increment_column env ''usage_count'' cacheId)
       (\<lambda>error. emit (LogError ''Error updating usage stats:''))"

definition searchCache :: "env \<Rightarrow> string \<Rightarrow> string \<Rightarrow> CacheSearchResult io" where
  "searchCache env question userId =
     io_catch
       (io_bind (gemini_generateEmbedding env question) (\<lambda>questionEmbedding.
        io_bind (db_op env (\<lambda>w. (find_recent userId (qa_cache w), w))) (\<lambda>cachedItems.
          if length cachedItems = 0 then io_return not_found
          else
            (case best_match_loop questionEmbedding cachedItems (None, Num 0) of
               (bestMatch, highestSimilarity) \<Rightarrow>
                 (case bestMatch of
                    Some bm \<Rightarrow>
                      if d_greater_eq highestSimilarity SIMILARITY_THRESHOLD then
                        io_then (updateUsageStats env (qc_id bm))
                          (\<lambda>w. (Inr \<lparr>csr_found = True,
                                       csr_response = Some \<lparr>cr_id = qc_id bm,
                                                        cr_question = qc_question bm,
                                                        cr_answer = qc_answer bm,
                                                        cr_source = ''cached'',
                                                        cr_similarity = Some highestSimilarity,
                                                        cr_usageCount = qc_usageCount bm + 1,
                                                        cr_lastUsedAt = now w,
                                                        cr_documentSources = qc_documentSources bm\<rparr>,
                                       csr_similarity = Some highestSimilarity\<rparr>, w))
                      else io_return not_found
                  | None \<Rightarrow> io_return not_found)))))
       (\<lambda>error. io_then (emit (LogError ''Error searching cache:'')) (io_return not_found))"

definition saveToCache ::
  "env \<Rightarrow> string \<Rightarrow> string \<Rightarrow> string \<Rightarrow> string \<Rightarrow> string \<Rightarrow> string list option \<Rightarrow> unit io" where
  "saveToCache env userId question answer source model documentSources =
     io_catch
       (io_bind (gemini_generateEmbedding env question) (\<lambda>embedding.
          db_op env (\<lambda>w. ((), w\<lparr>qa_cache := qa_cache w @
             [\<lparr>qc_id = uuidv4 env (tick w),
               qc_userId = userId,
               qc_question = question,
               qc_answer = answer,
               qc_source = source,
               qc_model = model,
               qc_documentSources = documentSources,
               qc_usageCount = 1,
               qc_embedding = Some (map json_stringify embedding),
               qc_createdAt = now w,
               qc_updatedAt = now w,
               qc_lastUsedAt = now w\<rparr>]\<rparr>))))
       (\<lambda>error.
          io_then (emit (LogError (''Error saving to cache: '' @ error_message error)))
                  (emit (LogError ''error.stack'')))"


section \<open>Language model provider\<close>

text \<open>
  \<^verbatim>\<open>OpenAIService\<close> and the wrapper \<^verbatim>\<open>AIService\<close> that \<^verbatim>\<open>ChatService\<close> calls.
  The sampling options (temperature, token limit) do not influence control flow and are
  not part of the model.
\<close>

definition system_message :: "string option \<Rightarrow> string" where
  "system_message context =
     ''You are a helpful AI assistant.''
     @ (case context of
          None \<Rightarrow> []
        | Some c \<Rightarrow> if c \<noteq> [] then ''\<newline>\<newline>Context information:\<newline>'' @ c else [])
     @ ''\<newline>\<newline>Please provide a helpful and accurate answer based on the context provided. If the context doesn't contain enough information to answer the question, please say so clearly.''"

definition chat_messages ::
  "string \<Rightarrow> string option \<Rightarrow> ChatMessage list option \<Rightarrow> (string \<times> string) list" where
  "chat_messages message context history =
     [(''system'', system_message context)]
     @ (case history of
          None \<Rightarrow> []
        | Some h \<Rightarrow>
            map (\<lambda>msg. (if cm_role msg = User then ''user'' else ''assistant'', cm_content msg)) h)
     @ [(''user'', message)]"

definition openai_chat ::
  "env \<Rightarrow> string \<Rightarrow> string option \<Rightarrow> ChatMessage list option \<Rightarrow> string option \<Rightarrow> string io" where
  "openai_chat env message context history modelOverride =
     io_catch
       (let messages = chat_messages message context history;
            modelToUse = js_or modelOverride (cfg_openai_model env)
        in external (OpenAIChatCompletion modelToUse messages)
             (\<lambda>t. openai_chat_create env t modelToUse messages))
       (\<lambda>error. io_then (emit (LogError ''Failed to generate chat response'')) (io_throw error))"

definition openai_generateCompletion :: "env \<Rightarrow> string \<Rightarrow> string option \<Rightarrow> string io" where
  "openai_generateCompletion env prompt modelOverride =
     (let modelToUse = js_or modelOverride (cfg_openai_model env)
      in io_catch
           (external (OpenAIChatCompletion modelToUse [(''user'', prompt)])
              (\<lambda>t. openai_chat_create env t modelToUse [(''user'', prompt)]))
           (\<lambda>error.
              let errorMessage = (if error_message error \<noteq> [] then error_message error else ''Error'')
              in io_then (emit (LogError (''Failed to generate completion with '' @ modelToUse @ '': '' @ errorMessage)))
                (io_then
                  (if sublist ''API key'' errorMessage
                   then emit (LogError ''Check your OPENAI_API_KEY in .env file'')
                   else if sublist ''model'' errorMessage \<or> sublist ''not found'' errorMessage
                   then emit (LogError (''Model '' @ modelToUse @ '' may not be available.''))
                   else io_return ())
                  (io_throw error))))"

definition openai_analyzeImage :: "env \<Rightarrow> string \<Rightarrow> string \<Rightarrow> string \<Rightarrow> string option \<Rightarrow> string io" where
  "openai_analyzeImage env imageBuffer mimeType prompt modelOverride =
     io_catch
       (let modelToUse = js_or modelOverride ''gpt-4o-mini''
        in external (OpenAIImageCompletion modelToUse prompt mimeType imageBuffer)
             (\<lambda>t. openai_vision_create env t modelToUse mimeType imageBuffer prompt))
       (\<lambda>error. io_then (emit (LogError ''Failed to analyze image'')) (io_throw error))"

text \<open>\<^verbatim>\<open>AIService\<close>: each method hands its arguments, the model override included, to \<^verbatim>\<open>OpenAIService\<close>.\<close>

definition aiService_generateEmbedding :: "env \<Rightarrow> string \<Rightarrow> double list io" where
  "aiService_generateEmbedding env text = openai_generateEmbedding env text"

definition aiService_chat ::
  "env \<Rightarrow> string \<Rightarrow> string option \<Rightarrow> ChatMessage list option \<Rightarrow> string option \<Rightarrow> string io" where
  "aiService_chat env message context history modelOverride =
     openai_chat env message context history modelOverride"

definition aiService_generateCompletion :: "env \<Rightarrow> string \<Rightarrow> string option \<Rightarrow> string io" where
  "aiService_generateCompletion env prompt modelOverride =
     openai_generateCompletion env prompt modelOverride"

definition aiService_analyzeImage :: "env \<Rightarrow> string \<Rightarrow> string \<Rightarrow> string \<Rightarrow> string option \<Rightarrow> string io" where
  "aiService_analyzeImage env imageBuffer mimeType prompt modelOverride =
     openai_analyzeImage env imageBuffer mimeType prompt modelOverride"

text \<open>
  \<^verbatim>\<open>AskQuestionDto.model\<close>: \<^verbatim>\<open>@IsEnum(OpenAIModel) @IsOptional()\<close>, the validation of the
  request body in front of the controller.
\<close>

definition OpenAIModel :: "string list" where
  "OpenAIModel = [''gpt-4o-mini'', ''gpt-4o'', ''gpt-4-turbo'', ''gpt-3.5-turbo'']"

definition validate_model :: "string option \<Rightarrow> error + string option" where
  "validate_model model =
     (case model of
        None \<Rightarrow> Inr None
      | Some m \<Rightarrow>
          if m \<in> set OpenAIModel then Inr (Some m)
          else Inl (BadRequestException
                 ''Model must be one of: gpt-4o-mini, gpt-4o, gpt-4-turbo, gpt-3.5-turbo''))"

text \<open>
  The model families that the repository's note on model validation lists for the other
  provider (\<^verbatim>\<open>MODEL_VALIDATION_FIX.md\<close>: a name is a Gemini model when it starts with
  \<^verbatim>\<open>gemini-\<close> or \<^verbatim>\<open>text-embedding-\<close>, after lower-casing).
\<close>

definition isGeminiModel :: "string \<Rightarrow> bool" where
  "isGeminiModel lowerModel = (prefix ''gemini-'' lowerModel \<or> prefix ''text-embedding-'' lowerModel)"

section \<open>Vector store\<close>

definition not_initialized :: error where
  "not_initialized = Error ''ChromaDB is not initialized. Please start ChromaDB server.''"

definition undefined_collection :: error where
  "undefined_collection = Error ''TypeError: Cannot read properties of undefined''"

text \<open>
  The four requests to the ChromaDB collection. A request on an undefined
  \<^verbatim>\<open>this.collection\<close> is a \<^verbatim>\<open>TypeError\<close> before anything is sent.
\<close>

definition collection_add ::
  "env \<Rightarrow> string list \<Rightarrow> double list list \<Rightarrow> string list \<Rightarrow> Metadata list \<Rightarrow> unit io" where
  "collection_add env ids embeddings documents metadatas = (\<lambda>w.
     case collection w of
       None \<Rightarrow> (Inl undefined_collection, w)
     | Some stored \<Rightarrow>
         (let w1 = w\<lparr>tick := Suc (tick w), trace := trace w @ [CollectionAdd documents]\<rparr>
          in case chroma_fault env (tick w) of
               Some e \<Rightarrow> (Inl e, w1)
             | None \<Rightarrow>
                 (Inr (), w1\<lparr>collection := Some (stored @
                    map (\<lambda>(i, e, d, m). \<lparr>st_id = i, st_embedding = e, st_document = d, st_metadata = m\<rparr>)
                      (zip ids (zip embeddings (zip documents metadatas))))\<rparr>)))"

definition collection_query :: "env \<Rightarrow> double list \<Rightarrow> nat \<Rightarrow> QueryResult io" where
  "collection_query env queryEmbedding nResults = (\<lambda>w.
     case collection w of
       None \<Rightarrow> (Inl undefined_collection, w)
     | Some stored \<Rightarrow>
         (chroma_query env (tick w) stored queryEmbedding nResults,
          w\<lparr>tick := Suc (tick w), trace := trace w @ [CollectionQuery nResults]\<rparr>))"

definition collection_get_where :: "env \<Rightarrow> string \<Rightarrow> string list io" where
  "collection_get_where env documentId = (\<lambda>w.
     case collection w of
       None \<Rightarrow> (Inl undefined_collection, w)
     | Some stored \<Rightarrow>
         (let w1 = w\<lparr>tick := Suc (tick w), trace := trace w @ [CollectionGetWhere documentId]\<rparr>
          in case chroma_fault env (tick w) of
               Some e \<Rightarrow> (Inl e, w1)
             | None \<Rightarrow>
                 (Inr (map st_id (filter (\<lambda>c. md_documentId (st_metadata c) = Some documentId) stored)), w1)))"

definition collection_delete_ids :: "env \<Rightarrow> string list \<Rightarrow> unit io" where
  "collection_delete_ids env ids = (\<lambda>w.
     case collection w of
       None \<Rightarrow> (Inl undefined_collection, w)
     | Some stored \<Rightarrow>
         (let w1 = w\<lparr>tick := Suc (tick w), trace := trace w @ [CollectionDeleteIds ids]\<rparr>
          in case chroma_fault env (tick w) of
               Some e \<Rightarrow> (Inl e, w1)
             | None \<Rightarrow>
                 (Inr (), w1\<lparr>collection := Some (filter (\<lambda>c. st_id c \<notin> set ids) stored)\<rparr>)))"

text \<open>\<^verbatim>\<open>chunks.map((chunk) => chunk.id || uuidv4())\<close>\<close>

fun chunk_ids :: "env \<Rightarrow> DocumentChunk list \<Rightarrow> string list io" where
  "chunk_ids env [] = io_return []"
| "chunk_ids env (chunk # chunks) =
     io_bind (case dc_id chunk of
                None \<Rightarrow> gen_uuid env
              | Some i \<Rightarrow> if i \<noteq> [] then io_return i else gen_uuid env) (\<lambda>i.
     io_bind (chunk_ids env chunks) (\<lambda>ids. io_return (i # ids)))"

definition addDocuments :: "env \<Rightarrow> DocumentChunk list \<Rightarrow> double list list \<Rightarrow> unit io" where
  "addDocuments env chunks embeddings = (\<lambda>w.
     case collection w of
       None \<Rightarrow> (Inl not_initialized, w)
     | Some _ \<Rightarrow>
         io_catch
           (if length chunks \<noteq> length embeddings
            then io_throw (Error ''Number of chunks must match number of embeddings'')
            else io_bind (chunk_ids env chunks) (\<lambda>ids.
                   collection_add env ids embeddings (map dc_content chunks) (map dc_metadata chunks)))
           (\<lambda>error. io_then (emit (LogError ''Failed to add documents to vector store'')) (io_throw error))
           w)"

text \<open>
  \<^verbatim>\<open>VectorService.search\<close>; the score is \<^verbatim>\<open>1 - results.distances[0][i]\<close>, a
  subtraction of doubles.
\<close>

definition search :: "env \<Rightarrow> double list \<Rightarrow> nat \<Rightarrow> SearchResult list io" where
  "search env queryEmbedding topK = (\<lambda>w.
     case collection w of
       None \<Rightarrow> (Inl not_initialized, w)
     | Some _ \<Rightarrow>
         io_catch
           (io_bind (collection_query env queryEmbedding topK) (\<lambda>results.
              if qr_rows results = [] then io_return []
              else io_return
                     (map (\<lambda>(i, d, m, dist).
                             \<lparr>sr_id = i, sr_content = d, sr_metadata = m,
                              sr_score = (if qr_has_distances results
                                          then d_sub (Num 1) (rnd dist) else Num 0)\<rparr>)
                        (qr_rows results))))
           (\<lambda>error. io_then (emit (LogError ''Failed to search vector store'')) (io_throw error))
           w)"

text \<open>\<^verbatim>\<open>VectorService.deleteDocumentsByDocId\<close>\<close>

definition deleteDocumentsByDocId :: "env \<Rightarrow> string \<Rightarrow> unit io" where
  "deleteDocumentsByDocId env documentId =
     io_catch
       (io_bind (collection_get_where env documentId) (\<lambda>ids.
          if length ids > 0 then collection_delete_ids env ids else io_return ()))
       (\<lambda>error. io_then (emit (LogError ''Failed to delete documents from vector store'')) (io_throw error))"

text \<open>\<^verbatim>\<open>IngestionService.deleteDocument\<close>\<close>

definition deleteDocument :: "env \<Rightarrow> string \<Rightarrow> unit io" where
  "deleteDocument env documentId =
     io_catch (deleteDocumentsByDocId env documentId)
       (\<lambda>error. io_then (emit (LogError (''Failed to delete document: '' @ documentId))) (io_throw error))"


section \<open>Ingestion and re-indexing\<close>

text \<open>
  \<^verbatim>\<open>IngestionService.processDocument\<close> and \<^verbatim>\<open>DocumentsService.reindexAllDocuments\<close>.
  Reading the file (PDF parser or file system) and the text splitter are the environment's.
\<close>

record ProcessedDocument =
  pd_documentId :: string
  pd_fileName :: string
  pd_totalChunks :: nat
  pd_status :: string
  pd_message :: "string option"

definition extractText :: "env \<Rightarrow> string \<Rightarrow> string \<Rightarrow> string io" where
  "extractText env filePath mimeType =
     (case read_document env filePath mimeType of
        Inr t \<Rightarrow> io_return t
      | Inl msg \<Rightarrow>
          if mimeType = ''application/pdf''
          then io_then (emit (LogError ''Failed to extract text from PDF''))
                 (io_throw (Error (''PDF extraction failed: '' @ msg)))
          else io_then (emit (LogError ''Failed to read text file''))
                 (io_throw (Error (''File reading failed: '' @ msg))))"

definition splitText :: "env \<Rightarrow> string \<Rightarrow> string list io" where
  "splitText env t =
     (case split_text env t of
        Inr chunks \<Rightarrow> io_return chunks
      | Inl msg \<Rightarrow>
          io_then (emit (LogError ''Failed to split text''))
            (io_throw (Error (''Text splitting failed: '' @ msg))))"

text \<open>
  \<^verbatim>\<open>chunks.map((content, index) => ({ id: uuidv4(), content, metadata: ... }))\<close>; the
  additional metadata that the callers pass, \<^verbatim>\<open>uploadedDocumentId\<close>, names no field of
  the chunk's own metadata.
\<close>

fun document_chunks ::
  "env \<Rightarrow> string \<Rightarrow> string \<Rightarrow> nat \<Rightarrow> (string \<times> string) list \<Rightarrow> nat \<Rightarrow> string list \<Rightarrow> DocumentChunk list io" where
  "document_chunks env documentId fileName totalChunks additional index [] = io_return []"
| "document_chunks env documentId fileName totalChunks additional index (content # rest) =
     io_bind (gen_uuid env) (\<lambda>u.
     io_bind get_now (\<lambda>t.
     io_bind (document_chunks env documentId fileName totalChunks additional (Suc index) rest) (\<lambda>chunks.
       io_return
         (\<lparr>dc_id = Some u, dc_content = content,
           dc_metadata = \<lparr>md_documentId = Some documentId, md_fileName = Some fileName,
                          md_chunkIndex = Some index, md_totalChunks = Some totalChunks,
                          md_source = Some ''upload'', md_createdAt = None,
                          md_uploadedAt = Some t, md_extra = additional\<rparr>\<rparr> # chunks))))"

definition processDocument ::
  "env \<Rightarrow> string \<Rightarrow> string \<Rightarrow> string \<Rightarrow> (string \<times> string) list \<Rightarrow> ProcessedDocument io" where
  "processDocument env filePath fileName mimeType additionalMetadata =
     io_bind (gen_uuid env) (\<lambda>documentId.
       io_catch
         (io_bind (extractText env filePath mimeType) (\<lambda>t.
            if t = [] \<or> length (js_trim t) = 0
            then io_throw (Error ''No text content extracted from document'')
            else
              io_bind (splitText env t) (\<lambda>chunks.
              io_bind (document_chunks env documentId fileName (length chunks) additionalMetadata 0 chunks)
                (\<lambda>documentChunks.
              io_bind (gemini_generateEmbeddings env (map dc_content documentChunks)) (\<lambda>embeddings.
              io_then (addDocuments env documentChunks embeddings)
                (io_return \<lparr>pd_documentId = documentId, pd_fileName = fileName,
                             pd_totalChunks = length chunks, pd_status = ''success'',
                             pd_message = None\<rparr>))))))
         (\<lambda>error.
            io_then (emit (LogError (''Failed to process document: '' @ fileName)))
              (io_return \<lparr>pd_documentId = documentId, pd_fileName = fileName, pd_totalChunks = 0,
                           pd_status = ''failed'', pd_message = Some (error_message error)\<rparr>)))"

text \<open>\<^verbatim>\<open>documentRepository.save(document)\<close> of a row read from the table.\<close>

definition save_document :: "env \<Rightarrow> DocumentEntity \<Rightarrow> unit io" where
  "save_document env document =
     db_op env (\<lambda>w. ((), w\<lparr>document_table :=
       map (\<lambda>d. if doc_id d = doc_id document then document else d) (document_table w)\<rparr>))"

record ReindexResult =
  rr_success :: bool
  rr_totalDocuments :: nat
  rr_reindexed :: nat
  rr_failed :: nat
  rr_errors :: "string list option"

text \<open>
  The body of the loop \<^verbatim>\<open>for (const document of allDocuments)\<close> on the counters
  \<^verbatim>\<open>(reindexed, failed, errors)\<close>: one \<^verbatim>\<open>try\<close> with a \<^verbatim>\<open>catch\<close> that marks the
  document as failed.
\<close>

definition reindex_document ::
  "env \<Rightarrow> DocumentEntity \<Rightarrow> nat \<times> nat \<times> string list \<Rightarrow> (nat \<times> nat \<times> string list) io" where
  "reindex_document env document counters =
     (case counters of (reindexed, failed, errors) \<Rightarrow>
        io_catch
          (io_then (save_document env (document\<lparr>doc_status := ''processing''\<rparr>))
            (io_then (deleteDocument env (doc_id document))
              (io_bind (processDocument env (doc_filePath document) (doc_originalName document)
                          (doc_mimeType document) [(''uploadedDocumentId'', doc_id document)])
                 (\<lambda>processed.
                    io_then (save_document env (document\<lparr>doc_status := ''completed''\<rparr>))
                      (io_return (reindexed + 1, failed, errors))))))
          (\<lambda>error.
             io_then (emit (LogError (''Failed to re-index '' @ doc_originalName document @ '': ''
                                       @ error_message error)))
               (io_then (save_document env (document\<lparr>doc_status := ''failed'',
                                                       doc_errorMessage := Some (error_message error)\<rparr>))
                  (io_return (reindexed, failed + 1,
                              errors @ [doc_originalName document @ '': '' @ error_message error])))))"

fun reindex_loop ::
  "env \<Rightarrow> DocumentEntity list \<Rightarrow> nat \<times> nat \<times> string list \<Rightarrow> world \<Rightarrow>
   (error + nat \<times> nat \<times> string list) \<times> world" where
  "reindex_loop env [] counters w = (Inr counters, w)"
| "reindex_loop env (document # rest) counters w =
     (case reindex_document env document counters w of
        (Inl e, w1) \<Rightarrow> (Inl e, w1)
      | (Inr counters1, w1) \<Rightarrow> reindex_loop env rest counters1 w1)"

definition reindexAllDocuments :: "env \<Rightarrow> string \<Rightarrow> ReindexResult io" where
  "reindexAllDocuments env userId =
     io_catch
       (io_bind (db_op env (\<lambda>w. (filter (\<lambda>d. doc_userId d = userId) (document_table w), w))) (\<lambda>allDocuments.
          if length allDocuments = 0
          then io_then (emit (LogWarn ''No documents to re-index''))
                 (io_return \<lparr>rr_success = True, rr_totalDocuments = 0, rr_reindexed = 0,
                              rr_failed = 0, rr_errors = None\<rparr>)
          else
            io_bind (reindex_loop env allDocuments (0, 0, [])) (\<lambda>(reindexed, failed, errors).
              io_return \<lparr>rr_success = True, rr_totalDocuments = length allDocuments,
                          rr_reindexed = reindexed, rr_failed = failed,
                          rr_errors = (if failed > 0 then Some errors else None)\<rparr>)))
       (\<lambda>error.
          io_then (emit (LogError (''Failed to re-index documents: '' @ error_message error)))
            (io_throw error))"

section \<open>Chat service\<close>

datatype ResponseSource = cached | knowledge_base | ai_generated | hybrid

fun source_name :: "ResponseSource \<Rightarrow> string" where
  "source_name cached = ''cached''"
| "source_name knowledge_base = ''knowledge_base''"
| "source_name ai_generated = ''ai_generated''"
| "source_name hybrid = ''hybrid''"

record Source =
  src_content :: string
  src_fileName :: string
  src_score :: double
  src_chunkIndex :: "nat option"
  src_source :: "string option"

record FileInfo =
  fi_fileName :: string
  fi_mimeType :: "string option"
  fi_size :: nat
  fi_type :: "string option"
  fi_extractedLength :: "nat option"

record ChatResponse =
  rs_sessionId :: string
  rs_message :: string
  rs_answer :: string
  rs_sources :: "Source list"
  rs_responseSource :: ResponseSource
  rs_relevanceScore :: "double option"
  rs_modelUsed :: string
  rs_suggestedQuestions :: "string list option"
  rs_timestamp :: nat
  rs_fromCache :: "bool option"
  rs_cacheSimilarity :: "double option"
  rs_fileProcessed :: "FileInfo option"

record ChatRequest =
  rq_message :: string
  rq_sessionId :: "string option"
  rq_includeHistory :: "bool option"
  rq_topK :: "nat option"
  rq_model :: "string option"
  rq_file :: "UploadedFile option"

record ProcessedFile =
  pf_fileName :: string
  pf_mimeType :: string
  pf_size :: nat
  pf_content :: "string option"
  pf_imageData :: "string option"
  pf_error :: "string option"

text \<open>
  \<^verbatim>\<open>FileProcessorService.processFile\<close>. The text extraction of PDF, spreadsheet and Word
  files is the environment's; a failed extraction is caught and reported in the result.
\<close>

definition processFile :: "env \<Rightarrow> UploadedFile \<Rightarrow> ProcessedFile io" where
  "processFile env file =
     (let result = \<lparr>pf_fileName = f_originalname file, pf_mimeType = f_mimetype file,
                    pf_size = f_size file, pf_content = None, pf_imageData = None, pf_error = None\<rparr>
      in if prefix ''image/'' (f_mimetype file)
         then io_return (result\<lparr>pf_imageData := Some (f_buffer file)\<rparr>)
         else if f_mimetype file \<in> set
                   [''application/pdf'',
                    ''application/vnd.openxmlformats-officedocument.spreadsheetml.sheet'',
                    ''application/vnd.ms-excel'',
                    ''text/csv'',
                    ''application/vnd.openxmlformats-officedocument.wordprocessingml.document'',
                    ''application/msword'']
         then (case extract_text env file of
                 Inr text \<Rightarrow> io_return (result\<lparr>pf_content := Some text\<rparr>)
               | Inl msg \<Rightarrow>
                   io_then (emit (LogError (''Error processing file: '' @ msg)))
                     (io_return (result\<lparr>pf_error := Some (''Failed to process file: '' @ msg)\<rparr>)))
         else if prefix ''text/'' (f_mimetype file)
         then io_return (result\<lparr>pf_content := Some (f_buffer file)\<rparr>)
         else io_then (emit (LogWarn (''Unsupported file type: '' @ f_mimetype file)))
                (io_return (result\<lparr>pf_error := Some ''Unsupported file type''\<rparr>)))"

definition createSession :: "env \<Rightarrow> string \<Rightarrow> ChatSession io" where
  "createSession env userId =
     db_op env (\<lambda>w.
       let sessionEntity = \<lparr>cs_id = uuidv4 env (tick w), cs_userId = userId, cs_messages = Some [],
                             cs_createdAt = now w, cs_updatedAt = now w\<rparr>
       in (\<lparr>s_id = cs_id sessionEntity, s_userId = cs_userId sessionEntity, s_history = [],
            s_createdAt = cs_createdAt sessionEntity, s_updatedAt = cs_updatedAt sessionEntity\<rparr>,
           w\<lparr>chat_sessions := chat_sessions w @ [sessionEntity]\<rparr>))"

definition getSession :: "env \<Rightarrow> string \<Rightarrow> ChatSession option io" where
  "getSession env sessionId =
     io_bind (db_op env (\<lambda>w. (find (\<lambda>e. cs_id e = sessionId) (chat_sessions w), w))) (\<lambda>sessionEntity.
       case sessionEntity of
         None \<Rightarrow> io_return None
       | Some e \<Rightarrow>
           io_return (Some \<lparr>s_id = cs_id e, s_userId = cs_userId e,
                            s_history = (case cs_messages e of None \<Rightarrow> [] | Some m \<Rightarrow> m),
                            s_createdAt = cs_createdAt e, s_updatedAt = cs_updatedAt e\<rparr>))"

text \<open>\<^verbatim>\<open>sessionRepository.update(id, { messages, updatedAt })\<close>\<close>

definition session_update :: "env \<Rightarrow> string \<Rightarrow> ChatMessage list \<Rightarrow> nat \<Rightarrow> unit io" where
  "session_update env sessionId messages updatedAt =
     db_op env (\<lambda>w. ((), w\<lparr>chat_sessions :=
       map (\<lambda>e. if cs_id e = sessionId then e\<lparr>cs_messages := Some messages, cs_updatedAt := updatedAt\<rparr> else e)
         (chat_sessions w)\<rparr>))"

definition deleteSession :: "env \<Rightarrow> string \<Rightarrow> string \<Rightarrow> unit io" where
  "deleteSession env sessionId userId =
     io_bind (getSession env sessionId) (\<lambda>session.
       case session of
         None \<Rightarrow> io_return ()
       | Some s \<Rightarrow>
           if s_userId s = userId
           then db_op env (\<lambda>w. ((), w\<lparr>chat_sessions := filter (\<lambda>e. cs_id e \<noteq> sessionId) (chat_sessions w)\<rparr>))
           else io_return ())"

definition clearSessionHistory :: "env \<Rightarrow> string \<Rightarrow> string \<Rightarrow> unit io" where
  "clearSessionHistory env sessionId userId =
     io_bind (getSession env sessionId) (\<lambda>session.
       case session of
         None \<Rightarrow> io_return ()
       | Some s \<Rightarrow>
           if s_userId s = userId
           then io_bind get_now (\<lambda>t. session_update env sessionId [] t)
           else io_return ())"

definition qa_document :: "string \<Rightarrow> string \<Rightarrow> string" where
  "qa_document question answer = ''Question: '' @ question @ ''\<newline>\<newline>Answer: '' @ answer"

definition saveAIResponseToKnowledgeBase :: "env \<Rightarrow> string \<Rightarrow> string \<Rightarrow> string \<Rightarrow> unit io" where
  "saveAIResponseToKnowledgeBase env question answer userId =
     io_catch
       (let qaDocument = qa_document question answer in
        io_bind (aiService_generateEmbedding env qaDocument) (\<lambda>embedding.
        io_bind (gen_uuid env) (\<lambda>u.
        io_bind get_now (\<lambda>t.
          let documentId = ''ai-qa-'' @ u;
              chunk = \<lparr>dc_id = Some documentId,
                       dc_content = qaDocument,
                       dc_metadata = \<lparr>md_documentId = Some documentId,
                                      md_fileName = Some ''AI Generated Q&A'',
                                      md_chunkIndex = Some 0,
                                      md_totalChunks = Some 1,
                                      md_source = Some ''ai_generated'',
                                      md_createdAt = Some t,
                                      md_uploadedAt = None,
                                      md_extra = [(''type'', ''qa_pair''), (''question'', question),
                                                  (''answer'', answer), (''userId'', userId)]\<rparr>\<rparr>
          in addDocuments env [chunk] [embedding]))))
       (\<lambda>error. io_then (emit (LogError ''Failed to save AI response to knowledge base'')) (io_throw error))"

definition source_label :: "SearchResult \<Rightarrow> string \<Rightarrow> string" where
  "source_label r d = (case sr_metadata r of None \<Rightarrow> d | Some m \<Rightarrow> js_or (md_fileName m) d)"

text \<open>
  \<^verbatim>\<open>generateSuggestedQuestions\<close>. Splitting the completion into lines and cleaning them is
  the environment's \<open>parse_questions\<close>; \<^verbatim>\<open>.slice(0, 3)\<close> is \<open>take 3\<close>.
\<close>

definition suggestion_prompt :: "string \<Rightarrow> string \<Rightarrow> SearchResult list \<Rightarrow> string" where
  "suggestion_prompt userQuestion answer sources =
     ''Based on the following conversation, generate 3 relevant follow-up questions that the user might want to ask next.\<newline>\<newline>''
     @ ''User's Question: '' @ userQuestion @ ''\<newline>\<newline>''
     @ ''Assistant's Answer: '' @ answer @ ''\<newline>\<newline>''
     @ (if length sources > 0
        then ''Available Topics (from knowledge base):\<newline>''
             @ concat (map (\<lambda>(n, source). n @ ''. '' @ source_label source ''Document'' @ ''\<newline>'')
                         (zip [''1'', ''2'', ''3''] (take 3 sources)))
             @ ''\<newline>''
        else [])
     @ ''Generate exactly 3 short, specific follow-up questions (one per line, no numbering or bullets). ''
     @ ''Each question should be:\<newline>''
     @ ''- Directly related to the topic discussed\<newline>''
     @ ''- Natural and conversational\<newline>''
     @ ''- Something a user would realistically ask next\<newline>''
     @ ''- Between 5-15 words each\<newline>\<newline>''
     @ ''Output only the questions, one per line:''"

definition generateSuggestedQuestions ::
  "env \<Rightarrow> string \<Rightarrow> string \<Rightarrow> SearchResult list \<Rightarrow> string \<Rightarrow> string list io" where
  "generateSuggestedQuestions env userQuestion answer sources modelToUse =
     io_catch
       (let prompt = suggestion_prompt userQuestion answer sources in
        io_bind
          (io_catch (aiService_generateCompletion env prompt (Some modelToUse))
             (\<lambda>error. io_then (emit (LogWarn ''Could not generate suggestions, using main model''))
                         (aiService_generateCompletion env prompt (Some modelToUse))))
          (\<lambda>response. io_return (take 3 (parse_questions env response))))
       (\<lambda>error. io_then (emit (LogWarn (''Could not generate suggested questions: '' @ error_message error)))
                   (io_return []))"

definition buildContext :: "SearchResult list \<Rightarrow> string" where
  "buildContext results =
     (if length results = 0 then ''No relevant context found in the knowledge base.''
      else ''Relevant information from the knowledge base:\<newline>\<newline>''
           @ concat (map (\<lambda>result. sr_content result @ ''\<newline>\<newline>'') results))"

definition truncateText :: "string \<Rightarrow> nat \<Rightarrow> string" where
  "truncateText text maxLength =
     (if length text \<le> maxLength then text else take maxLength text @ ''...'')"

text \<open>\<^verbatim>\<open>Math.max(...xs)\<close> on a non-empty list; the caller tests the length first.\<close>

fun max_score :: "SearchResult list \<Rightarrow> double" where
  "max_score [] = Num 0"
| "max_score (r # rs) = fold (\<lambda>x m. d_max m x) (map sr_score rs) (sr_score r)"

text \<open>\<^verbatim>\<open>xs.filter((v, i, a) => a.indexOf(v) === i)\<close>: the first occurrence of each value.\<close>

fun unique_values :: "string list \<Rightarrow> string list \<Rightarrow> string list" where
  "unique_values seen [] = []"
| "unique_values seen (v # vs) =
     (if v \<in> set seen then unique_values seen vs else v # unique_values (v # seen) vs)"

definition to_source :: "SearchResult \<Rightarrow> Source" where
  "to_source result =
     \<lparr>src_content = truncateText (sr_content result) 200,
      src_fileName = source_label result ''Unknown'',
      src_score = sr_score result,
      src_chunkIndex = (case sr_metadata result of None \<Rightarrow> None | Some m \<Rightarrow> md_chunkIndex m),
      src_source = (case sr_metadata result of None \<Rightarrow> None | Some m \<Rightarrow> md_source m)\<rparr>"

definition user_turn :: "string \<Rightarrow> ChatMessage" where
  "user_turn content = \<lparr>cm_role = User, cm_content = content\<rparr>"

definition assistant_turn :: "string \<Rightarrow> ChatMessage" where
  "assistant_turn content = \<lparr>cm_role = Assistant, cm_content = content\<rparr>"


text \<open>
  \<^verbatim>\<open>ChatService.chat\<close>, in the order of the source. Step 0: the cache probe and the
  answer from the cache.
\<close>

definition chat_cache_hit ::
  "env \<Rightarrow> string \<Rightarrow> ChatSession \<Rightarrow> CachedResponse \<Rightarrow> double option \<Rightarrow> ChatResponse io" where
  "chat_cache_hit env message session resp sim =
     io_bind get_now (\<lambda>t.
       let history = s_history session @ [user_turn message, assistant_turn (cr_answer resp)] in
       io_then (session_update env (s_id session) history t)
         (io_bind get_now (\<lambda>t'.
            io_return
              \<lparr>rs_sessionId = s_id session,
               rs_message = message,
               rs_answer = cr_answer resp,
               rs_sources =
                 (case cr_documentSources resp of
                    Some docs \<Rightarrow>
                      map (\<lambda>doc. \<lparr>src_content = [], src_fileName = doc, src_score = Num 1,
                                   src_chunkIndex = None, src_source = None\<rparr>) docs
                  | None \<Rightarrow> []),
               rs_responseSource = cached,
               rs_relevanceScore = None,
               rs_modelUsed = ''cached'',
               rs_suggestedQuestions = Some [],
               rs_timestamp = t',
               rs_fromCache = Some True,
               rs_cacheSimilarity = sim,
               rs_fileProcessed = None\<rparr>)))"

definition chat_cache_probe :: "env \<Rightarrow> string \<Rightarrow> string \<Rightarrow> ChatSession \<Rightarrow> ChatResponse option io" where
  "chat_cache_probe env userId message session =
     io_bind (searchCache env message userId) (\<lambda>cacheResult.
       case csr_response cacheResult of
         Some resp \<Rightarrow>
           if csr_found cacheResult
           then io_bind (chat_cache_hit env message session resp (csr_similarity cacheResult))
                  (\<lambda>r. io_return (Some r))
           else io_return None
       | None \<Rightarrow> io_return None)"

text \<open>Step 1: the uploaded file; an image is answered at once.\<close>

definition chat_image ::
  "env \<Rightarrow> string \<Rightarrow> string \<Rightarrow> ChatSession \<Rightarrow> ProcessedFile \<Rightarrow> string \<Rightarrow> ChatResponse io" where
  "chat_image env message modelToUse session processedFile imageData =
     (let imagePrompt = js_or (Some message)
            ''Please analyze this image and describe what you see in detail. Include any text, objects, patterns, colors, and relevant information.''
      in io_bind (aiService_analyzeImage env imageData (pf_mimeType processedFile) imagePrompt (Some modelToUse))
           (\<lambda>imageAnalysis.
         io_bind get_now (\<lambda>t.
           let history = s_history session @
                 [user_turn (''[Image: '' @ pf_fileName processedFile @ ''] '' @ js_or (Some message) ''Analyze this image''),
                  assistant_turn imageAnalysis]
           in io_then (session_update env (s_id session) history t)
                (io_bind get_now (\<lambda>t'.
                   io_return
                     \<lparr>rs_sessionId = s_id session,
                      rs_message = js_or (Some message) ''Analyze this image'',
                      rs_answer = imageAnalysis,
                      rs_sources = [],
                      rs_responseSource = ai_generated,
                      rs_relevanceScore = None,
                      rs_modelUsed = modelToUse,
                      rs_suggestedQuestions = Some [],
                      rs_timestamp = t',
                      rs_fromCache = None,
                      rs_cacheSimilarity = None,
                      rs_fileProcessed =
                        Some \<lparr>fi_fileName = pf_fileName processedFile, fi_mimeType = None,
                              fi_size = pf_size processedFile, fi_type = Some ''image'',
                              fi_extractedLength = None\<rparr>\<rparr>)))))"

definition file_context :: "string \<Rightarrow> string \<Rightarrow> string" where
  "file_context fileName content =
     (let maxContentLength = 15000;
          truncatedContent =
            (if length content > maxContentLength
             then take maxContentLength content @ ''\<newline>\<newline>[Content truncated...]''
             else content)
      in ''\<newline>\<newline>[User uploaded a file: '' @ fileName @ '']\<newline>\<newline>File content:\<newline>''
         @ truncatedContent @ ''\<newline>\<newline>---\<newline>\<newline>User's question about the file:'')"

definition chat_file ::
  "env \<Rightarrow> string \<Rightarrow> string \<Rightarrow> ChatSession \<Rightarrow> UploadedFile option \<Rightarrow>
   (ChatResponse + string \<times> FileInfo option) io" where
  "chat_file env message modelToUse session file =
     (case file of
        None \<Rightarrow> io_return (Inr ([], None))
      | Some f \<Rightarrow>
          io_bind (processFile env f) (\<lambda>processedFile.
            if truthy (pf_error processedFile)
            then io_throw (BadRequestException
                   (''File processing error: '' @ js_or (pf_error processedFile) []))
            else
              (let fileInfo = \<lparr>fi_fileName = pf_fileName processedFile,
                                fi_mimeType = Some (pf_mimeType processedFile),
                                fi_size = pf_size processedFile,
                                fi_type = None, fi_extractedLength = None\<rparr>
               in case pf_imageData processedFile of
                    Some imageData \<Rightarrow>
                      io_bind (chat_image env message modelToUse session processedFile imageData)
                        (\<lambda>r. io_return (Inl r))
                  | None \<Rightarrow>
                      (case pf_content processedFile of
                         Some content \<Rightarrow>
                           if content \<noteq> []
                           then io_return
                                  (Inr (file_context (pf_fileName processedFile) content,
                                        Some (fileInfo\<lparr>fi_type := Some ''document'',
                                                        fi_extractedLength := Some (length content)\<rparr>)))
                           else io_return (Inr ([], Some fileInfo))
                       | None \<Rightarrow> io_return (Inr ([], Some fileInfo))))))"

text \<open>
  Steps 3 to 5: the relevance gate and the answer. The result is the answer with its
  provenance.
\<close>

definition hasRelevantData :: "env \<Rightarrow> SearchResult list \<Rightarrow> bool" where
  "hasRelevantData env searchResults =
     (length searchResults > 0 \<and>
      list_ex (\<lambda>result. d_greater_eq (sr_score result) (relevanceThreshold env)) searchResults)"

definition chat_answer ::
  "env \<Rightarrow> string \<Rightarrow> string \<Rightarrow> string \<Rightarrow> ChatMessage list option \<Rightarrow> SearchResult list \<Rightarrow>
   (string \<times> ResponseSource) io" where
  "chat_answer env userId message modelToUse history searchResults =
     (if hasRelevantData env searchResults then
        (let context = buildContext searchResults in
         io_bind (aiService_chat env message (Some context) history (Some modelToUse)) (\<lambda>answer.
           io_return (answer, knowledge_base)))
      else
        io_bind (aiService_chat env message None history (Some modelToUse)) (\<lambda>answer.
          io_then
            (io_catch (saveAIResponseToKnowledgeBase env message answer userId)
               (\<lambda>error. emit (LogError ''Failed to save AI response to knowledge base'')))
            (io_return (answer, ai_generated))))"

text \<open>
  Step 6 and the response: the session update with its truncation, the suggestions, the
  response; then steps 1 to 5 in front of it: query embedding, vector search, answer.
\<close>

definition keep_last_10 :: "ChatMessage list \<Rightarrow> ChatMessage list" where
  "keep_last_10 history = (if length history > 10 then drop (length history - 10) history else history)"

definition document_sources :: "SearchResult list \<Rightarrow> string list" where
  "document_sources searchResults =
     unique_values []
       (map (\<lambda>r. source_label r [])
          (filter (\<lambda>r. case sr_metadata r of None \<Rightarrow> False | Some m \<Rightarrow> truthy (md_fileName m)) searchResults))"

definition chat_finish ::
  "env \<Rightarrow> ChatRequest \<Rightarrow> string \<Rightarrow> ChatSession \<Rightarrow> FileInfo option \<Rightarrow> SearchResult list \<Rightarrow>
   double \<Rightarrow> string \<Rightarrow> ResponseSource \<Rightarrow> (ChatResponse \<times> SearchResult list) io" where
  "chat_finish env request modelToUse session fileInfo searchResults maxScore answer responseSource =
     (let message = rq_message request in
      io_bind get_now (\<lambda>t.
        let pushed = s_history session @ [user_turn message, assistant_turn answer];
            kept = keep_last_10 pushed
        in
        io_then (session_update env (s_id session) kept t)
       (io_bind (if cfg_enableSuggestions env
                 then generateSuggestedQuestions env message answer searchResults modelToUse
                 else io_return []) (\<lambda>suggestedQuestions.
        io_bind get_now (\<lambda>t'.
          io_return
            (\<lparr>rs_sessionId = s_id session,
              rs_message = message,
              rs_answer = answer,
              rs_sources = map to_source searchResults,
              rs_responseSource = responseSource,
              rs_relevanceScore = Some maxScore,
              rs_modelUsed = modelToUse,
              rs_suggestedQuestions =
                (if length suggestedQuestions > 0 then Some suggestedQuestions else None),
              rs_timestamp = t',
              rs_fromCache = Some False,
              rs_cacheSimilarity = None,
              rs_fileProcessed = fileInfo\<rparr>,
             searchResults))))))"

definition chat_respond ::
  "env \<Rightarrow> string \<Rightarrow> ChatRequest \<Rightarrow> string \<Rightarrow> ChatSession \<Rightarrow> string \<Rightarrow> FileInfo option \<Rightarrow>
   (ChatResponse \<times> SearchResult list) io" where
  "chat_respond env userId request modelToUse session fileContext fileInfo =
     (let message = rq_message request;
          includeHistory = (case rq_includeHistory request of None \<Rightarrow> True | Some b \<Rightarrow> b);
          topK = (case rq_topK request of None \<Rightarrow> cfg_topK env | Some k \<Rightarrow> k);
          enhancedMessage = (if fileContext \<noteq> [] then fileContext @ '' '' @ message else message)
      in
      io_bind (aiService_generateEmbedding env enhancedMessage) (\<lambda>queryEmbedding.
      io_bind (search env queryEmbedding topK) (\<lambda>searchResults.
        let maxScore = (if length searchResults > 0 then max_score searchResults else Num 0);
            history = (if includeHistory \<and> length (s_history session) > 0
                       then Some (s_history session) else None)
        in
        io_bind (chat_answer env userId message modelToUse history searchResults) (\<lambda>(answer, responseSource).
          chat_finish env request modelToUse session fileInfo searchResults maxScore answer responseSource))))"

text \<open>Step 7: the cache writeback (skipped for a file upload), then the response.\<close>

definition chat_writeback ::
  "env \<Rightarrow> string \<Rightarrow> ChatRequest \<Rightarrow> string \<Rightarrow> ChatResponse \<Rightarrow> SearchResult list \<Rightarrow> unit io" where
  "chat_writeback env userId request modelToUse response searchResults =
     (case rq_file request of
        None \<Rightarrow>
          (let documentSources = document_sources searchResults in
           saveToCache env userId (rq_message request) (rs_answer response)
             (source_name (rs_responseSource response)) modelToUse
             (if length documentSources > 0 then Some documentSources else None))
      | Some _ \<Rightarrow> io_return ())"

definition chat_generate ::
  "env \<Rightarrow> string \<Rightarrow> ChatRequest \<Rightarrow> string \<Rightarrow> ChatSession \<Rightarrow> string \<Rightarrow> FileInfo option \<Rightarrow> ChatResponse io" where
  "chat_generate env userId request modelToUse session fileContext fileInfo =
     io_bind (chat_respond env userId request modelToUse session fileContext fileInfo)
       (\<lambda>(response, searchResults).
          io_then (chat_writeback env userId request modelToUse response searchResults)
            (io_return response))"

definition chat_session :: "env \<Rightarrow> string \<Rightarrow> string option \<Rightarrow> ChatSession io" where
  "chat_session env userId sessionId =
     (case sessionId of
        None \<Rightarrow> createSession env userId
      | Some sid \<Rightarrow>
          if sid \<noteq> [] then
            io_bind (getSession env sid) (\<lambda>session.
              case session of
                None \<Rightarrow> io_throw (BadRequestException ''Invalid session ID'')
              | Some s \<Rightarrow>
                  if s_userId s \<noteq> userId
                  then io_throw (BadRequestException ''Session does not belong to user'')
                  else io_return s)
          else createSession env userId)"

definition chat :: "env \<Rightarrow> string \<Rightarrow> ChatRequest \<Rightarrow> ChatResponse io" where
  "chat env userId request =
     io_catch
       (let message = rq_message request;
            modelToUse = js_or (rq_model request) (cfg_openai_model env)
        in
        if message = [] \<or> length (js_trim message) = 0
        then io_throw (BadRequestException ''Message cannot be empty'')
        else
          io_bind (chat_session env userId (rq_sessionId request)) (\<lambda>session.
          io_bind (case rq_file request of
                     None \<Rightarrow> chat_cache_probe env userId message session
                   | Some _ \<Rightarrow> io_return None) (\<lambda>hit.
            case hit of
              Some response \<Rightarrow> io_return response
            | None \<Rightarrow>
                io_bind (chat_file env message modelToUse session (rq_file request)) (\<lambda>f.
                  case f of
                    Inl response \<Rightarrow> io_return response
                  | Inr (fileContext, fileInfo) \<Rightarrow>
                      chat_generate env userId request modelToUse session fileContext fileInfo))))
       (\<lambda>error. io_then (emit (LogError ''Failed to process chat request'')) (io_throw error))"


section \<open>Notions used in the statements\<close>

text \<open>A step is quiet when it leaves the vector store alone: the collection is the same
  afterwards and the events it appends to the trace contain no \<^verbatim>\<open>collection.add\<close>.\<close>

fun is_add :: "event \<Rightarrow> bool" where
  "is_add (CollectionAdd documents) = True"
| "is_add ev = False"

definition extends :: "world \<Rightarrow> world \<Rightarrow> bool" where
  "extends w w' = (\<exists>evs. trace w' = trace w @ evs)"

definition emitted :: "world \<Rightarrow> world \<Rightarrow> event \<Rightarrow> bool" where
  "emitted w w' ev = (\<exists>evs. trace w' = trace w @ evs \<and> ev \<in> set evs)"

definition quiet :: "world \<Rightarrow> world \<Rightarrow> bool" where
  "quiet w w' = (collection w' = collection w \<and>
                 (\<exists>evs. trace w' = trace w @ evs \<and> filter is_add evs = []))"

text \<open>Every run of \<open>m\<close> relates the world before to the world after by \<open>R\<close>.\<close>

definition io_inv :: "(world \<Rightarrow> world \<Rightarrow> bool) \<Rightarrow> 'a io \<Rightarrow> bool" where
  "io_inv R m = (\<forall>w r w'. m w = (r, w') \<longrightarrow> R w w')"

definition preorder_rel :: "(world \<Rightarrow> world \<Rightarrow> bool) \<Rightarrow> bool" where
  "preorder_rel R = ((\<forall>w. R w w) \<and> (\<forall>a b c. R a b \<longrightarrow> R b c \<longrightarrow> R a c))"

text \<open>A real number that is a double: rounding leaves it as it is.\<close>

definition representable :: "real \<Rightarrow> bool" where
  "representable x = (rnd x = Num x)"


text \<open>
  The row that the writeback of a generated answer adds to the vector store, and what the
  writeback does between the world \<open>wa\<close> in which it starts and the world \<open>wb\<close> in which
  it ends, on an initialised store: the question and answer document is sent to the
  embedding provider; when the provider answers with a vector, the row is sent to the
  collection, and it is in the collection afterwards unless the store rejects it; a failure
  of either request is logged, by the writeback and by its caller, and leaves the
  collection as it was.
\<close>

definition stored_answer ::
  "string \<Rightarrow> string \<Rightarrow> string \<Rightarrow> string \<Rightarrow> double list \<Rightarrow> nat \<Rightarrow> StoredChunk" where
  "stored_answer question answer userId uuid embedding t =
     \<lparr>st_id = ''ai-qa-'' @ uuid,
      st_embedding = embedding,
      st_document = ''Question: '' @ question @ ''\<newline>\<newline>Answer: '' @ answer,
      st_metadata = \<lparr>md_documentId = Some (''ai-qa-'' @ uuid),
                     md_fileName = Some ''AI Generated Q&A'',
                     md_chunkIndex = Some 0,
                     md_totalChunks = Some 1,
                     md_source = Some ''ai_generated'',
                     md_createdAt = Some t,
                     md_uploadedAt = None,
                     md_extra = [(''type'', ''qa_pair''), (''question'', question),
                                 (''answer'', answer), (''userId'', userId)]\<rparr>\<rparr>"

definition writeback_attempted :: "env \<Rightarrow> string \<Rightarrow> string \<Rightarrow> string \<Rightarrow> world \<Rightarrow> world \<Rightarrow> bool" where
  "writeback_attempted env question answer userId wa wb =
     (let doc = ''Question: '' @ question @ ''\<newline>\<newline>Answer: '' @ answer;
          failed = [LogError ''Failed to save AI response to knowledge base'',
                    LogError ''Failed to save AI response to knowledge base'']
      in case openai_embeddings_create env (tick wa) [doc] of
           Inr (v # vs) \<Rightarrow>
             (case chroma_fault env (tick wa + 2) of
                None \<Rightarrow>
                  trace wb = trace wa @ [OpenAIEmbeddings [doc], CollectionAdd [doc]] \<and>
                  collection wb =
                    map_option (\<lambda>stored. stored @
                        [stored_answer question answer userId (uuidv4 env (tick wa + 1))
                           (map rnd v) (now wa)])
                      (collection wa)
              | Some e \<Rightarrow>
                  trace wb = trace wa @ [OpenAIEmbeddings [doc], CollectionAdd [doc],
                                         LogError ''Failed to add documents to vector store''] @ failed \<and>
                  collection wb = collection wa)
         | _ \<Rightarrow>
             trace wb = trace wa @ [OpenAIEmbeddings [doc],
                                    LogError ''Failed to generate embedding''] @ failed \<and>
             collection wb = collection wa)"

section \<open>Concrete runs\<close>

text \<open>An environment in which every provider answers, and a small world.\<close>

definition demo_env :: env where
  "demo_env =
     \<lparr>cfg_openai_model = ''gpt-4o-mini'',
      env_relevanceThreshold = Some (3 / 10),
      cfg_topK = 5,
      cfg_enableSuggestions = False,
      openai_embeddings_create = (\<lambda>t texts. Inr (map (\<lambda>text. [1, 0]) texts)),
      openai_chat_create = (\<lambda>t model messages. Inr ''an answer''),
      openai_vision_create = (\<lambda>t model mimeType image prompt. Inr ''a picture''),
      gemini_embedContent = (\<lambda>t text. Inr [1, 0]),
      chroma_query = (\<lambda>t stored queryEmbedding nResults. Inr \<lparr>qr_rows = [], qr_has_distances = True\<rparr>),
      chroma_fault = (\<lambda>t. None),
      db_fault = (\<lambda>t. None),
      uuidv4 = (\<lambda>t. ''uuid''),
      extract_text = (\<lambda>file. Inr ''text''),
      read_document = (\<lambda>filePath mimeType. Inr ''Returns within 30 days''),
      split_text = (\<lambda>t. Inr [t]),
      parse_questions = (\<lambda>response. [])\<rparr>"

definition demo_entry :: QACache where
  "demo_entry =
     \<lparr>qc_id = ''c1'', qc_userId = ''u1'', qc_question = ''What is the return window?'',
      qc_answer = ''30 days'', qc_source = ''ai_generated'', qc_model = ''gpt-4o-mini'',
      qc_documentSources = None, qc_usageCount = 1, qc_embedding = Some [JNumber 1, JNumber 0],
      qc_createdAt = 1, qc_updatedAt = 1, qc_lastUsedAt = 1\<rparr>"

definition short_entry :: QACache where
  "short_entry =
     \<lparr>qc_id = ''c2'', qc_userId = ''u1'', qc_question = ''Where is the store?'',
      qc_answer = ''Main street'', qc_source = ''ai_generated'', qc_model = ''gpt-4o-mini'',
      qc_documentSources = None, qc_usageCount = 1, qc_embedding = Some [JNumber 1],
      qc_createdAt = 2, qc_updatedAt = 2, qc_lastUsedAt = 2\<rparr>"

definition demo_world :: world where
  "demo_world =
     \<lparr>tick = 0, now = 7, trace = [], chat_sessions = [],
      qa_cache = [demo_entry, short_entry], document_table = [], collection = Some []\<rparr>"


text \<open>The same environment with an embedding provider of the cache that is down.\<close>

definition cache_down_env :: env where
  "cache_down_env = demo_env\<lparr>gemini_embedContent := (\<lambda>t text. Inl (Error ''503''))\<rparr>"

definition hello_request :: ChatRequest where
  "hello_request =
     \<lparr>rq_message = ''hello'', rq_sessionId = None, rq_includeHistory = None,
      rq_topK = None, rq_model = None, rq_file = None\<rparr>"


text \<open>
  Vector stores whose best match is at distance 0.88 and at distance 0.18, against the
  threshold 0.3. In doubles \<^verbatim>\<open>1 - 0.88\<close> is \<^verbatim>\<open>0.12\<close> and \<^verbatim>\<open>1 - 0.18\<close> is
  \<^verbatim>\<open>0.8200000000000001\<close>.
\<close>

definition policy_metadata :: Metadata where
  "policy_metadata =
     \<lparr>md_documentId = Some ''d1'', md_fileName = Some ''policy.pdf'', md_chunkIndex = Some 0,
      md_totalChunks = Some 1, md_source = Some ''upload'', md_createdAt = None,
      md_uploadedAt = Some 3, md_extra = []\<rparr>"

definition low_score_env :: env where
  "low_score_env = demo_env\<lparr>chroma_query := (\<lambda>t stored queryEmbedding nResults.
     Inr \<lparr>qr_rows = [(''k1'', ''Returns within 30 days'', Some policy_metadata, 22 / 25)],
          qr_has_distances = True\<rparr>)\<rparr>"

definition high_score_env :: env where
  "high_score_env = demo_env\<lparr>chroma_query := (\<lambda>t stored queryEmbedding nResults.
     Inr \<lparr>qr_rows = [(''k1'', ''Returns within 30 days'', Some policy_metadata, 9 / 50)],
          qr_has_distances = True\<rparr>)\<rparr>"

definition empty_world :: world where
  "empty_world =
     \<lparr>tick = 0, now = 7, trace = [], chat_sessions = [], qa_cache = [], document_table = [],
      collection = Some []\<rparr>"


definition low_response :: ChatResponse where
  "low_response =
     \<lparr>rs_sessionId = ''uuid'', rs_message = ''hello'', rs_answer = ''an answer'',
      rs_sources = [\<lparr>src_content = ''Returns within 30 days'', src_fileName = ''policy.pdf'',
                     src_score = Num (1080863910568919 / 2 ^ 53), src_chunkIndex = Some 0,
                     src_source = Some ''upload''\<rparr>],
      rs_responseSource = ai_generated, rs_relevanceScore = Some (Num (1080863910568919 / 2 ^ 53)),
      rs_modelUsed = ''gpt-4o-mini'', rs_suggestedQuestions = None, rs_timestamp = 7,
      rs_fromCache = Some False, rs_cacheSimilarity = None, rs_fileProcessed = None\<rparr>"

definition high_response :: ChatResponse where
  "high_response =
     \<lparr>rs_sessionId = ''uuid'', rs_message = ''hello'', rs_answer = ''an answer'',
      rs_sources = [\<lparr>src_content = ''Returns within 30 days'', src_fileName = ''policy.pdf'',
                     src_score = Num (7385903388887614 / 2 ^ 53), src_chunkIndex = Some 0,
                     src_source = Some ''upload''\<rparr>],
      rs_responseSource = knowledge_base, rs_relevanceScore = Some (Num (7385903388887614 / 2 ^ 53)),
      rs_modelUsed = ''gpt-4o-mini'', rs_suggestedQuestions = None, rs_timestamp = 7,
      rs_fromCache = Some False, rs_cacheSimilarity = None, rs_fileProcessed = None\<rparr>"


text \<open>A session that holds ten messages, with a cached answer for its owner.\<close>

definition ten_messages :: "ChatMessage list" where
  "ten_messages = concat (replicate 5 [user_turn ''q'', assistant_turn ''a''])"

definition full_session :: ChatSessionEntity where
  "full_session =
     \<lparr>cs_id = ''s1'', cs_userId = ''u1'', cs_messages = Some ten_messages,
      cs_createdAt = 1, cs_updatedAt = 1\<rparr>"

definition full_world :: world where
  "full_world =
     \<lparr>tick = 0, now = 7, trace = [], chat_sessions = [full_session],
      qa_cache = [demo_entry], document_table = [], collection = Some []\<rparr>"

definition session_request :: ChatRequest where
  "session_request =
     \<lparr>rq_message = ''hello'', rq_sessionId = Some ''s1'', rq_includeHistory = None,
      rq_topK = None, rq_model = None, rq_file = None\<rparr>"

definition image_request :: ChatRequest where
  "image_request =
     \<lparr>rq_message = ''hello'', rq_sessionId = Some ''s1'', rq_includeHistory = None,
      rq_topK = None, rq_model = None,
      rq_file = Some \<lparr>f_originalname = ''cat.png'', f_mimetype = ''image/png'', f_size = 3,
                        f_buffer = ''abc''\<rparr>\<rparr>"


text \<open>A document \<^verbatim>\<open>d1\<close> of user \<^verbatim>\<open>u1\<close> with one chunk in the vector store, and a
  ChromaDB whose requests fail.\<close>

definition stored_world :: world where
  "stored_world =
     \<lparr>tick = 0, now = 7, trace = [], chat_sessions = [], qa_cache = [],
      document_table = [\<lparr>doc_id = ''d1'', doc_userId = ''u1'', doc_originalName = ''policy.pdf'',
                     doc_filePath = ''uploads/policy.pdf'', doc_mimeType = ''application/pdf'',
                     doc_status = ''completed'', doc_errorMessage = None\<rparr>],
      collection = Some [\<lparr>st_id = ''k1'', st_embedding = [Num 1, Num 0],
                           st_document = ''Returns within 30 days'',
                           st_metadata = policy_metadata\<rparr>]\<rparr>"

definition chroma_down_env :: env where
  "chroma_down_env =
     demo_env\<lparr>chroma_fault := (\<lambda>t. Some (Error ''The requested resource could not be found''))\<rparr>"

text \<open>An OpenAI provider that knows its own models only, and a request that names a Gemini model.\<close>

definition strict_openai_env :: env where
  "strict_openai_env =
     demo_env\<lparr>openai_chat_create := (\<lambda>t model messages.
        if model \<in> set OpenAIModel then Inr ''an answer''
        else Inl (Error ''404 The model does not exist or you do not have access to it.''))\<rparr>"

definition gemini_request :: ChatRequest where
  "gemini_request =
     \<lparr>rq_message = ''hello'', rq_sessionId = None, rq_includeHistory = None,
      rq_topK = None, rq_model = Some ''gemini-2.5-pro'', rq_file = None\<rparr>"

section \<open>Properties\<close>



lemma round_half_even_int [simp]: "round_half_even (of_int m) = m"
  by (simp add: round_half_even_def)

lemma floor_log2:
  assumes "2 powi k \<le> \<bar>x\<bar>" "\<bar>x\<bar> < 2 powi (k + 1)"
  shows "\<lfloor>log 2 \<bar>x\<bar>\<rfloor> = k"
proof -
  have pos: "0 < \<bar>x\<bar>" using assms(1) by (smt (verit) zero_less_power_int)
  have 1: "real_of_int k \<le> log 2 \<bar>x\<bar>"
    using assms(1) pos by (simp add: le_log_iff powr_realpow' powr_real_of_int')
  have p: "(2::real) powr real_of_int (k + 1) = 2 powi (k + 1)"
    using powr_real_of_int' [of "2::real" "k + 1"] by fastforce
  have "log 2 \<bar>x\<bar> < real_of_int (k + 1)"
    using assms(2) pos unfolding p [symmetric] by (subst log_less_iff) simp_all
  then have 2: "log 2 \<bar>x\<bar> < real_of_int k + 1" by simp
  from 1 2 show ?thesis by linarith
qed


lemma rnd_not_NaN [simp]: "rnd x \<noteq> NaN"
  by (simp add: rnd_def Let_def)

lemma rnd_zero [simp]: "rnd 0 = Num 0"
  by (simp add: rnd_def)

lemma ulp_exponent_upper:
  assumes "x \<noteq> 0" "\<bar>x\<bar> < 2 powi (k + 53)" "- 1074 \<le> k"
  shows "ulp_exponent x \<le> k"
proof -
  have p: "(2::real) powr real_of_int (k + 53) = 2 powi (k + 53)"
    using powr_real_of_int' [of "2::real" "k + 53"] by fastforce
  have "log 2 \<bar>x\<bar> < real_of_int (k + 53)"
    using assms(1,2) unfolding p [symmetric] by (subst log_less_iff) simp_all
  then have "\<lfloor>log 2 \<bar>x\<bar>\<rfloor> < k + 53" by linarith
  with assms(3) show ?thesis by (simp add: ulp_exponent_def)
qed

lemma rnd_dyadic:
  assumes m: "\<bar>m\<bar> < 2 ^ 53" and k: "- 1074 \<le> k" "k \<le> 970"
  shows "rnd (of_int m * 2 powi k) = Num (of_int m * 2 powi k)"
proof (cases "m = 0")
  case True
  then show ?thesis by simp
next
  case False
  define x where "x = real_of_int m * 2 powi k"
  define e where "e = ulp_exponent x"
  have x0: "x \<noteq> 0" using False by (simp add: x_def)
  have "\<bar>real_of_int m\<bar> < 2 ^ 53" using m by (metis of_int_abs of_int_less_numeral_power_cancel_iff)
  then have "\<bar>x\<bar> < 2 powi 53 * 2 powi k"
    unfolding x_def abs_mult by (simp del: power_int_numeral add: power_int_def)
  also have "\<dots> = 2 powi (k + 53)"
    by (simp only: power_int_add [of "2::real", simplified] mult.commute)
  finally have xb: "\<bar>x\<bar> < 2 powi (k + 53)" .
  then have ek: "e \<le> k" unfolding e_def using x0 k by (intro ulp_exponent_upper) simp_all
  define d where "d = nat (k - e)"
  have kd: "k = e + int d" using ek by (simp add: d_def)
  have xe: "x = of_int (m * 2 ^ d) * 2 powi e"
    unfolding x_def kd by (simp add: power_int_add)
  have q: "x / 2 powi e = of_int (m * 2 ^ d)"
    unfolding xe by simp
  have "(2::real) powi (k + 53) \<le> 2 powi 1024"
    using k by (intro power_int_increasing) simp_all
  then have b: "\<not> 2 powi 1024 \<le> \<bar>x\<bar>" using xb by linarith
  have b': "(2::real) ^ 1024 = 2 powi 1024" by (simp del: power_int_numeral add: power_int_def)
  have "rnd x = Num x"
    unfolding rnd_def Let_def e_def [symmetric] q round_half_even_int xe [symmetric] b'
    using x0 b by simp
  then show ?thesis by (simp only: x_def)
qed

lemma rnd_int: "\<bar>m\<bar> < 2 ^ 53 \<Longrightarrow> rnd (of_int m) = Num (of_int m)"
  using rnd_dyadic [of m 0] by simp

lemma round_half_even_mono_lower: "of_int n \<le> q \<Longrightarrow> n \<le> round_half_even q"
proof -
  assume "of_int n \<le> q"
  then have "n \<le> \<lfloor>q\<rfloor>" by (simp add: le_floor_iff)
  then show ?thesis by (simp add: round_half_even_def Let_def)
qed

lemma round_half_even_mono_upper: "q \<le> of_int n \<Longrightarrow> round_half_even q \<le> n"
proof -
  assume a: "q \<le> of_int n"
  then have f: "\<lfloor>q\<rfloor> \<le> n" by (metis floor_mono floor_of_int)
  show ?thesis
  proof (cases "\<lfloor>q\<rfloor> = n")
    case True
    then have "q = of_int n" using a by (metis dual_order.antisym of_int_floor_le)
    then show ?thesis by simp
  next
    case False
    with f have "\<lfloor>q\<rfloor> + 1 \<le> n" by simp
    then show ?thesis using f by (simp add: round_half_even_def Let_def)
  qed
qed




lemma rnd_normal:
  assumes x0: "x \<noteq> 0" and lo: "2 powi (k + 52) \<le> \<bar>x\<bar>" and hi: "\<bar>x\<bar> < 2 powi (k + 53)"
      and k: "- 1074 \<le> k" "k \<le> 970"
  shows "rnd x = Num (of_int (round_half_even (x / 2 powi k)) * 2 powi k)"
proof -
  have "\<lfloor>log 2 \<bar>x\<bar>\<rfloor> = k + 52"
    using lo hi by (intro floor_log2) (simp_all add: add.commute add.left_commute)
  then have e: "ulp_exponent x = k" using k by (simp add: ulp_exponent_def)
  define u :: real where "u = 2 powi k"
  define c :: int where "c = 2 ^ 53"
  have u0: "0 < u" by (simp add: u_def)
  have cu: "of_int c * u = 2 powi (k + 53)"
    unfolding u_def c_def by (simp add: power_int_add)
  define q where "q = x / u"
  define m where "m = round_half_even q"
  have "\<bar>q\<bar> = \<bar>x\<bar> / u" using u0 by (simp add: q_def abs_divide)
  also have "\<dots> < of_int c" using hi cu u0 by (simp add: pos_divide_less_eq)
  finally have "q \<le> of_int c" "of_int (- c) \<le> q" by linarith+
  then have "m \<le> c" "- c \<le> m"
    unfolding m_def by (auto intro: round_half_even_mono_lower round_half_even_mono_upper)
  then have "\<bar>real_of_int m\<bar> \<le> of_int c" by linarith
  then have "\<bar>real_of_int m * u\<bar> \<le> of_int c * u" using u0 by (simp add: abs_mult)
  also have "\<dots> = 2 powi (k + 53)" by (rule cu)
  also have "\<dots> \<le> 2 powi 1023" using k by (intro power_int_increasing) simp_all
  also have "\<dots> < 2 powi 1024" by (intro power_int_strict_increasing) simp_all
  finally have small: "\<not> 2 powi 1024 \<le> \<bar>real_of_int m * u\<bar>" by simp
  have b': "(2::real) ^ 1024 = 2 powi 1024" by (simp del: power_int_numeral add: power_int_def)
  show ?thesis
    unfolding rnd_def Let_def e b' u_def [symmetric] q_def [symmetric] m_def [symmetric]
    using x0 small by simp
qed

lemma rnd_scaled:
  assumes "x \<noteq> 0" "2 ^ 52 \<le> \<bar>x\<bar> * 2 ^ n" "\<bar>x\<bar> * 2 ^ n < 2 ^ 53" "n \<le> 1074"
  shows "rnd x = Num (of_int (round_half_even (x * 2 ^ n)) / 2 ^ n)"
proof -
  define u :: real where "u = 2 ^ n"
  have u0: "0 < u" by (simp add: u_def)
  have p: "(2::real) powi (- int n) = 1 / u" by (simp add: u_def power_int_minus field_simps)
  have a: "2 powi (- int n + 52) = 2 ^ 52 / u"
    using power_int_add [of "2::real" "- int n" 52] p by simp
  have b: "2 powi (- int n + 53) = 2 ^ 53 / u"
    using power_int_add [of "2::real" "- int n" 53] p by simp
  have "rnd x = Num (of_int (round_half_even (x / 2 powi (- int n))) * 2 powi (- int n))"
  proof (rule rnd_normal)
    show "x \<noteq> 0" by fact
    show "2 powi (- int n + 52) \<le> \<bar>x\<bar>"
      unfolding a using assms(2) u0 by (simp add: u_def pos_divide_le_eq)
    show "\<bar>x\<bar> < 2 powi (- int n + 53)"
      unfolding b using assms(3) u0 by (simp add: u_def pos_less_divide_eq)
    show "- 1074 \<le> - int n" using assms(4) by simp
    show "- int n \<le> 970" by simp
  qed
  then show ?thesis unfolding p u_def by simp
qed


lemma rnd_one [simp]: "rnd 1 = Num 1"
  using rnd_int [of 1] by simp

lemma rnd_two [simp]: "rnd 2 = Num 2"
  using rnd_int [of 2] by simp

lemma rnd_half [simp]: "rnd (1 / 2) = Num (1 / 2)"
  using rnd_dyadic [of 1 "- 1"] by simp


text \<open>The doubles of some decimal numbers, and two subtractions.\<close>

lemma SIMILARITY_THRESHOLD_value: "SIMILARITY_THRESHOLD = Num (7656119366529843 / 2 ^ 53)"
  unfolding SIMILARITY_THRESHOLD_def
  by (subst rnd_scaled [where n = 53]) (simp_all add: round_half_even_def)

lemma rnd_3_10: "rnd (3 / 10) = Num (5404319552844595 / 2 ^ 54)"
  by (subst rnd_scaled [where n = 54]) (simp_all add: round_half_even_def)

lemma rnd_22_25: "rnd (22 / 25) = Num (7926335344172073 / 2 ^ 53)"
  by (subst rnd_scaled [where n = 53]) (simp_all add: round_half_even_def)

lemma rnd_9_50: "rnd (9 / 50) = Num (3242591731706757 / 2 ^ 54)"
  by (subst rnd_scaled [where n = 55]) (simp_all add: round_half_even_def)

lemma one_minus_88: "d_sub (Num 1) (rnd (22 / 25)) = Num (1080863910568919 / 2 ^ 53)"
  unfolding rnd_22_25 d_sub_def
  by (simp, subst rnd_scaled [where n = 56]) (simp_all add: round_half_even_def)

lemma one_minus_18: "d_sub (Num 1) (rnd (9 / 50)) = Num (7385903388887614 / 2 ^ 53)"
  unfolding rnd_9_50 d_sub_def
  by (simp, subst rnd_scaled [where n = 53]) (simp_all add: round_half_even_def)

lemma rnd_4_5: "rnd (4 / 5) = Num (3602879701896397 / 2 ^ 52)"
  by (subst rnd_scaled [where n = 53]) (simp_all add: round_half_even_def)

lemma rnd_1_5: "rnd (1 / 5) = Num (3602879701896397 / 2 ^ 54)"
  by (subst rnd_scaled [where n = 55]) (simp_all add: round_half_even_def)

lemma one_minus_8_below_2: "d_less (d_sub (Num 1) (rnd (4 / 5))) (rnd (1 / 5))"
  unfolding rnd_4_5 rnd_1_5 d_sub_def
  by (simp, subst rnd_scaled [where n = 55]) (simp_all add: round_half_even_def)

lemma relevanceThreshold_demo: "env_relevanceThreshold env = Some (3 / 10) \<Longrightarrow>
    relevanceThreshold env = Num (5404319552844595 / 2 ^ 54)"
  by (simp add: relevanceThreshold_def rnd_3_10)




lemma js_divide_defined: "y \<noteq> Num 0 \<Longrightarrow> \<exists>s. js_divide x y = Some s"
  by (cases y; cases x) auto

lemma cosineSimilarity_defined: "\<exists>s. cosineSimilarity x y = Some s"
  by (auto simp: cosineSimilarity_def Let_def js_divide_defined split: prod.splits)





lemma sum_less_1: "(\<Sum>i<(1::nat). f i) = f 0"
  by simp



lemma representable_simps [simp]: "representable 0" "representable 1"
  by (simp_all add: representable_def)



lemma upt2: "[0..<2] = [0, Suc 0]"
  by (simp add: upt_rec numeral_2_eq_2)











lemma d_less_irrefl [simp]: "\<not> d_less a a"
  by (cases a) simp_all

lemma d_less_trans: "d_less a b \<Longrightarrow> d_less b c \<Longrightarrow> d_less a c"
  by (cases a; cases b; cases c) simp_all

lemma d_less_asym: "d_less a b \<Longrightarrow> \<not> d_less b a"
  by (cases a; cases b) simp_all

text \<open>The running maximum of the loop never goes below its start.\<close>

lemma best_match_loop_result:
  "best_match_loop q items (bm0, h0) = (Some bm, s) \<Longrightarrow>
     (bm0 = Some bm \<and> s = h0) \<or>
     (bm \<in> set items \<and> d_less h0 s \<and>
      (\<exists>v. qc_embedding bm = Some v \<and> cosineSimilarity q (map json_parse v) = Some s))"
proof (induction items arbitrary: bm0 h0)
  case Nil
  then show ?case by simp
next
  case (Cons item items)
  show ?case
  proof (cases "qc_embedding item")
    case None
    with Cons.prems have "best_match_loop q items (bm0, h0) = (Some bm, s)" by simp
    from Cons.IH [OF this] show ?thesis by auto
  next
    case (Some v)
    obtain x where x: "cosineSimilarity q (map json_parse v) = Some x"
      using cosineSimilarity_defined by blast
    show ?thesis
    proof (cases "d_less h0 x")
      case True
      with Cons.prems Some x have "best_match_loop q items (Some item, x) = (Some bm, s)" by simp
      from Cons.IH [OF this] Some x True show ?thesis by (auto intro: d_less_trans)
    next
      case False
      with Cons.prems Some x have "best_match_loop q items (bm0, h0) = (Some bm, s)" by simp
      from Cons.IH [OF this] show ?thesis by auto
    qed
  qed
qed

text \<open>
  Claim C10. For vectors of different lengths the similarity is 0, decided by the length
  test in front of the loop, and a cached row whose stored embedding has another length than
  the probe is never the best match of the lookup, whatever the window is.
\<close>

theorem dimension_mismatch_never_matches:
  assumes "length vecA \<noteq> length vecB"
  shows "cosineSimilarity vecA vecB = Some (Num 0) \<and>
         (\<forall>items bm s stored. best_match_loop vecA items (None, Num 0) = (Some bm, s) \<longrightarrow>
            qc_embedding bm = Some stored \<longrightarrow> map json_parse stored \<noteq> vecB)"
proof
  show z: "cosineSimilarity vecA vecB = Some (Num 0)" using assms by (simp add: cosineSimilarity_def)
  show "\<forall>items bm s stored. best_match_loop vecA items (None, Num 0) = (Some bm, s) \<longrightarrow>
            qc_embedding bm = Some stored \<longrightarrow> map json_parse stored \<noteq> vecB"
  proof (intro allI impI notI)
    fix items bm s stored
    assume a: "best_match_loop vecA items (None, Num 0) = (Some bm, s)"
       and b: "qc_embedding bm = Some stored" and c: "map json_parse stored = vecB"
    from best_match_loop_result [OF a] b c z show False by auto
  qed
qed


lemma io_bind_apply:
  "io_bind m f w = (case m w of (Inl e, w') \<Rightarrow> (Inl e, w') | (Inr x, w') \<Rightarrow> f x w')"
  by (simp add: io_bind_def)

lemma io_then_apply:
  "io_then m k w = (case m w of (Inl e, w') \<Rightarrow> (Inl e, w') | (Inr x, w') \<Rightarrow> k w')"
  by (simp add: io_then_def io_bind_def)

lemma io_catch_apply:
  "io_catch m h w = (case m w of (Inl e, w') \<Rightarrow> h e w' | (Inr x, w') \<Rightarrow> (Inr x, w'))"
  by (simp add: io_catch_def)

lemma io_return_apply: "io_return x w = (Inr x, w)"
  by (simp add: io_return_def)

lemma io_throw_apply: "io_throw e w = (Inl e, w)"
  by (simp add: io_throw_def)

lemma emit_apply: "emit ev w = (Inr (), w\<lparr>trace := trace w @ [ev]\<rparr>)"
  by (simp add: emit_def)

lemma external_apply:
  "external ev f w = (f (tick w), w\<lparr>tick := Suc (tick w), trace := trace w @ [ev]\<rparr>)"
  by (simp add: external_def)

lemma db_op_apply:
  "db_op env f w =
     (case db_fault env (tick w) of
        Some e \<Rightarrow> (Inl e, w\<lparr>tick := Suc (tick w)\<rparr>)
      | None \<Rightarrow> (case f (w\<lparr>tick := Suc (tick w)\<rparr>) of (x, w') \<Rightarrow> (Inr x, w')))"
  by (simp add: db_op_def)

lemmas io_simps = io_bind_apply io_then_apply io_catch_apply io_return_apply io_throw_apply
  emit_apply external_apply db_op_apply

lemma find_recent_length: "length (find_recent userId table) \<le> 100"
  by (simp add: find_recent_def)

lemma find_recent_owner:
  "e \<in> set (find_recent userId table) \<Longrightarrow> e \<in> set table \<and> qc_userId e = userId"
  by (auto simp: find_recent_def dest!: in_set_takeD)

lemma find_recent_sorted:
  "sorted (map (\<lambda>e. - int (qc_lastUsedAt e)) (find_recent userId table))"
  by (simp add: find_recent_def take_map [symmetric] sorted_wrt_take del: take_map)

lemma find_recent_recency:
  assumes "x \<in> set (find_recent userId table)"
      and "y \<in> set table" "qc_userId y = userId" "y \<notin> set (find_recent userId table)"
  shows "qc_lastUsedAt y \<le> qc_lastUsedAt x"
proof -
  let ?k = "\<lambda>e. - int (qc_lastUsedAt e)"
  let ?xs = "sort_key ?k (filter (\<lambda>e. qc_userId e = userId) table)"
  have s: "sorted (map ?k (take 100 ?xs @ drop 100 ?xs))" by simp
  have "y \<in> set ?xs" using assms(2,3) by simp
  then have "y \<in> set (take 100 ?xs) \<or> y \<in> set (drop 100 ?xs)"
    by (metis Un_iff append_take_drop_id set_append)
  with assms(4) have y: "y \<in> set (drop 100 ?xs)" by (simp add: find_recent_def)
  have x: "x \<in> set (take 100 ?xs)" using assms(1) by (simp add: find_recent_def)
  from s x y have "?k x \<le> ?k y"
    unfolding map_append sorted_append by auto
  then show ?thesis by simp
qed


lemma increment_column_apply:
  "increment_column env ''usage_count'' cacheId w =
     (case db_fault env (tick w) of
        Some e \<Rightarrow> (Inl e, w\<lparr>tick := Suc (tick w)\<rparr>)
      | None \<Rightarrow> (Inl (Error ''column usage_count does not exist''), w\<lparr>tick := Suc (tick w)\<rparr>))"
  by (simp add: increment_column_def split: option.splits)

lemma updateUsageStats_apply:
  "updateUsageStats env cacheId w =
     (Inr (), w\<lparr>tick := Suc (tick w), trace := trace w @ [LogError ''Error updating usage stats:'']\<rparr>)"
  by (simp add: updateUsageStats_def increment_column_apply io_simps split: option.splits)

lemma gemini_generateEmbedding_apply:
  "gemini_generateEmbedding env text w =
     (case gemini_embedContent env (tick w) text of
        Inl e \<Rightarrow> (Inl e, w\<lparr>tick := Suc (tick w),
                           trace := trace w @ [GeminiEmbedContent text, LogError ''Failed to generate embedding'']\<rparr>)
      | Inr v \<Rightarrow> (Inr (map rnd v), w\<lparr>tick := Suc (tick w), trace := trace w @ [GeminiEmbedContent text]\<rparr>))"
  by (simp add: gemini_generateEmbedding_def io_simps split: sum.splits)

lemma searchCache_eval:
  assumes emb: "gemini_embedContent env (tick w) question = Inr q"
      and db: "db_fault env (Suc (tick w)) = None"
  shows "searchCache env question userId w =
     (let w2 = w\<lparr>tick := Suc (Suc (tick w)), trace := trace w @ [GeminiEmbedContent question]\<rparr>;
          window = find_recent userId (qa_cache w)
      in case best_match_loop (map rnd q) window (None, Num 0) of
           (None, h) \<Rightarrow> (Inr not_found, w2)
         | (Some bm, h) \<Rightarrow>
             if window \<noteq> [] \<and> d_greater_eq h SIMILARITY_THRESHOLD
             then (Inr (hit_result bm h (now w)),
                   w2\<lparr>tick := Suc (Suc (Suc (tick w))),
                      trace := trace w @ [GeminiEmbedContent question,
                                          LogError ''Error updating usage stats:'']\<rparr>)
             else (Inr not_found, w2))"
proof (cases "find_recent userId (qa_cache w)")
  case Nil
  with emb db show ?thesis
    by (simp add: searchCache_def gemini_generateEmbedding_apply io_simps Let_def)
next
  case (Cons a list)
  obtain bm h where l: "best_match_loop (map rnd q) (a # list) (None, Num 0) = (bm, h)" by fastforce
  show ?thesis
  proof (cases bm)
    case None
    with emb db Cons l show ?thesis
      by (simp add: searchCache_def gemini_generateEmbedding_apply io_simps Let_def
               del: best_match_loop.simps)
  next
    case (Some b)
    with emb db Cons l show ?thesis
      by (simp add: searchCache_def gemini_generateEmbedding_apply io_simps Let_def hit_result_def
                    updateUsageStats_apply
               del: best_match_loop.simps)
  qed
qed

lemma searchCache_total: "\<exists>result w'. searchCache env question userId w = (Inr result, w')"
  by (simp add: searchCache_def io_simps updateUsageStats_apply gemini_generateEmbedding_apply
           split: sum.splits prod.splits option.splits)

text \<open>The lookup changes no row of the table, whatever it returns.\<close>

lemma searchCache_table:
  "qa_cache (snd (searchCache env question userId w)) = qa_cache w"
  by (auto simp: searchCache_def io_simps updateUsageStats_apply gemini_generateEmbedding_apply
           split: sum.splits prod.splits option.splits)


lemma not_found_simps: "csr_found not_found = False"
  by (simp add: not_found_def)

lemma hit_found: "csr_found (hit_result bm s t) = True"
  by (simp add: hit_result_def)

lemma cos_demo:
  "cosineSimilarity [Num 1, Num 0] [Num 1, Num 0] = Some (Num 1)"
  "cosineSimilarity [Num 1, Num 0] [Num 1] = Some (Num 0)"
  by (simp_all add: cosineSimilarity_def upt2 cosine_step_def)

lemma window_demo: "find_recent ''u1'' [demo_entry, short_entry] = [short_entry, demo_entry]"
  by (simp add: find_recent_def demo_entry_def short_entry_def)

lemma loop_demo:
  "best_match_loop [Num 1, Num 0] [short_entry, demo_entry] (None, Num 0) = (Some demo_entry, Num 1)"
  by (simp add: cos_demo demo_entry_def short_entry_def)

lemma threshold_reached: "d_greater_eq (Num 1) SIMILARITY_THRESHOLD"
  by (simp add: SIMILARITY_THRESHOLD_value d_greater_eq_def)

lemma demo_facts:
  "gemini_embedContent demo_env (tick demo_world) ''q'' = Inr [1, 0]"
  "db_fault demo_env (Suc (tick demo_world)) = None"
  "qa_cache demo_world = [demo_entry, short_entry]"
  "qc_id demo_entry = ''c1''" "qc_id short_entry = ''c2''" "qc_usageCount demo_entry = 1"
  by (simp_all add: demo_env_def demo_world_def demo_entry_def short_entry_def)

lemma search_demo:
  "searchCache demo_env ''q'' ''u1'' demo_world =
     (Inr (hit_result demo_entry (Num 1) 7),
      demo_world\<lparr>tick := 3,
        trace := [GeminiEmbedContent ''q'', LogError ''Error updating usage stats:'']\<rparr>)"
  unfolding searchCache_eval [OF demo_facts(1,2)] demo_facts(3) window_demo Let_def
  by (simp add: loop_demo threshold_reached demo_world_def numeral_3_eq_3 del: best_match_loop.simps)

text \<open>
  Claim C2 fails on the code. The usage update of a hit is the statement
  \<^verbatim>\<open>UPDATE "qa_cache" SET "usageCount" = usage_count + 1, ...\<close>; table \<^verbatim>\<open>qa_cache\<close>
  has no column \<^verbatim>\<open>usage_count\<close>, so the database rejects the statement, and
  \<^verbatim>\<open>updateUsageStats\<close> logs the error and returns. No lookup changes a row of the table: on
  a hit the matched row keeps its \<^verbatim>\<open>usageCount\<close> and its \<^verbatim>\<open>lastUsedAt\<close>, while the
  response that the lookup returns counts one use more. In the run below a probe equal to the
  stored embedding of row \<^verbatim>\<open>c1\<close> hits with similarity 1.
\<close>

theorem usage_update_rejected_on_every_hit:
  "(\<forall>env cacheId w.
      updateUsageStats env cacheId w =
        (Inr (), w\<lparr>tick := Suc (tick w),
                   trace := trace w @ [LogError ''Error updating usage stats:'']\<rparr>)) \<and>
   (\<forall>env question userId w. qa_cache (snd (searchCache env question userId w)) = qa_cache w) \<and>
   searchCache demo_env ''q'' ''u1'' demo_world =
     (Inr (hit_result demo_entry (Num 1) 7),
      demo_world\<lparr>tick := 3,
        trace := [GeminiEmbedContent ''q'', LogError ''Error updating usage stats:'']\<rparr>) \<and>
   csr_found (hit_result demo_entry (Num 1) 7) \<and>
   map_option cr_usageCount (csr_response (hit_result demo_entry (Num 1) 7)) = Some 2 \<and>
   map_option cr_lastUsedAt (csr_response (hit_result demo_entry (Num 1) 7)) = Some 7 \<and>
   map (\<lambda>e. (qc_id e, qc_usageCount e, qc_lastUsedAt e)) (qa_cache demo_world) =
     [(''c1'', 1, 1), (''c2'', 1, 2)]"
proof -
  have 1: "\<forall>env cacheId w.
      updateUsageStats env cacheId w =
        (Inr (), w\<lparr>tick := Suc (tick w),
                   trace := trace w @ [LogError ''Error updating usage stats:'']\<rparr>)"
    by (simp add: updateUsageStats_apply)
  have 2: "\<forall>env question userId w. qa_cache (snd (searchCache env question userId w)) = qa_cache w"
    by (simp add: searchCache_table)
  have 3: "csr_found (hit_result demo_entry (Num 1) 7)"
    "map_option cr_usageCount (csr_response (hit_result demo_entry (Num 1) 7)) = Some 2"
    "map_option cr_lastUsedAt (csr_response (hit_result demo_entry (Num 1) 7)) = Some 7"
    "map (\<lambda>e. (qc_id e, qc_usageCount e, qc_lastUsedAt e)) (qa_cache demo_world) =
       [(''c1'', 1, 1), (''c2'', 1, 2)]"
    by (simp_all add: hit_result_def demo_entry_def short_entry_def demo_world_def)
  from 1 2 3 search_demo show ?thesis by blast
qed

theorem dimension_mismatch_never_matches_witness:
  "length [Num 1, Num 0] \<noteq> length [Num 1] \<and>
   cosineSimilarity [Num 1, Num 0] [Num 1] = Some (Num 0) \<and>
   best_match_loop [Num 1, Num 0] [short_entry, demo_entry] (None, Num 0) = (Some demo_entry, Num 1) \<and>
   qc_embedding short_entry = Some [JNumber 1] \<and>
   map json_parse [JNumber 1] = [Num 1] \<and>
   qc_embedding demo_entry = Some [JNumber 1, JNumber 0] \<and>
   map json_parse [JNumber 1, JNumber 0] \<noteq> [Num 1]"
proof -
  have h: "length [Num 1, Num 0] \<noteq> length [Num 1]" by simp
  note t = dimension_mismatch_never_matches [OF h]
  from t have a: "cosineSimilarity [Num 1, Num 0] [Num 1] = Some (Num 0)" by (rule conjunct1)
  have d: "qc_embedding demo_entry = Some [JNumber 1, JNumber 0]" by (simp add: demo_entry_def)
  have b: "map json_parse [JNumber 1, JNumber 0] \<noteq> [Num 1]"
    by (rule t [THEN conjunct2, rule_format, OF loop_demo d])
  have c: "qc_embedding short_entry = Some [JNumber 1]" "map json_parse [JNumber 1] = [Num 1]"
    by (simp_all add: short_entry_def)
  from h a b c d loop_demo show ?thesis by blast
qed


lemma searchCache_embedding_fails:
  assumes "gemini_embedContent env (tick w) question = Inl e"
  shows "searchCache env question userId w =
     (Inr not_found,
      w\<lparr>tick := Suc (tick w),
        trace := trace w @ [GeminiEmbedContent question, LogError ''Failed to generate embedding'',
                            LogError ''Error searching cache:'']\<rparr>)"
  using assms by (simp add: searchCache_def io_simps gemini_generateEmbedding_apply)

lemma searchCache_query_fails:
  assumes "gemini_embedContent env (tick w) question = Inr q"
      and "db_fault env (Suc (tick w)) = Some e"
  shows "searchCache env question userId w =
     (Inr not_found,
      w\<lparr>tick := Suc (Suc (tick w)),
        trace := trace w @ [GeminiEmbedContent question, LogError ''Error searching cache:'']\<rparr>)"
  using assms by (simp add: searchCache_def io_simps gemini_generateEmbedding_apply)

lemma saveToCache_total:
  "\<exists>w'. saveToCache env userId question answer source model documentSources w = (Inr (), w')"
  by (simp add: saveToCache_def io_simps gemini_generateEmbedding_apply
           split: sum.splits prod.splits option.splits)

lemma saveToCache_embedding_fails:
  assumes "gemini_embedContent env (tick w) question = Inl e"
  shows "saveToCache env userId question answer source model documentSources w =
     (Inr (),
      w\<lparr>tick := Suc (tick w),
        trace := trace w @ [GeminiEmbedContent question, LogError ''Failed to generate embedding'',
                            LogError (''Error saving to cache: '' @ error_message e),
                            LogError ''error.stack'']\<rparr>)"
  using assms by (simp add: saveToCache_def io_simps gemini_generateEmbedding_apply)

lemma saveToCache_save_fails:
  assumes "gemini_embedContent env (tick w) question = Inr q"
      and "db_fault env (Suc (tick w)) = Some e"
  shows "saveToCache env userId question answer source model documentSources w =
     (Inr (),
      w\<lparr>tick := Suc (Suc (tick w)),
        trace := trace w @ [GeminiEmbedContent question,
                            LogError (''Error saving to cache: '' @ error_message e),
                            LogError ''error.stack'']\<rparr>)"
  using assms by (simp add: saveToCache_def io_simps gemini_generateEmbedding_apply)

lemma chat_writeback_total:
  "\<exists>w'. chat_writeback env userId request modelToUse response searchResults w = (Inr (), w')"
  using saveToCache_total
  by (simp add: chat_writeback_def io_simps Let_def split: option.splits)

lemma chat_generate_returns:
  assumes "chat_respond env userId request modelToUse session fileContext fileInfo w =
             (Inr (response, searchResults), w1)"
  shows "\<exists>w2. chat_generate env userId request modelToUse session fileContext fileInfo w =
                 (Inr response, w2)"
proof -
  obtain w2 where "chat_writeback env userId request modelToUse response searchResults w1 = (Inr (), w2)"
    using chat_writeback_total by blast
  with assms show ?thesis by (simp add: chat_generate_def io_simps)
qed

lemma chat_cache_probe_miss:
  assumes "searchCache env message userId w = (Inr not_found, w')"
  shows "chat_cache_probe env userId message session w = (Inr None, w')"
  using assms by (simp add: chat_cache_probe_def io_simps not_found_def)


lemma searchCache_throw_is_miss:
  assumes "(\<exists>e. gemini_embedContent env (tick w) question = Inl e) \<or>
           (\<exists>e. db_fault env (Suc (tick w)) = Some e)"
  shows "\<exists>w'. searchCache env question userId w = (Inr not_found, w') \<and>
              LogError ''Error searching cache:'' \<in> set (trace w') \<and>
              qa_cache w' = qa_cache w"
proof (cases "gemini_embedContent env (tick w) question")
  case (Inl e)
  then show ?thesis by (simp add: searchCache_embedding_fails)
next
  case (Inr q)
  with assms obtain e where "db_fault env (Suc (tick w)) = Some e" by auto
  with Inr show ?thesis by (simp add: searchCache_query_fails)
qed

lemma saveToCache_throw_is_swallowed:
  assumes "(\<exists>e. gemini_embedContent env (tick w) question = Inl e) \<or>
           (\<exists>e. db_fault env (Suc (tick w)) = Some e)"
  shows "\<exists>w' e. saveToCache env userId question answer source model documentSources w = (Inr (), w') \<and>
              LogError (''Error saving to cache: '' @ error_message e) \<in> set (trace w') \<and>
              qa_cache w' = qa_cache w"
proof (cases "gemini_embedContent env (tick w) question")
  case (Inl e)
  let ?W = "w\<lparr>tick := Suc (tick w),
        trace := trace w @ [GeminiEmbedContent question, LogError ''Failed to generate embedding'',
                            LogError (''Error saving to cache: '' @ error_message e),
                            LogError ''error.stack'']\<rparr>"
  have "saveToCache env userId question answer source model documentSources w = (Inr (), ?W)"
    using Inl by (rule saveToCache_embedding_fails)
  moreover have "LogError (''Error saving to cache: '' @ error_message e) \<in> set (trace ?W)"
    by simp
  moreover have "qa_cache ?W = qa_cache w" by simp
  ultimately show ?thesis by blast
next
  case (Inr q)
  with assms obtain e where e: "db_fault env (Suc (tick w)) = Some e" by auto
  let ?W = "w\<lparr>tick := Suc (Suc (tick w)),
        trace := trace w @ [GeminiEmbedContent question,
                            LogError (''Error saving to cache: '' @ error_message e),
                            LogError ''error.stack'']\<rparr>"
  have "saveToCache env userId question answer source model documentSources w = (Inr (), ?W)"
    using Inr e by (rule saveToCache_save_fails)
  moreover have "LogError (''Error saving to cache: '' @ error_message e) \<in> set (trace ?W)"
    by simp
  moreover have "qa_cache ?W = qa_cache w" by simp
  ultimately show ?thesis by blast
qed

text \<open>
  Claim C7. A failure inside the semantic cache never reaches the caller. The lookup always
  returns; when its embedding request or its window query throws, it returns a miss, logs
  the error, and the engine's cache probe reports no hit. The writeback always returns;
  when its embedding request or its insert throws, the error is logged and the table is
  left as it was. And once the answer has been generated and the response assembled, the
  request returns that response whatever the writeback does.
\<close>

theorem cache_failure_never_fatal:
  "(\<exists>result w'. searchCache env question userId w = (Inr result, w') \<and>
      ((\<exists>e. gemini_embedContent env (tick w) question = Inl e) \<or>
       (\<exists>e. db_fault env (Suc (tick w)) = Some e) \<longrightarrow>
         result = not_found \<and> \<not> csr_found result \<and>
         LogError ''Error searching cache:'' \<in> set (trace w') \<and>
         chat_cache_probe env userId question session w = (Inr None, w'))) \<and>
   (\<exists>w'. saveToCache env userId question answer source model documentSources w = (Inr (), w') \<and>
      ((\<exists>e. gemini_embedContent env (tick w) question = Inl e) \<or>
       (\<exists>e. db_fault env (Suc (tick w)) = Some e) \<longrightarrow>
         qa_cache w' = qa_cache w \<and>
         (\<exists>e. LogError (''Error saving to cache: '' @ error_message e) \<in> set (trace w')))) \<and>
   (\<forall>response searchResults w1.
      chat_respond env userId request modelToUse session fileContext fileInfo w =
        (Inr (response, searchResults), w1) \<longrightarrow>
      (\<exists>w2. chat_generate env userId request modelToUse session fileContext fileInfo w =
               (Inr response, w2)))"
proof (intro conjI)
  obtain result w' where r: "searchCache env question userId w = (Inr result, w')"
    using searchCache_total by blast
  show "\<exists>result w'. searchCache env question userId w = (Inr result, w') \<and>
      ((\<exists>e. gemini_embedContent env (tick w) question = Inl e) \<or>
       (\<exists>e. db_fault env (Suc (tick w)) = Some e) \<longrightarrow>
         result = not_found \<and> \<not> csr_found result \<and>
         LogError ''Error searching cache:'' \<in> set (trace w') \<and>
         chat_cache_probe env userId question session w = (Inr None, w'))"
    using r searchCache_throw_is_miss [of env w question userId]
          chat_cache_probe_miss [of env question userId w w' session]
    by (auto simp: not_found_simps)
next
  obtain w' where r: "saveToCache env userId question answer source model documentSources w = (Inr (), w')"
    using saveToCache_total by blast
  show "\<exists>w'. saveToCache env userId question answer source model documentSources w = (Inr (), w') \<and>
      ((\<exists>e. gemini_embedContent env (tick w) question = Inl e) \<or>
       (\<exists>e. db_fault env (Suc (tick w)) = Some e) \<longrightarrow>
         qa_cache w' = qa_cache w \<and>
         (\<exists>e. LogError (''Error saving to cache: '' @ error_message e) \<in> set (trace w')))"
    using r saveToCache_throw_is_swallowed [of env w question userId answer source model documentSources]
    by auto
next
  show "\<forall>response searchResults w1.
      chat_respond env userId request modelToUse session fileContext fileInfo w =
        (Inr (response, searchResults), w1) \<longrightarrow>
      (\<exists>w2. chat_generate env userId request modelToUse session fileContext fileInfo w =
               (Inr response, w2))"
    using chat_generate_returns by blast
qed


lemmas chat_defs = chat_def chat_session_def createSession_def getSession_def chat_cache_probe_def
  chat_cache_hit_def chat_file_def chat_generate_def chat_respond_def chat_finish_def chat_writeback_def
  chat_answer_def hasRelevantData_def saveAIResponseToKnowledgeBase_def
  aiService_generateEmbedding_def aiService_chat_def openai_generateEmbedding_def openai_chat_def
  search_def collection_query_def addDocuments_def collection_add_def gen_uuid_def
  session_update_def get_now_def keep_last_10_def saveToCache_def gemini_generateEmbedding_def
  searchCache_def updateUsageStats_def increment_column_def document_sources_def user_turn_def
  assistant_turn_def qa_document_def buildContext_def chat_messages_def system_message_def

lemma cache_down_run:
  "map_sum id rs_answer (fst (chat cache_down_env ''u1'' hello_request demo_world)) = Inr ''an answer''"
  "LogError ''Error searching cache:'' \<in> set (trace (snd (chat cache_down_env ''u1'' hello_request demo_world)))"
  "LogError ''Error saving to cache: 503'' \<in> set (trace (snd (chat cache_down_env ''u1'' hello_request demo_world)))"
  by (simp_all add: chat_defs io_simps hello_request_def cache_down_env_def demo_env_def demo_world_def
        Let_def js_trim_def is_space_def not_found_def)

theorem cache_failure_never_fatal_witness:
  "gemini_embedContent cache_down_env (tick demo_world) ''hello'' = Inl (Error ''503'') \<and>
   (\<exists>w'. searchCache cache_down_env ''hello'' ''u1'' demo_world = (Inr not_found, w') \<and>
         LogError ''Error searching cache:'' \<in> set (trace w')) \<and>
   (\<exists>w'. saveToCache cache_down_env ''u1'' ''hello'' ''an answer'' ''ai_generated'' ''gpt-4o-mini'' None demo_world
           = (Inr (), w') \<and> qa_cache w' = qa_cache demo_world) \<and>
   map_sum id rs_answer (fst (chat cache_down_env ''u1'' hello_request demo_world)) = Inr ''an answer'' \<and>
   LogError ''Error searching cache:''
     \<in> set (trace (snd (chat cache_down_env ''u1'' hello_request demo_world))) \<and>
   LogError ''Error saving to cache: 503''
     \<in> set (trace (snd (chat cache_down_env ''u1'' hello_request demo_world)))"
proof -
  have h: "gemini_embedContent cache_down_env (tick demo_world) ''hello'' = Inl (Error ''503'')"
    by (simp add: cache_down_env_def)
  from cache_failure_never_fatal
         [where env = cache_down_env and question = "''hello''" and userId = "''u1''"
            and w = demo_world and answer = "''an answer''" and source = "''ai_generated''"
            and model = "''gpt-4o-mini''" and documentSources = None] h
  have "(\<exists>w'. searchCache cache_down_env ''hello'' ''u1'' demo_world = (Inr not_found, w') \<and>
         LogError ''Error searching cache:'' \<in> set (trace w'))"
   and "(\<exists>w'. saveToCache cache_down_env ''u1'' ''hello'' ''an answer'' ''ai_generated'' ''gpt-4o-mini'' None demo_world
           = (Inr (), w') \<and> qa_cache w' = qa_cache demo_world)"
    by blast+
  with h cache_down_run show ?thesis by blast
qed


lemma io_bind_InrE:
  assumes "io_bind m f w = (Inr y, w'')"
  obtains x w' where "m w = (Inr x, w')" "f x w' = (Inr y, w'')"
  using assms by (auto simp: io_bind_def split: prod.splits sum.splits)

lemma io_then_InrE:
  assumes "io_then m k w = (Inr y, w'')"
  obtains w' where "m w = (Inr (), w')" "k w' = (Inr y, w'')"
  using assms by (auto simp: io_then_def io_bind_def split: prod.splits sum.splits)

lemma io_catch_rethrow_InrE:
  assumes "io_catch m (\<lambda>error. io_then (emit ev) (io_throw error)) w = (Inr y, w')"
  shows "m w = (Inr y, w')"
  using assms by (auto simp: io_simps split: prod.splits sum.splits)

lemma extends_refl: "extends w w"
  by (simp add: extends_def)

lemma extends_trans: "extends w w1 \<Longrightarrow> extends w1 w2 \<Longrightarrow> extends w w2"
  by (auto simp: extends_def)

lemma quiet_refl: "quiet w w"
  by (simp add: quiet_def)

lemma quiet_trans: "quiet w w1 \<Longrightarrow> quiet w1 w2 \<Longrightarrow> quiet w w2"
  by (auto simp: quiet_def)

lemma quiet_extends: "quiet w w' \<Longrightarrow> extends w w'"
  by (auto simp: quiet_def extends_def)

lemma extends_mem: "extends w w' \<Longrightarrow> ev \<in> set (trace w) \<Longrightarrow> ev \<in> set (trace w')"
  by (auto simp: extends_def)

lemma quiet_adds: "quiet w w' \<Longrightarrow> filter is_add (trace w') = filter is_add (trace w)"
  by (auto simp: quiet_def)

text \<open>The rules of the invariant, for a reflexive and transitive relation.\<close>

lemma preorder_quiet: "preorder_rel quiet"
  unfolding preorder_rel_def using quiet_refl quiet_trans by blast

lemma preorder_extends: "preorder_rel extends"
  unfolding preorder_rel_def using extends_refl extends_trans by blast

lemma io_invD: "io_inv R m \<Longrightarrow> m w = (r, w') \<Longrightarrow> R w w'"
  by (auto simp: io_inv_def)

lemma io_inv_return: "preorder_rel R \<Longrightarrow> io_inv R (io_return x)"
  by (simp add: io_inv_def io_return_def preorder_rel_def)

lemma io_inv_throw: "preorder_rel R \<Longrightarrow> io_inv R (io_throw e)"
  by (simp add: io_inv_def io_throw_def preorder_rel_def)

lemma io_inv_bind:
  assumes "preorder_rel R" "io_inv R m" "\<And>x. io_inv R (f x)"
  shows "io_inv R (io_bind m f)"
  unfolding io_inv_def
proof (intro allI impI)
  fix w r w'
  assume a: "io_bind m f w = (r, w')"
  obtain r1 w1 where m: "m w = (r1, w1)" by fastforce
  then have 1: "R w w1" using assms(2) by (auto simp: io_inv_def)
  show "R w w'"
  proof (cases r1)
    case (Inl e)
    with a m have "w' = w1" by (simp add: io_bind_def)
    with 1 show ?thesis by simp
  next
    case (Inr x)
    with a m have "f x w1 = (r, w')" by (simp add: io_bind_def)
    then have "R w1 w'" using assms(3) by (auto simp: io_inv_def)
    with 1 assms(1) show ?thesis unfolding preorder_rel_def by blast
  qed
qed

lemma io_inv_then:
  assumes "preorder_rel R" "io_inv R m" "io_inv R k"
  shows "io_inv R (io_then m k)"
  unfolding io_then_def using assms by (intro io_inv_bind) auto

lemma io_inv_catch:
  assumes "preorder_rel R" "io_inv R m" "\<And>e. io_inv R (h e)"
  shows "io_inv R (io_catch m h)"
  unfolding io_inv_def
proof (intro allI impI)
  fix w r w'
  assume a: "io_catch m h w = (r, w')"
  obtain r1 w1 where m: "m w = (r1, w1)" by fastforce
  then have 1: "R w w1" using assms(2) by (auto simp: io_inv_def)
  show "R w w'"
  proof (cases r1)
    case (Inr x)
    with a m have "w' = w1" by (simp add: io_catch_def)
    with 1 show ?thesis by simp
  next
    case (Inl e)
    with a m have "h e w1 = (r, w')" by (simp add: io_catch_def)
    then have "R w1 w'" using assms(3) by (auto simp: io_inv_def)
    with 1 assms(1) show ?thesis unfolding preorder_rel_def by blast
  qed
qed

lemma quiet_emit: "\<not> is_add ev \<Longrightarrow> io_inv quiet (emit ev)"
  by (simp add: io_inv_def emit_def quiet_def)

lemma quiet_external: "\<not> is_add ev \<Longrightarrow> io_inv quiet (external ev f)"
  by (simp add: io_inv_def external_def quiet_def)

lemma quiet_db_op:
  "(\<And>w x w'. f w = (x, w') \<Longrightarrow> collection w' = collection w \<and> trace w' = trace w) \<Longrightarrow>
   io_inv quiet (db_op env f)"
  by (fastforce simp: io_inv_def db_op_def quiet_def split: option.splits prod.splits)

lemma quiet_gen_uuid: "io_inv quiet (gen_uuid env)"
  by (simp add: io_inv_def gen_uuid_def quiet_def)

lemma quiet_get_now: "io_inv quiet get_now"
  by (simp add: io_inv_def get_now_def quiet_def)

lemmas quiet_rules =
  io_inv_bind [OF preorder_quiet] io_inv_then [OF preorder_quiet] io_inv_catch [OF preorder_quiet]
  io_inv_return [OF preorder_quiet] io_inv_throw [OF preorder_quiet]
  quiet_emit quiet_external quiet_db_op quiet_gen_uuid quiet_get_now

lemma quiet_gemini_generateEmbedding: "io_inv quiet (gemini_generateEmbedding env text)"
  unfolding gemini_generateEmbedding_def by (intro quiet_rules) simp_all

lemma quiet_openai_generateEmbedding: "io_inv quiet (openai_generateEmbedding env text)"
  unfolding openai_generateEmbedding_def
  by (intro quiet_rules) (simp_all add: quiet_rules split: list.split)

lemma quiet_updateUsageStats: "io_inv quiet (updateUsageStats env cacheId)"
  by (simp add: io_inv_def updateUsageStats_apply quiet_def)

lemma quiet_session_update: "io_inv quiet (session_update env sid msgs t)"
  unfolding session_update_def by (intro quiet_rules) auto

lemma quiet_saveToCache: "io_inv quiet (saveToCache env userId question answer source model ds)"
  unfolding saveToCache_def
  by (intro quiet_rules quiet_gemini_generateEmbedding) auto


lemma quiet_searchCache: "io_inv quiet (searchCache env question userId)"
  unfolding searchCache_def
  apply (intro quiet_rules quiet_gemini_generateEmbedding)
      apply (auto simp: quiet_rules quiet_updateUsageStats split: prod.splits option.splits
                  intro!: quiet_rules quiet_updateUsageStats)
  apply (simp add: io_inv_def quiet_def)
  done

lemma quiet_chat_cache_hit: "io_inv quiet (chat_cache_hit env message session resp sim)"
  unfolding chat_cache_hit_def Let_def
  by (intro quiet_rules quiet_session_update)

lemma quiet_chat_cache_probe: "io_inv quiet (chat_cache_probe env userId message session)"
  unfolding chat_cache_probe_def
  by (intro quiet_rules quiet_searchCache)
     (auto split: option.splits intro!: quiet_rules quiet_chat_cache_hit)

lemma quiet_createSession: "io_inv quiet (createSession env userId)"
  unfolding createSession_def by (intro quiet_rules) (auto simp: Let_def)

lemma quiet_getSession: "io_inv quiet (getSession env sessionId)"
  unfolding getSession_def
  by (intro quiet_rules) (auto split: option.splits intro!: quiet_rules)

lemma quiet_chat_session: "io_inv quiet (chat_session env userId sessionId)"
  unfolding chat_session_def
  by (auto split: option.splits intro!: quiet_rules quiet_createSession quiet_getSession)

lemma quiet_collection_query: "io_inv quiet (collection_query env q k)"
  by (auto simp: io_inv_def collection_query_def quiet_def split: option.splits)

lemma quiet_search: "io_inv quiet (search env q k)"
proof -
  have 1: "io_inv quiet (io_catch
           (io_bind (collection_query env q k) (\<lambda>results.
              if qr_rows results = [] then io_return []
              else io_return
                     (map (\<lambda>(i, d, m, dist).
                             \<lparr>sr_id = i, sr_content = d, sr_metadata = m,
                              sr_score = (if qr_has_distances results
                                          then d_sub (Num 1) (rnd dist) else Num 0)\<rparr>)
                        (qr_rows results))))
           (\<lambda>error. io_then (emit (LogError ''Failed to search vector store'')) (io_throw error)))"
    by (intro quiet_rules quiet_collection_query) (auto intro!: quiet_rules)
  show ?thesis
    unfolding io_inv_def search_def
    using io_invD [OF 1] by (auto simp: quiet_refl split: option.splits)
qed

lemma quiet_openai_chat: "io_inv quiet (openai_chat env message context history modelOverride)"
  unfolding openai_chat_def Let_def by (intro quiet_rules) simp_all

lemma quiet_openai_generateCompletion: "io_inv quiet (openai_generateCompletion env prompt modelOverride)"
  unfolding openai_generateCompletion_def Let_def
  by (intro quiet_rules) (auto intro!: quiet_rules)

lemma quiet_generateSuggestedQuestions:
  "io_inv quiet (generateSuggestedQuestions env userQuestion answer sources modelToUse)"
  unfolding generateSuggestedQuestions_def Let_def aiService_generateCompletion_def
  by (intro quiet_rules quiet_openai_generateCompletion) simp_all

lemma quiet_chat_writeback:
  "io_inv quiet (chat_writeback env userId request modelToUse response searchResults)"
  unfolding chat_writeback_def Let_def
  by (auto split: option.splits intro!: quiet_rules quiet_saveToCache)


lemma extends_emit: "io_inv extends (emit ev)"
  by (simp add: io_inv_def emit_def extends_def)

lemma extends_external: "io_inv extends (external ev f)"
  by (simp add: io_inv_def external_def extends_def)

lemma extends_gen_uuid: "io_inv extends (gen_uuid env)"
  by (simp add: io_inv_def gen_uuid_def extends_def)

lemmas extends_rules =
  io_inv_bind [OF preorder_extends] io_inv_then [OF preorder_extends] io_inv_catch [OF preorder_extends]
  io_inv_return [OF preorder_extends] io_inv_throw [OF preorder_extends]
  extends_emit extends_external extends_gen_uuid

lemma extends_collection_add: "io_inv extends (collection_add env ids embeddings documents metadatas)"
  by (auto simp: io_inv_def collection_add_def extends_def Let_def split: option.splits)

lemma extends_chunk_ids: "io_inv extends (chunk_ids env chunks)"
  by (induction chunks) (auto intro!: extends_rules split: option.splits)

lemma extends_addDocuments: "io_inv extends (addDocuments env chunks embeddings)"
proof -
  have 1: "io_inv extends (io_catch
           (if length chunks \<noteq> length embeddings
            then io_throw (Error ''Number of chunks must match number of embeddings'')
            else io_bind (chunk_ids env chunks) (\<lambda>ids.
                   collection_add env ids embeddings (map dc_content chunks) (map dc_metadata chunks)))
           (\<lambda>error. io_then (emit (LogError ''Failed to add documents to vector store'')) (io_throw error)))"
    by (intro extends_rules) (auto intro!: extends_rules extends_chunk_ids extends_collection_add)
  show ?thesis
    unfolding io_inv_def addDocuments_def
    using io_invD [OF 1] by (auto simp: extends_refl split: option.splits)
qed

lemma emitted_then: "emitted w w1 ev \<Longrightarrow> extends w1 w2 \<Longrightarrow> emitted w w2 ev"
  by (auto simp: emitted_def extends_def)

lemma emitted_after: "extends w w1 \<Longrightarrow> emitted w1 w2 ev \<Longrightarrow> emitted w w2 ev"
  by (auto simp: emitted_def extends_def)

lemma openai_generateEmbedding_event:
  "openai_generateEmbedding env text w = (r, w1) \<Longrightarrow> emitted w w1 (OpenAIEmbeddings [text])"
  by (auto simp: openai_generateEmbedding_def io_simps emitted_def split: sum.splits list.splits)

lemma writeback_run:
  assumes "collection wa \<noteq> None"
  shows "\<exists>wb. io_catch (saveAIResponseToKnowledgeBase env question answer userId)
                 (\<lambda>error. emit (LogError ''Failed to save AI response to knowledge base'')) wa
               = (Inr (), wb) \<and>
              writeback_attempted env question answer userId wa wb"
  using assms
  by (auto simp: saveAIResponseToKnowledgeBase_def aiService_generateEmbedding_def
        openai_generateEmbedding_def addDocuments_def collection_add_def gen_uuid_def get_now_def
        qa_document_def writeback_attempted_def stored_answer_def io_simps Let_def
      split: sum.splits list.splits option.splits)

lemma writeback_attempted_event:
  "writeback_attempted env question answer userId wa wb \<Longrightarrow>
   emitted wa wb (OpenAIEmbeddings [qa_document question answer])"
  by (auto simp: writeback_attempted_def emitted_def qa_document_def Let_def
      split: sum.splits list.splits option.splits)

lemma writeback_attempted_extends:
  "writeback_attempted env question answer userId wa wb \<Longrightarrow> extends wa wb"
  by (auto simp: writeback_attempted_def extends_def Let_def
      split: sum.splits list.splits option.splits)

lemma openai_chat_run:
  assumes "openai_chat env message context history modelOverride w = (Inr answer, w1)"
  shows "trace w1 = trace w @ [OpenAIChatCompletion (js_or modelOverride (cfg_openai_model env))
                                 (chat_messages message context history)] \<and>
         openai_chat_create env (tick w) (js_or modelOverride (cfg_openai_model env))
           (chat_messages message context history) = Inr answer"
  using assms
  by (auto simp: openai_chat_def io_simps Let_def split: sum.splits)

lemma js_or_idem: "js_or (Some (js_or x d)) d = js_or x d"
  by (cases x) auto

lemma sublist_system_message:
  assumes "results \<noteq> []"
  shows "sublist (concat (map (\<lambda>r. sr_content r @ ''\<newline>\<newline>'') results))
           (system_message (Some (buildContext results)))"
proof -
  let ?c = "concat (map (\<lambda>r. sr_content r @ ''\<newline>\<newline>'') results)"
  have b: "buildContext results = ''Relevant information from the knowledge base:\<newline>\<newline>'' @ ?c"
    using assms by (simp add: buildContext_def)
  have "\<exists>pre post. system_message (Some (buildContext results)) = pre @ ?c @ post"
    unfolding b system_message_def
    by (rule exI [of _ "''You are a helpful AI assistant.'' @ ''\<newline>\<newline>Context information:\<newline>''
                          @ ''Relevant information from the knowledge base:\<newline>\<newline>''"]) simp
  then show ?thesis by (auto simp: sublist_def)
qed

lemma chat_answer_gate:
  assumes run: "chat_answer env userId message modelToUse history searchResults w = (Inr (answer, src), w')"
      and col: "collection w \<noteq> None"
  shows "(hasRelevantData env searchResults \<longrightarrow>
            src = knowledge_base \<and> quiet w w' \<and>
            trace w' = trace w @ [OpenAIChatCompletion (js_or (Some modelToUse) (cfg_openai_model env))
                                    (chat_messages message (Some (buildContext searchResults)) history)] \<and>
            openai_chat_create env (tick w) (js_or (Some modelToUse) (cfg_openai_model env))
              (chat_messages message (Some (buildContext searchResults)) history) = Inr answer) \<and>
         (\<not> hasRelevantData env searchResults \<longrightarrow>
            src = ai_generated \<and>
            (\<exists>wa. quiet w wa \<and> writeback_attempted env message answer userId wa w'))"
proof (cases "hasRelevantData env searchResults")
  case True
  with run have a: "io_bind (aiService_chat env message (Some (buildContext searchResults)) history (Some modelToUse))
          (\<lambda>answer. io_return (answer, knowledge_base)) w = (Inr (answer, src), w')"
    by (simp add: chat_answer_def Let_def)
  then obtain x w1 where 1: "aiService_chat env message (Some (buildContext searchResults)) history (Some modelToUse) w
        = (Inr x, w1)" and 2: "io_return (x, knowledge_base) w1 = (Inr (answer, src), w')"
    by (rule io_bind_InrE)
  from 2 have eq: "x = answer" "src = knowledge_base" "w1 = w'" by (simp_all add: io_return_def)
  from 1 eq have r: "openai_chat env message (Some (buildContext searchResults)) history (Some modelToUse) w
        = (Inr answer, w')" by (simp add: aiService_chat_def)
  have "quiet w w'" using r io_invD [OF quiet_openai_chat] by blast
  with True eq openai_chat_run [OF r] show ?thesis by simp
next
  case False
  with run have a: "io_bind (aiService_chat env message None history (Some modelToUse)) (\<lambda>answer.
          io_then
            (io_catch (saveAIResponseToKnowledgeBase env message answer userId)
               (\<lambda>error. emit (LogError ''Failed to save AI response to knowledge base'')))
            (io_return (answer, ai_generated))) w = (Inr (answer, src), w')"
    by (simp add: chat_answer_def)
  from a obtain x w1 where 1: "aiService_chat env message None history (Some modelToUse) w = (Inr x, w1)"
    and 2: "io_then
            (io_catch (saveAIResponseToKnowledgeBase env message x userId)
               (\<lambda>error. emit (LogError ''Failed to save AI response to knowledge base'')))
            (io_return (x, ai_generated)) w1 = (Inr (answer, src), w')"
    by (rule io_bind_InrE)
  from 2 obtain w2 where 3: "io_catch (saveAIResponseToKnowledgeBase env message x userId)
               (\<lambda>error. emit (LogError ''Failed to save AI response to knowledge base'')) w1 = (Inr (), w2)"
    and 4: "io_return (x, ai_generated) w2 = (Inr (answer, src), w')"
    by (rule io_then_InrE)
  from 4 have eq: "x = answer" "src = ai_generated" "w' = w2" by (simp_all add: io_return_def)
  have q: "quiet w w1" using 1 io_invD [OF quiet_openai_chat] by (auto simp: aiService_chat_def)
  then have "collection w1 \<noteq> None" using col by (simp add: quiet_def)
  from writeback_run [OF this, of env message x userId] 3
  have "writeback_attempted env message x userId w1 w2" by auto
  with False eq q show ?thesis by auto
qed


lemma d_max_cases: "a \<noteq> NaN \<Longrightarrow> b \<noteq> NaN \<Longrightarrow>
    (d_max a b = a \<or> d_max a b = b) \<and> d_max a b \<noteq> NaN \<and>
    d_greater_eq (d_max a b) a \<and> d_greater_eq (d_max a b) b"
  by (cases a; cases b) (auto simp: d_max_def d_greater_eq_def)

lemma d_greater_eq_trans: "d_greater_eq a b \<Longrightarrow> d_greater_eq b c \<Longrightarrow> d_greater_eq a c"
  by (cases a; cases b; cases c) (auto simp: d_greater_eq_def)

lemma d_greater_eq_refl: "a \<noteq> NaN \<Longrightarrow> d_greater_eq a a"
  by (simp add: d_greater_eq_def)

lemma fold_d_max:
  assumes "m \<noteq> NaN" "\<forall>x\<in>set xs. x \<noteq> NaN"
  shows "fold (\<lambda>x m. d_max m x) xs m \<in> insert m (set xs) \<and>
         fold (\<lambda>x m. d_max m x) xs m \<noteq> NaN \<and>
         d_greater_eq (fold (\<lambda>x m. d_max m x) xs m) m \<and>
         (\<forall>x\<in>set xs. d_greater_eq (fold (\<lambda>x m. d_max m x) xs m) x)"
  using assms
proof (induction xs arbitrary: m)
  case Nil
  then show ?case by (simp add: d_greater_eq_refl)
next
  case (Cons x xs)
  let ?m = "d_max m x"
  from Cons.prems have x: "x \<noteq> NaN" by simp
  note c = d_max_cases [OF Cons.prems(1) x]
  from Cons.prems c have ih: "fold (\<lambda>x m. d_max m x) xs ?m \<in> insert ?m (set xs) \<and>
         fold (\<lambda>x m. d_max m x) xs ?m \<noteq> NaN \<and>
         d_greater_eq (fold (\<lambda>x m. d_max m x) xs ?m) ?m \<and>
         (\<forall>x\<in>set xs. d_greater_eq (fold (\<lambda>x m. d_max m x) xs ?m) x)"
    by (intro Cons.IH) auto
  from ih c show ?case by (auto intro: d_greater_eq_trans)
qed

lemma max_score_greatest:
  assumes "searchResults \<noteq> []" "\<forall>r\<in>set searchResults. sr_score r \<noteq> NaN"
  shows "max_score searchResults \<in> sr_score ` set searchResults \<and>
         (\<forall>r\<in>set searchResults. d_greater_eq (max_score searchResults) (sr_score r))"
proof (cases searchResults)
  case Nil
  with assms show ?thesis by simp
next
  case (Cons r rs)
  with assms have "sr_score r \<noteq> NaN" "\<forall>x\<in>set (map sr_score rs). x \<noteq> NaN" by auto
  from fold_d_max [OF this] Cons show ?thesis by auto
qed

lemma d_sub_not_NaN: "d_sub (Num 1) (rnd x) \<noteq> NaN"
  by (cases "rnd x") (simp_all add: d_sub_def)

lemma search_result:
  assumes "search env q k w = (Inr results, w')"
  shows "collection w \<noteq> None \<and> (\<forall>r\<in>set results. sr_score r \<noteq> NaN)"
proof (cases "collection w")
  case None
  with assms show ?thesis by (simp add: search_def)
next
  case (Some stored)
  with assms show ?thesis
    by (auto simp: search_def io_simps d_sub_not_NaN split: prod.splits sum.splits if_splits)
qed

lemma hasRelevantData_iff:
  "hasRelevantData env searchResults \<longleftrightarrow>
     (\<exists>r\<in>set searchResults. d_greater_eq (sr_score r) (relevanceThreshold env))"
  by (auto simp: hasRelevantData_def list_ex_iff)

lemma below_threshold:
  "d_less m t \<Longrightarrow> d_greater_eq m s \<Longrightarrow> \<not> d_greater_eq s t"
  by (cases m; cases t; cases s) (auto simp: d_greater_eq_def)

lemma below_threshold_not_relevant:
  assumes "d_less m (relevanceThreshold env)"
      and "searchResults \<noteq> [] \<longrightarrow> (\<forall>r\<in>set searchResults. d_greater_eq m (sr_score r))"
  shows "\<not> hasRelevantData env searchResults"
  using assms below_threshold by (auto simp: hasRelevantData_iff)

lemma chat_finish_result:
  assumes "chat_finish env request modelToUse session fileInfo searchResults maxScore answer src w =
             (Inr (response, results), w1)"
  shows "results = searchResults \<and> rs_sources response = map to_source searchResults \<and>
         rs_relevanceScore response = Some maxScore \<and> rs_answer response = answer \<and>
         rs_responseSource response = src \<and> quiet w w1"
proof -
  have q: "io_inv quiet (chat_finish env request modelToUse session fileInfo searchResults maxScore answer src)"
    unfolding chat_finish_def Let_def
    by (intro quiet_rules quiet_session_update)
       (auto intro!: quiet_rules quiet_generateSuggestedQuestions)
  from assms show ?thesis
    using io_invD [OF q assms]
    by (auto simp: chat_finish_def Let_def io_return_def elim!: io_bind_InrE io_then_InrE)
qed

lemma chat_respond_gate:
  assumes "chat_respond env userId request modelToUse session fileContext fileInfo w =
             (Inr (response, results), w1)"
  shows "\<exists>wb wc. quiet w wb \<and> quiet wc w1 \<and> collection w \<noteq> None \<and>
           (\<exists>q wa. search env q (case rq_topK request of None \<Rightarrow> cfg_topK env | Some k \<Rightarrow> k) wa
                       = (Inr results, wb)) \<and>
           rs_sources response = map to_source results \<and>
           rs_relevanceScore response = Some (if results = [] then Num 0 else max_score results) \<and>
           (\<forall>r\<in>set results. sr_score r \<noteq> NaN) \<and>
           (hasRelevantData env results \<longrightarrow>
              rs_responseSource response = knowledge_base \<and> quiet wb wc \<and>
              (\<exists>history.
                 trace wc = trace wb @ [OpenAIChatCompletion (js_or (Some modelToUse) (cfg_openai_model env))
                                          (chat_messages (rq_message request) (Some (buildContext results)) history)] \<and>
                 openai_chat_create env (tick wb) (js_or (Some modelToUse) (cfg_openai_model env))
                   (chat_messages (rq_message request) (Some (buildContext results)) history)
                   = Inr (rs_answer response))) \<and>
           (\<not> hasRelevantData env results \<longrightarrow>
              rs_responseSource response = ai_generated \<and>
              (\<exists>wa. quiet wb wa \<and>
                    writeback_attempted env (rq_message request) (rs_answer response) userId wa wc))"
proof -
  let ?topK = "case rq_topK request of None \<Rightarrow> cfg_topK env | Some k \<Rightarrow> k"
  let ?history = "if (case rq_includeHistory request of None \<Rightarrow> True | Some b \<Rightarrow> b) \<and> length (s_history session) > 0
                       then Some (s_history session) else None"
  from assms [unfolded chat_respond_def Let_def]
  obtain q wa where 1: "aiService_generateEmbedding env
          (if fileContext \<noteq> [] then fileContext @ '' '' @ rq_message request else rq_message request) w
          = (Inr q, wa)"
    and r1: "io_bind (search env q ?topK) (\<lambda>searchResults.
        io_bind (chat_answer env userId (rq_message request) modelToUse ?history searchResults) (\<lambda>(answer, responseSource).
          chat_finish env request modelToUse session fileInfo searchResults
            (if length searchResults > 0 then max_score searchResults else Num 0) answer responseSource)) wa
          = (Inr (response, results), w1)"
    by (rule io_bind_InrE)
  from r1 obtain sr wb where 2: "search env q ?topK wa = (Inr sr, wb)"
    and r2: "io_bind (chat_answer env userId (rq_message request) modelToUse ?history sr) (\<lambda>(answer, responseSource).
          chat_finish env request modelToUse session fileInfo sr
            (if length sr > 0 then max_score sr else Num 0) answer responseSource) wb
          = (Inr (response, results), w1)"
    by (rule io_bind_InrE)
  from r2 obtain ar wc where 3: "chat_answer env userId (rq_message request) modelToUse ?history sr wb = (Inr ar, wc)"
    and r3: "(case ar of (answer, responseSource) \<Rightarrow>
          chat_finish env request modelToUse session fileInfo sr
            (if length sr > 0 then max_score sr else Num 0) answer responseSource) wc
          = (Inr (response, results), w1)"
    by (rule io_bind_InrE)
  obtain answer src where ar: "ar = (answer, src)" by (cases ar)
  from r3 ar have 4: "chat_finish env request modelToUse session fileInfo sr
            (if length sr > 0 then max_score sr else Num 0) answer src wc = (Inr (response, results), w1)"
    by simp
  note f = chat_finish_result [OF 4]
  have qa: "quiet w wa" using 1 io_invD [OF quiet_openai_generateEmbedding]
    by (simp add: aiService_generateEmbedding_def)
  have qb: "quiet wa wb" using 2 io_invD [OF quiet_search] by blast
  have qwb: "quiet w wb" using qa qb by (rule quiet_trans)
  note sr = search_result [OF 2]
  have colb: "collection wb \<noteq> None" using sr qb by (simp add: quiet_def)
  have colw: "collection w \<noteq> None" using sr qa by (simp add: quiet_def)
  note g = chat_answer_gate [OF 3 [unfolded ar] colb]
  have ms: "(if length sr > 0 then max_score sr else Num 0) = (if sr = [] then Num 0 else max_score sr)"
    by simp
  from f have res: "results = sr" by simp
  have "quiet w wb \<and> quiet wc w1 \<and> collection w \<noteq> None \<and>
           (\<exists>q wa. search env q ?topK wa = (Inr results, wb)) \<and>
           rs_sources response = map to_source results \<and>
           rs_relevanceScore response = Some (if results = [] then Num 0 else max_score results) \<and>
           (\<forall>r\<in>set results. sr_score r \<noteq> NaN) \<and>
           (hasRelevantData env results \<longrightarrow>
              rs_responseSource response = knowledge_base \<and> quiet wb wc \<and>
              (\<exists>history.
                 trace wc = trace wb @ [OpenAIChatCompletion (js_or (Some modelToUse) (cfg_openai_model env))
                                          (chat_messages (rq_message request) (Some (buildContext results)) history)] \<and>
                 openai_chat_create env (tick wb) (js_or (Some modelToUse) (cfg_openai_model env))
                   (chat_messages (rq_message request) (Some (buildContext results)) history)
                   = Inr (rs_answer response))) \<and>
           (\<not> hasRelevantData env results \<longrightarrow>
              rs_responseSource response = ai_generated \<and>
              (\<exists>wa. quiet wb wa \<and>
                    writeback_attempted env (rq_message request) (rs_answer response) userId wa wc))"
  proof (intro conjI impI)
    show "quiet w wb" by fact
    show "quiet wc w1" using f by simp
    show "collection w \<noteq> None" by fact
    show "\<exists>q wa. search env q ?topK wa = (Inr results, wb)" using 2 res by blast
    show "rs_sources response = map to_source results" using f by simp
    show "rs_relevanceScore response = Some (if results = [] then Num 0 else max_score results)"
      using f ms by simp
    show "\<forall>r\<in>set results. sr_score r \<noteq> NaN" using sr res by simp
  next
    assume h: "hasRelevantData env results"
    with g res f show "rs_responseSource response = knowledge_base" by simp
    from h g res show "quiet wb wc" by simp
    from h g res f show "\<exists>history.
                 trace wc = trace wb @ [OpenAIChatCompletion (js_or (Some modelToUse) (cfg_openai_model env))
                                          (chat_messages (rq_message request) (Some (buildContext results)) history)] \<and>
                 openai_chat_create env (tick wb) (js_or (Some modelToUse) (cfg_openai_model env))
                   (chat_messages (rq_message request) (Some (buildContext results)) history)
                   = Inr (rs_answer response)"
      by auto
  next
    assume h: "\<not> hasRelevantData env results"
    with g res f show "rs_responseSource response = ai_generated" by simp
    from h g res f show "\<exists>wa. quiet wb wa \<and>
                    writeback_attempted env (rq_message request) (rs_answer response) userId wa wc"
      by auto
  qed
  then show ?thesis by blast
qed


lemma chat_cache_probe_hit:
  assumes "chat_cache_probe env userId message session w = (Inr (Some r), w')"
  shows "rs_responseSource r = cached"
  using assms
  by (auto simp: chat_cache_probe_def chat_cache_hit_def Let_def io_return_def get_now_def
           elim!: io_bind_InrE io_then_InrE split: option.splits if_splits)

lemma chat_nonfile_decompose:
  assumes nf: "rq_file request = None"
      and run: "chat env userId request w = (Inr response, w')"
      and miss: "rs_responseSource response \<noteq> cached"
  shows "\<exists>session wa wb wc results.
           chat_session env userId (rq_sessionId request) w = (Inr session, wa) \<and>
           chat_cache_probe env userId (rq_message request) session wa = (Inr None, wb) \<and>
           chat_respond env userId request (js_or (rq_model request) (cfg_openai_model env)) session [] None wb
             = (Inr (response, results), wc) \<and>
           chat_writeback env userId request (js_or (rq_model request) (cfg_openai_model env)) response results wc
             = (Inr (), w')"
proof -
  let ?mdl = "js_or (rq_model request) (cfg_openai_model env)"
  from run [unfolded chat_def Let_def]
  have body: "(if rq_message request = [] \<or> length (js_trim (rq_message request)) = 0
        then io_throw (BadRequestException ''Message cannot be empty'')
        else
          io_bind (chat_session env userId (rq_sessionId request)) (\<lambda>session.
          io_bind (case rq_file request of
                     None \<Rightarrow> chat_cache_probe env userId (rq_message request) session
                   | Some _ \<Rightarrow> io_return None) (\<lambda>hit.
            case hit of
              Some response \<Rightarrow> io_return response
            | None \<Rightarrow>
                io_bind (chat_file env (rq_message request) ?mdl session (rq_file request)) (\<lambda>f.
                  case f of
                    Inl response \<Rightarrow> io_return response
                  | Inr (fileContext, fileInfo) \<Rightarrow>
                      chat_generate env userId request ?mdl session fileContext fileInfo)))) w
        = (Inr response, w')"
    by (rule io_catch_rethrow_InrE)
  then have ok: "\<not> (rq_message request = [] \<or> length (js_trim (rq_message request)) = 0)"
    by (auto simp: io_throw_def)
  from body ok nf have body': "io_bind (chat_session env userId (rq_sessionId request)) (\<lambda>session.
          io_bind (chat_cache_probe env userId (rq_message request) session) (\<lambda>hit.
            case hit of
              Some response \<Rightarrow> io_return response
            | None \<Rightarrow>
                io_bind (chat_file env (rq_message request) ?mdl session None) (\<lambda>f.
                  case f of
                    Inl response \<Rightarrow> io_return response
                  | Inr (fileContext, fileInfo) \<Rightarrow>
                      chat_generate env userId request ?mdl session fileContext fileInfo))) w
        = (Inr response, w')"
    by simp
  from body' obtain session wa where 1: "chat_session env userId (rq_sessionId request) w = (Inr session, wa)"
    and r1: "io_bind (chat_cache_probe env userId (rq_message request) session) (\<lambda>hit.
            case hit of
              Some response \<Rightarrow> io_return response
            | None \<Rightarrow>
                io_bind (chat_file env (rq_message request) ?mdl session None) (\<lambda>f.
                  case f of
                    Inl response \<Rightarrow> io_return response
                  | Inr (fileContext, fileInfo) \<Rightarrow>
                      chat_generate env userId request ?mdl session fileContext fileInfo)) wa
        = (Inr response, w')"
    by (rule io_bind_InrE)
  from r1 obtain hit wb where 2: "chat_cache_probe env userId (rq_message request) session wa = (Inr hit, wb)"
    and r2: "(case hit of
              Some response \<Rightarrow> io_return response
            | None \<Rightarrow>
                io_bind (chat_file env (rq_message request) ?mdl session None) (\<lambda>f.
                  case f of
                    Inl response \<Rightarrow> io_return response
                  | Inr (fileContext, fileInfo) \<Rightarrow>
                      chat_generate env userId request ?mdl session fileContext fileInfo)) wb
        = (Inr response, w')"
    by (rule io_bind_InrE)
  have hit: "hit = None"
  proof (cases hit)
    case (Some r)
    with r2 have "r = response" by (simp add: io_return_def)
    with 2 Some miss show ?thesis using chat_cache_probe_hit by blast
  qed simp
  with r2 have 3: "chat_generate env userId request ?mdl session [] None wb = (Inr response, w')"
    by (simp add: chat_file_def io_bind_def io_return_def)
  from 3 [unfolded chat_generate_def]
  obtain rr wc where 4: "chat_respond env userId request ?mdl session [] None wb = (Inr rr, wc)"
    and r4: "(case rr of (response, searchResults) \<Rightarrow>
          io_then (chat_writeback env userId request ?mdl response searchResults)
            (io_return response)) wc = (Inr response, w')"
    by (rule io_bind_InrE)
  obtain resp results where rr: "rr = (resp, results)" by (cases rr)
  with r4 have "resp = response" "chat_writeback env userId request ?mdl response results wc = (Inr (), w')"
    by (auto elim!: io_then_InrE simp: io_return_def)
  with 1 2 hit 4 rr show ?thesis by blast
qed

text \<open>
  Claim C1. For a chat request without file that returns an answer not taken from the
  cache: the answer's relevance score is the greatest score of the vector search results
  (0 when there are none). When that score is below the relevance threshold, the answer
  is tagged \<^verbatim>\<open>ai_generated\<close> and the writeback to the vector store was attempted: the
  question and answer document was sent to the embedding provider and, when the provider
  answered, the row of the question and answer was sent to the collection, and is in the
  collection after the request unless the store rejected it. When some result reaches
  the threshold, the answer is tagged \<^verbatim>\<open>knowledge_base\<close>; it is the provider's answer to a
  chat completion whose system message holds the content of every retrieved chunk, in the
  order of retrieval; the collection is unchanged and no \<^verbatim>\<open>collection.add\<close> was sent.
\<close>

theorem relevance_gate_routing:
  assumes nf: "rq_file request = None"
      and run: "chat env userId request w = (Inr response, w')"
      and miss: "rs_responseSource response \<noteq> cached"
  shows "\<exists>searchResults maxScore.
           (\<exists>q wa wb. search env q (case rq_topK request of None \<Rightarrow> cfg_topK env | Some k \<Rightarrow> k) wa
                         = (Inr searchResults, wb)) \<and>
           rs_sources response = map to_source searchResults \<and>
           rs_relevanceScore response = Some maxScore \<and>
           (searchResults = [] \<longrightarrow> maxScore = Num 0) \<and>
           (searchResults \<noteq> [] \<longrightarrow>
              maxScore \<in> sr_score ` set searchResults \<and>
              (\<forall>r\<in>set searchResults. d_greater_eq maxScore (sr_score r))) \<and>
           (d_less maxScore (relevanceThreshold env) \<longrightarrow>
              rs_responseSource response = ai_generated \<and>
              (\<exists>evs. trace w' = trace w @ evs \<and>
                     OpenAIEmbeddings [qa_document (rq_message request) (rs_answer response)] \<in> set evs) \<and>
              (\<exists>wa wb. extends w wa \<and> extends wb w' \<and>
                       collection wa = collection w \<and> collection w' = collection wb \<and>
                       collection w \<noteq> None \<and>
                       writeback_attempted env (rq_message request) (rs_answer response) userId wa wb)) \<and>
           ((\<exists>r\<in>set searchResults. d_greater_eq (sr_score r) (relevanceThreshold env)) \<longrightarrow>
              rs_responseSource response = knowledge_base \<and>
              (\<exists>system history t.
                 emitted w w'
                   (OpenAIChatCompletion (js_or (rq_model request) (cfg_openai_model env))
                      ((''system'', system) # history @ [(''user'', rq_message request)])) \<and>
                 sublist (concat (map (\<lambda>r. sr_content r @ ''\<newline>\<newline>'') searchResults)) system \<and>
                 openai_chat_create env t (js_or (rq_model request) (cfg_openai_model env))
                   ((''system'', system) # history @ [(''user'', rq_message request)])
                   = Inr (rs_answer response)) \<and>
              collection w' = collection w \<and>
              (\<exists>evs. trace w' = trace w @ evs \<and> filter is_add evs = []))"
proof -
  let ?mdl = "js_or (rq_model request) (cfg_openai_model env)"
  from chat_nonfile_decompose [OF nf run miss]
  obtain session wa wb wc results where
    1: "chat_session env userId (rq_sessionId request) w = (Inr session, wa)" and
    2: "chat_cache_probe env userId (rq_message request) session wa = (Inr None, wb)" and
    3: "chat_respond env userId request ?mdl session [] None wb = (Inr (response, results), wc)" and
    4: "chat_writeback env userId request ?mdl response results wc = (Inr (), w')"
    by blast
  from chat_respond_gate [OF 3] obtain wd we where
    g1: "quiet wb wd" "quiet we wc" "collection wb \<noteq> None" and
    g2: "\<exists>q wa. search env q (case rq_topK request of None \<Rightarrow> cfg_topK env | Some k \<Rightarrow> k) wa
                       = (Inr results, wd)" and
    g3: "rs_sources response = map to_source results"
        "rs_relevanceScore response = Some (if results = [] then Num 0 else max_score results)"
        "\<forall>r\<in>set results. sr_score r \<noteq> NaN" and
    g4: "hasRelevantData env results \<longrightarrow>
              rs_responseSource response = knowledge_base \<and> quiet wd we \<and>
              (\<exists>history.
                 trace we = trace wd @ [OpenAIChatCompletion (js_or (Some ?mdl) (cfg_openai_model env))
                                          (chat_messages (rq_message request) (Some (buildContext results)) history)] \<and>
                 openai_chat_create env (tick wd) (js_or (Some ?mdl) (cfg_openai_model env))
                   (chat_messages (rq_message request) (Some (buildContext results)) history)
                   = Inr (rs_answer response))" and
    g5: "\<not> hasRelevantData env results \<longrightarrow>
              rs_responseSource response = ai_generated \<and>
              (\<exists>wa. quiet wd wa \<and>
                    writeback_attempted env (rq_message request) (rs_answer response) userId wa we)"
    by blast
  have q1: "quiet w wa" using 1 io_invD [OF quiet_chat_session] by blast
  have q2: "quiet wa wb" using 2 io_invD [OF quiet_chat_cache_probe] by blast
  have q4: "quiet wc w'" using 4 io_invD [OF quiet_chat_writeback] by blast
  have q12: "quiet w wb" using q1 q2 by (rule quiet_trans)
  have qwd: "quiet w wd" using q12 g1(1) by (rule quiet_trans)
  have qew: "quiet we w'" using g1(2) q4 by (rule quiet_trans)
  have colw: "collection w \<noteq> None" using g1(3) q12 by (simp add: quiet_def)
  let ?m = "if results = [] then Num 0 else max_score results"
  have mx: "results \<noteq> [] \<longrightarrow>
              ?m \<in> sr_score ` set results \<and> (\<forall>r\<in>set results. d_greater_eq ?m (sr_score r))"
    using max_score_greatest [of results] g3(3) by simp
  show ?thesis
  proof (intro exI [of _ results] exI [of _ ?m] conjI impI)
    show "\<exists>q wa wb. search env q (case rq_topK request of None \<Rightarrow> cfg_topK env | Some k \<Rightarrow> k) wa
                         = (Inr results, wb)" using g2 by blast
    show "rs_sources response = map to_source results" by fact
    show "rs_relevanceScore response = Some ?m" by fact
    show "results = [] \<Longrightarrow> ?m = Num 0" by simp
    show "results \<noteq> [] \<Longrightarrow> ?m \<in> sr_score ` set results" using mx by blast
    show "results \<noteq> [] \<Longrightarrow> \<forall>r\<in>set results. d_greater_eq ?m (sr_score r)" using mx by blast
  next
    assume lo: "d_less ?m (relevanceThreshold env)"
    have n: "\<not> hasRelevantData env results"
      using lo mx by (intro below_threshold_not_relevant [of ?m]) auto
    with g5 show "rs_responseSource response = ai_generated" by blast
    from n g5 obtain wx where wx: "quiet wd wx"
        "writeback_attempted env (rq_message request) (rs_answer response) userId wx we" by blast
    have qx: "quiet w wx" using qwd wx(1) by (rule quiet_trans)
    have "emitted wx we (OpenAIEmbeddings [qa_document (rq_message request) (rs_answer response)])"
      using wx(2) by (rule writeback_attempted_event)
    then have "emitted w w' (OpenAIEmbeddings [qa_document (rq_message request) (rs_answer response)])"
      using qx qew quiet_extends emitted_then emitted_after by blast
    then show "\<exists>evs. trace w' = trace w @ evs \<and>
                     OpenAIEmbeddings [qa_document (rq_message request) (rs_answer response)] \<in> set evs"
      by (simp add: emitted_def)
    have "extends w wx \<and> extends we w' \<and> collection wx = collection w \<and>
          collection w' = collection we \<and> collection w \<noteq> None \<and>
          writeback_attempted env (rq_message request) (rs_answer response) userId wx we"
      using qx qew wx(2) colw by (simp add: quiet_def quiet_extends)
    then show "\<exists>wa wb. extends w wa \<and> extends wb w' \<and>
                       collection wa = collection w \<and> collection w' = collection wb \<and>
                       collection w \<noteq> None \<and>
                       writeback_attempted env (rq_message request) (rs_answer response) userId wa wb"
      by blast
  next
    assume "\<exists>r\<in>set results. d_greater_eq (sr_score r) (relevanceThreshold env)"
    then have h: "hasRelevantData env results" by (simp add: hasRelevantData_iff)
    then have ne: "results \<noteq> []" by (auto simp: hasRelevantData_def)
    with h g4 show "rs_responseSource response = knowledge_base" by blast
    from h g4 have qde: "quiet wd we" by blast
    from h g4 obtain history where
      tr: "trace we = trace wd @ [OpenAIChatCompletion ?mdl
                                    (chat_messages (rq_message request) (Some (buildContext results)) history)]" and
      an: "openai_chat_create env (tick wd) ?mdl
             (chat_messages (rq_message request) (Some (buildContext results)) history)
             = Inr (rs_answer response)"
      unfolding js_or_idem by blast
    let ?sys = "system_message (Some (buildContext results))"
    let ?hist = "case history of None \<Rightarrow> []
                 | Some h \<Rightarrow> map (\<lambda>msg. (if cm_role msg = User then ''user'' else ''assistant'', cm_content msg)) h"
    have cm: "chat_messages (rq_message request) (Some (buildContext results)) history =
                (''system'', ?sys) # ?hist @ [(''user'', rq_message request)]"
      by (simp add: chat_messages_def)
    have "emitted wd we (OpenAIChatCompletion ?mdl ((''system'', ?sys) # ?hist @ [(''user'', rq_message request)]))"
      using tr unfolding cm by (simp add: emitted_def)
    then have em: "emitted w w' (OpenAIChatCompletion ?mdl ((''system'', ?sys) # ?hist @ [(''user'', rq_message request)]))"
      using qwd qew quiet_extends emitted_then emitted_after by blast
    have sl: "sublist (concat (map (\<lambda>r. sr_content r @ ''\<newline>\<newline>'') results)) ?sys"
      using ne by (rule sublist_system_message)
    from em sl an [unfolded cm]
    show "\<exists>system history t.
                 emitted w w'
                   (OpenAIChatCompletion ?mdl
                      ((''system'', system) # history @ [(''user'', rq_message request)])) \<and>
                 sublist (concat (map (\<lambda>r. sr_content r @ ''\<newline>\<newline>'') results)) system \<and>
                 openai_chat_create env t ?mdl
                   ((''system'', system) # history @ [(''user'', rq_message request)])
                   = Inr (rs_answer response)"
      by blast
    from qwd qde qew have q: "quiet w w'" using quiet_trans by blast
    then show "collection w' = collection w" by (simp add: quiet_def)
    from q show "\<exists>evs. trace w' = trace w @ evs \<and> filter is_add evs = []" by (simp add: quiet_def)
  qed
qed


lemmas run_simps = chat_defs io_simps hello_request_def demo_env_def
  Let_def js_trim_def is_space_def not_found_def find_recent_def to_source_def truncateText_def
  source_label_def policy_metadata_def one_minus_88 one_minus_18 relevanceThreshold_def rnd_3_10
  d_greater_eq_def

lemma threshold_demo: "relevanceThreshold low_score_env = Num (5404319552844595 / 2 ^ 54)"
  "relevanceThreshold high_score_env = Num (5404319552844595 / 2 ^ 54)"
  by (simp_all add: relevanceThreshold_def rnd_3_10 low_score_env_def high_score_env_def demo_env_def)

lemma low_score_run:
  "fst (chat low_score_env ''u1'' hello_request empty_world) = Inr low_response"
  "collection (snd (chat low_score_env ''u1'' hello_request empty_world)) =
     Some [stored_answer ''hello'' ''an answer'' ''u1'' ''uuid'' [Num 1, Num 0] 7]"
  "filter is_add (trace (snd (chat low_score_env ''u1'' hello_request empty_world))) =
     [CollectionAdd [''Question: hello\<newline>\<newline>Answer: an answer'']]"
  by (simp_all add: run_simps low_score_env_def empty_world_def low_response_def stored_answer_def)

lemma high_score_run:
  "fst (chat high_score_env ''u1'' hello_request empty_world) = Inr high_response"
  "filter (\<lambda>ev. case ev of OpenAIChatCompletion model messages \<Rightarrow> True | _ \<Rightarrow> False)
     (trace (snd (chat high_score_env ''u1'' hello_request empty_world))) =
     [OpenAIChatCompletion ''gpt-4o-mini''
        [(''system'', ''You are a helpful AI assistant.\<newline>\<newline>Context information:\<newline>Relevant information from the knowledge base:\<newline>\<newline>Returns within 30 days\<newline>\<newline>\<newline>\<newline>Please provide a helpful and accurate answer based on the context provided. If the context doesn't contain enough information to answer the question, please say so clearly.''),
         (''user'', ''hello'')]]"
  by (simp_all add: run_simps high_score_env_def empty_world_def high_response_def)

theorem relevance_gate_routing_witness:
  "rq_file hello_request = None \<and>
   fst (chat low_score_env ''u1'' hello_request empty_world) = Inr low_response \<and>
   rs_responseSource low_response = ai_generated \<and>
   rs_relevanceScore low_response = Some (Num (1080863910568919 / 2 ^ 53)) \<and>
   relevanceThreshold low_score_env = Num (5404319552844595 / 2 ^ 54) \<and>
   d_less (Num (1080863910568919 / 2 ^ 53)) (relevanceThreshold low_score_env) \<and>
   (\<exists>wa wb. extends empty_world wa \<and>
            extends wb (snd (chat low_score_env ''u1'' hello_request empty_world)) \<and>
            writeback_attempted low_score_env ''hello'' ''an answer'' ''u1'' wa wb) \<and>
   collection empty_world = Some [] \<and>
   collection (snd (chat low_score_env ''u1'' hello_request empty_world)) =
     Some [stored_answer ''hello'' ''an answer'' ''u1'' ''uuid'' [Num 1, Num 0] 7] \<and>
   fst (chat high_score_env ''u1'' hello_request empty_world) = Inr high_response \<and>
   rs_responseSource high_response = knowledge_base \<and>
   rs_relevanceScore high_response = Some (Num (7385903388887614 / 2 ^ 53)) \<and>
   d_greater_eq (Num (7385903388887614 / 2 ^ 53)) (relevanceThreshold high_score_env) \<and>
   (\<exists>system history.
      emitted empty_world (snd (chat high_score_env ''u1'' hello_request empty_world))
        (OpenAIChatCompletion ''gpt-4o-mini'' ((''system'', system) # history @ [(''user'', ''hello'')]))) \<and>
   filter (\<lambda>ev. case ev of OpenAIChatCompletion model messages \<Rightarrow> True | _ \<Rightarrow> False)
     (trace (snd (chat high_score_env ''u1'' hello_request empty_world))) =
     [OpenAIChatCompletion ''gpt-4o-mini''
        [(''system'', ''You are a helpful AI assistant.\<newline>\<newline>Context information:\<newline>Relevant information from the knowledge base:\<newline>\<newline>Returns within 30 days\<newline>\<newline>\<newline>\<newline>Please provide a helpful and accurate answer based on the context provided. If the context doesn't contain enough information to answer the question, please say so clearly.''),
         (''user'', ''hello'')]] \<and>
   collection (snd (chat high_score_env ''u1'' hello_request empty_world)) = collection empty_world \<and>
   (\<exists>evs. trace (snd (chat high_score_env ''u1'' hello_request empty_world)) = trace empty_world @ evs \<and>
          filter is_add evs = [])"
proof -
  have nf: "rq_file hello_request = None" by (simp add: hello_request_def)
  have lo: "chat low_score_env ''u1'' hello_request empty_world =
              (Inr low_response, snd (chat low_score_env ''u1'' hello_request empty_world))"
    using low_score_run(1) by (metis prod.collapse)
  have hi: "chat high_score_env ''u1'' hello_request empty_world =
              (Inr high_response, snd (chat high_score_env ''u1'' hello_request empty_world))"
    using high_score_run(1) by (metis prod.collapse)
  have fl: "rs_responseSource low_response = ai_generated"
    "rs_relevanceScore low_response = Some (Num (1080863910568919 / 2 ^ 53))"
    "rs_answer low_response = ''an answer''" "rq_message hello_request = ''hello''"
    by (simp_all add: low_response_def hello_request_def)
  have fh: "rs_responseSource high_response = knowledge_base"
    "rs_relevanceScore high_response = Some (Num (7385903388887614 / 2 ^ 53))"
    "rq_model hello_request = None" "cfg_openai_model high_score_env = ''gpt-4o-mini''"
    by (simp_all add: high_response_def hello_request_def high_score_env_def demo_env_def)
  have cmp: "d_less (Num (1080863910568919 / 2 ^ 53)) (relevanceThreshold low_score_env)"
    "d_greater_eq (Num (7385903388887614 / 2 ^ 53)) (relevanceThreshold high_score_env)"
    by (simp_all add: threshold_demo d_greater_eq_def)
  have ml: "rs_responseSource low_response \<noteq> cached" by (simp add: fl)
  have mh: "rs_responseSource high_response \<noteq> cached" by (simp add: fh)
  from relevance_gate_routing [OF nf lo ml]
  obtain srl :: "SearchResult list" and ms where
    l1: "rs_relevanceScore low_response = Some ms" and
    l2: "d_less ms (relevanceThreshold low_score_env) \<longrightarrow>
           (\<exists>wa wb. extends empty_world wa \<and>
              extends wb (snd (chat low_score_env ''u1'' hello_request empty_world)) \<and>
              collection wa = collection empty_world \<and>
              collection (snd (chat low_score_env ''u1'' hello_request empty_world)) = collection wb \<and>
              collection empty_world \<noteq> None \<and>
              writeback_attempted low_score_env (rq_message hello_request) (rs_answer low_response) ''u1'' wa wb)"
    by blast
  from l1 have "ms = Num (1080863910568919 / 2 ^ 53)" unfolding fl(2) by simp
  with l2 cmp(1) have a: "\<exists>wa wb. extends empty_world wa \<and>
            extends wb (snd (chat low_score_env ''u1'' hello_request empty_world)) \<and>
            writeback_attempted low_score_env ''hello'' ''an answer'' ''u1'' wa wb"
    unfolding fl(3,4) by blast
  from relevance_gate_routing [OF nf hi mh]
  obtain sr :: "SearchResult list" and mx where
    h1: "rs_relevanceScore high_response = Some mx" and
    h2: "sr = [] \<longrightarrow> mx = Num 0" and
    h3: "sr \<noteq> [] \<longrightarrow> mx \<in> sr_score ` set sr" and
    h4: "(\<exists>r\<in>set sr. d_greater_eq (sr_score r) (relevanceThreshold high_score_env)) \<longrightarrow>
           (\<exists>system history t.
                 emitted empty_world (snd (chat high_score_env ''u1'' hello_request empty_world))
                   (OpenAIChatCompletion (js_or (rq_model hello_request) (cfg_openai_model high_score_env))
                      ((''system'', system) # history @ [(''user'', rq_message hello_request)])) \<and>
                 sublist (concat (map (\<lambda>r. sr_content r @ ''\<newline>\<newline>'') sr)) system \<and>
                 openai_chat_create high_score_env t (js_or (rq_model hello_request) (cfg_openai_model high_score_env))
                   ((''system'', system) # history @ [(''user'', rq_message hello_request)])
                   = Inr (rs_answer high_response)) \<and>
           collection (snd (chat high_score_env ''u1'' hello_request empty_world)) = collection empty_world \<and>
           (\<exists>evs. trace (snd (chat high_score_env ''u1'' hello_request empty_world)) = trace empty_world @ evs \<and>
                  filter is_add evs = [])"
    by blast
  from h1 have mx: "mx = Num (7385903388887614 / 2 ^ 53)" unfolding fh(2) by simp
  with h2 have "sr \<noteq> []" by auto
  with h3 obtain r where r: "r \<in> set sr" "sr_score r = mx" by auto
  have "d_greater_eq (sr_score r) (relevanceThreshold high_score_env)"
    unfolding r(2) mx by (rule cmp(2))
  with r(1) have "\<exists>r\<in>set sr. d_greater_eq (sr_score r) (relevanceThreshold high_score_env)"
    by blast
  with h4 have b: "\<exists>system history.
      emitted empty_world (snd (chat high_score_env ''u1'' hello_request empty_world))
        (OpenAIChatCompletion ''gpt-4o-mini'' ((''system'', system) # history @ [(''user'', ''hello'')]))"
    "collection (snd (chat high_score_env ''u1'' hello_request empty_world)) = collection empty_world"
    "\<exists>evs. trace (snd (chat high_score_env ''u1'' hello_request empty_world)) = trace empty_world @ evs \<and>
          filter is_add evs = []"
    unfolding fh(3,4) fl(4) by auto
  have c: "collection empty_world = Some []" by (simp add: empty_world_def)
  from nf low_score_run(1,2) high_score_run fl(1,2) fh(1,2) threshold_demo(1) cmp a b c
  show ?thesis by blast
qed


lemma keep_last_10_length: "length (keep_last_10 history) \<le> 10"
  by (simp add: keep_last_10_def)

lemma keep_last_10_full:
  "length history = 10 \<Longrightarrow> keep_last_10 (history @ [a, b]) = drop 2 history @ [a, b]"
  by (simp add: keep_last_10_def)

lemma ten_messages_length: "length ten_messages = 10"
  by (simp add: ten_messages_def eval_nat_numeral)

lemma find_recent_single:
  "find_recent ''u1'' [demo_entry] = [demo_entry]"
  by (simp add: find_recent_def demo_entry_def)

lemma loop_single:
  "best_match_loop [Num 1, Num 0] [demo_entry] (None, Num 0) = (Some demo_entry, Num 1)"
  by (simp add: cos_demo demo_entry_def)

lemma demo_entry_fields:
  "qc_id demo_entry = ''c1''" "qc_answer demo_entry = ''30 days''"
  "qc_documentSources demo_entry = None" "qc_question demo_entry = ''What is the return window?''"
  by (simp_all add: demo_entry_def)

lemmas session_run_simps = chat_defs io_simps demo_env_def Let_def js_trim_def is_space_def
  not_found_def full_world_def full_session_def find_recent_single

lemma cache_hit_run:
  "map_sum id rs_responseSource (fst (chat demo_env ''u1'' session_request full_world)) = Inr cached"
  "map cs_messages (chat_sessions (snd (chat demo_env ''u1'' session_request full_world))) =
     [Some (ten_messages @ [user_turn ''hello'', assistant_turn ''30 days''])]"
  by (simp_all add: session_run_simps session_request_def loop_single demo_entry_fields
        threshold_reached del: best_match_loop.simps)


lemma image_run:
  "map_sum id rs_responseSource (fst (chat demo_env ''u1'' image_request full_world)) = Inr ai_generated"
  "map cs_messages (chat_sessions (snd (chat demo_env ''u1'' image_request full_world))) =
     [Some (ten_messages @ [user_turn ''[Image: cat.png] hello'', assistant_turn ''a picture''])]"
  by (simp_all add: session_run_simps image_request_def chat_image_def processFile_def
        aiService_analyzeImage_def openai_analyzeImage_def)

lemma generated_run:
  "map_sum id rs_responseSource
     (fst (chat demo_env ''u1'' session_request (full_world\<lparr>qa_cache := []\<rparr>))) = Inr ai_generated"
  "map cs_messages
     (chat_sessions (snd (chat demo_env ''u1'' session_request (full_world\<lparr>qa_cache := []\<rparr>)))) =
     [Some (drop 2 ten_messages @ [user_turn ''hello'', assistant_turn ''an answer''])]"
  by (simp_all add: session_run_simps session_request_def find_recent_def ten_messages_length)

text \<open>
  Claim C4 fails on the code. Only the path that generates an answer truncates the history;
  the cache-hit path and the image path push the two turns and persist the history as it is.
  On a session that holds ten messages, a request answered from the cache and a request with
  an image each persist twelve messages; the generated path on the same session persists ten.
\<close>

theorem history_cap_missed_on_cache_hit_and_image:
  "length ten_messages = 10 \<and>
   map_sum id rs_responseSource (fst (chat demo_env ''u1'' session_request full_world)) = Inr cached \<and>
   map cs_messages (chat_sessions (snd (chat demo_env ''u1'' session_request full_world))) =
     [Some (ten_messages @ [user_turn ''hello'', assistant_turn ''30 days''])] \<and>
   length (ten_messages @ [user_turn ''hello'', assistant_turn ''30 days'']) = 12 \<and>
   map_sum id rs_responseSource (fst (chat demo_env ''u1'' image_request full_world)) = Inr ai_generated \<and>
   map cs_messages (chat_sessions (snd (chat demo_env ''u1'' image_request full_world))) =
     [Some (ten_messages @ [user_turn ''[Image: cat.png] hello'', assistant_turn ''a picture''])] \<and>
   length (ten_messages @ [user_turn ''[Image: cat.png] hello'', assistant_turn ''a picture'']) = 12 \<and>
   map cs_messages
     (chat_sessions (snd (chat demo_env ''u1'' session_request (full_world\<lparr>qa_cache := []\<rparr>)))) =
     [Some (drop 2 ten_messages @ [user_turn ''hello'', assistant_turn ''an answer''])] \<and>
   length (drop 2 ten_messages @ [user_turn ''hello'', assistant_turn ''an answer'']) = 10"
  using cache_hit_run image_run generated_run by (simp add: ten_messages_length)


lemma getSession_apply:
  assumes "db_fault env (tick w) = None"
  shows "getSession env sessionId w =
     (Inr (case find (\<lambda>e. cs_id e = sessionId) (chat_sessions w) of
             None \<Rightarrow> None
           | Some e \<Rightarrow> Some \<lparr>s_id = cs_id e, s_userId = cs_userId e,
                              s_history = (case cs_messages e of None \<Rightarrow> [] | Some m \<Rightarrow> m),
                              s_createdAt = cs_createdAt e, s_updatedAt = cs_updatedAt e\<rparr>),
      w\<lparr>tick := Suc (tick w)\<rparr>)"
  using assms by (simp add: getSession_def io_simps split: option.splits)

text \<open>
  Claim C6 fails on the code. The three operations do not treat an ownership mismatch alike.
  On an existing session whose owner is not the requester, a chat request (with a message that
  is not blank) fails with the error \<^verbatim>\<open>Session does not belong to user\<close> and changes no
  table; \<^verbatim>\<open>deleteSession\<close> and \<^verbatim>\<open>clearSessionHistory\<close> test the owner in the condition
  of the only \<^verbatim>\<open>if\<close> they have, and on a mismatch they return normally, with no error and
  no log line, and leave the session as it was: a silent no-op.
\<close>

theorem non_owner_session_operations:
  assumes found: "find (\<lambda>e. cs_id e = sessionId) (chat_sessions w) = Some e"
      and other: "cs_userId e \<noteq> userId"
      and db: "db_fault env (tick w) = None"
      and sid: "rq_sessionId request = Some sessionId" "sessionId \<noteq> []"
      and msg: "rq_message request \<noteq> []" "js_trim (rq_message request) \<noteq> []"
  shows "chat env userId request w =
           (Inl (BadRequestException ''Session does not belong to user''),
            w\<lparr>tick := Suc (tick w), trace := trace w @ [LogError ''Failed to process chat request'']\<rparr>) \<and>
         deleteSession env sessionId userId w = (Inr (), w\<lparr>tick := Suc (tick w)\<rparr>) \<and>
         clearSessionHistory env sessionId userId w = (Inr (), w\<lparr>tick := Suc (tick w)\<rparr>)"
proof (intro conjI)
  show "chat env userId request w =
           (Inl (BadRequestException ''Session does not belong to user''),
            w\<lparr>tick := Suc (tick w), trace := trace w @ [LogError ''Failed to process chat request'']\<rparr>)"
    using found other sid msg
    by (simp add: chat_def chat_session_def Let_def io_simps getSession_apply [OF db])
  show "deleteSession env sessionId userId w = (Inr (), w\<lparr>tick := Suc (tick w)\<rparr>)"
    using found other
    by (simp add: deleteSession_def io_simps getSession_apply [OF db])
  show "clearSessionHistory env sessionId userId w = (Inr (), w\<lparr>tick := Suc (tick w)\<rparr>)"
    using found other
    by (simp add: clearSessionHistory_def io_simps getSession_apply [OF db])
qed

lemma full_world_facts:
  "find (\<lambda>e. cs_id e = ''s1'') (chat_sessions full_world) = Some full_session"
  "cs_userId full_session \<noteq> ''u2''"
  "db_fault demo_env (tick full_world) = None"
  "rq_sessionId session_request = Some ''s1''" "''s1'' \<noteq> []"
  "rq_message session_request \<noteq> []" "js_trim (rq_message session_request) \<noteq> []"
  by (simp_all add: full_world_def full_session_def demo_env_def session_request_def
        js_trim_def is_space_def)

theorem non_owner_session_operations_witness:
  "find (\<lambda>e. cs_id e = ''s1'') (chat_sessions full_world) = Some full_session \<and>
   cs_userId full_session = ''u1'' \<and>
   chat demo_env ''u2'' session_request full_world =
     (Inl (BadRequestException ''Session does not belong to user''),
      full_world\<lparr>tick := Suc (tick full_world),
        trace := trace full_world @ [LogError ''Failed to process chat request'']\<rparr>) \<and>
   deleteSession demo_env ''s1'' ''u2'' full_world = (Inr (), full_world\<lparr>tick := Suc (tick full_world)\<rparr>) \<and>
   clearSessionHistory demo_env ''s1'' ''u2'' full_world =
     (Inr (), full_world\<lparr>tick := Suc (tick full_world)\<rparr>) \<and>
   chat_sessions (snd (deleteSession demo_env ''s1'' ''u1'' full_world)) = [] \<and>
   map cs_messages (chat_sessions (snd (clearSessionHistory demo_env ''s1'' ''u1'' full_world))) = [Some []]"
proof -
  have o: "cs_userId full_session = ''u1''"
    "chat_sessions (snd (deleteSession demo_env ''s1'' ''u1'' full_world)) = []"
    "map cs_messages (chat_sessions (snd (clearSessionHistory demo_env ''s1'' ''u1'' full_world))) = [Some []]"
    by (simp_all add: deleteSession_def clearSessionHistory_def getSession_def session_update_def
          get_now_def io_simps full_world_def full_session_def demo_env_def)
  from non_owner_session_operations [OF full_world_facts] full_world_facts(1) o
  show ?thesis by blast
qed


lemma deleteDocument_success_run:
  "deleteDocument demo_env ''d1'' stored_world =
     (Inr (), stored_world\<lparr>tick := 2,
        trace := [CollectionGetWhere ''d1'', CollectionDeleteIds [''k1'']],
        collection := Some []\<rparr>)"
  by (simp add: deleteDocument_def deleteDocumentsByDocId_def collection_get_where_def
        collection_delete_ids_def io_simps demo_env_def stored_world_def policy_metadata_def Let_def)

lemmas reindex_simps = reindexAllDocuments_def reindex_document_def save_document_def
  processDocument_def extractText_def splitText_def gemini_generateEmbeddings_def
  gemini_embed_batch_def addDocuments_def collection_add_def gen_uuid_def get_now_def
  deleteDocument_def deleteDocumentsByDocId_def collection_get_where_def collection_delete_ids_def
  io_simps Let_def js_trim_def is_space_def demo_env_def stored_world_def policy_metadata_def

lemma reindex_success_run:
  "fst (reindexAllDocuments demo_env ''u1'' stored_world) =
     Inr \<lparr>rr_success = True, rr_totalDocuments = 1, rr_reindexed = 1, rr_failed = 0, rr_errors = None\<rparr>"
  "map doc_status (document_table (snd (reindexAllDocuments demo_env ''u1'' stored_world))) = [''completed'']"
  "filter is_add (trace (snd (reindexAllDocuments demo_env ''u1'' stored_world))) =
     [CollectionAdd [''Returns within 30 days'']]"
  by (simp_all add: reindex_simps gemini_embeddings_loop.simps)

lemma reindex_failure_run:
  "fst (reindexAllDocuments chroma_down_env ''u1'' stored_world) =
     Inr \<lparr>rr_success = True, rr_totalDocuments = 1, rr_reindexed = 0, rr_failed = 1,
          rr_errors = Some [''policy.pdf: The requested resource could not be found'']\<rparr>"
  "map doc_status (document_table (snd (reindexAllDocuments chroma_down_env ''u1'' stored_world))) = [''failed'']"
  "trace (snd (reindexAllDocuments chroma_down_env ''u1'' stored_world)) =
     [CollectionGetWhere ''d1'',
      LogError ''Failed to delete documents from vector store'',
      LogError ''Failed to delete document: d1'',
      LogError ''Failed to re-index policy.pdf: The requested resource could not be found'']"
  "collection (snd (reindexAllDocuments chroma_down_env ''u1'' stored_world)) = collection stored_world"
  by (simp_all add: reindex_simps chroma_down_env_def)

text \<open>
  Claim C3 fails on the code. \<^verbatim>\<open>deleteDocumentsByDocId\<close> makes one attempt, the fetch of
  the matching ids by metadata filter; when that request fails it logs an error and throws
  again, and \<^verbatim>\<open>IngestionService.deleteDocument\<close> logs and throws again in turn. No
  other request is sent and nothing is logged as a warning. Re-indexing then marks the
  document as failed and does not ingest it again: no text is embedded and nothing is added
  to the collection.
\<close>

theorem delete_failure_reaches_caller:
  "deleteDocumentsByDocId chroma_down_env ''d1'' stored_world =
     (Inl (Error ''The requested resource could not be found''),
      stored_world\<lparr>tick := 1,
        trace := [CollectionGetWhere ''d1'',
                  LogError ''Failed to delete documents from vector store'']\<rparr>) \<and>
   deleteDocument chroma_down_env ''d1'' stored_world =
     (Inl (Error ''The requested resource could not be found''),
      stored_world\<lparr>tick := 1,
        trace := [CollectionGetWhere ''d1'',
                  LogError ''Failed to delete documents from vector store'',
                  LogError ''Failed to delete document: d1'']\<rparr>) \<and>
   fst (reindexAllDocuments chroma_down_env ''u1'' stored_world) =
     Inr \<lparr>rr_success = True, rr_totalDocuments = 1, rr_reindexed = 0, rr_failed = 1,
          rr_errors = Some [''policy.pdf: The requested resource could not be found'']\<rparr> \<and>
   map doc_status (document_table (snd (reindexAllDocuments chroma_down_env ''u1'' stored_world))) =
     [''failed''] \<and>
   trace (snd (reindexAllDocuments chroma_down_env ''u1'' stored_world)) =
     [CollectionGetWhere ''d1'',
      LogError ''Failed to delete documents from vector store'',
      LogError ''Failed to delete document: d1'',
      LogError ''Failed to re-index policy.pdf: The requested resource could not be found''] \<and>
   collection (snd (reindexAllDocuments chroma_down_env ''u1'' stored_world)) = collection stored_world"
proof -
  have "deleteDocumentsByDocId chroma_down_env ''d1'' stored_world =
     (Inl (Error ''The requested resource could not be found''),
      stored_world\<lparr>tick := 1,
        trace := [CollectionGetWhere ''d1'',
                  LogError ''Failed to delete documents from vector store'']\<rparr>)"
    by (simp add: deleteDocumentsByDocId_def collection_get_where_def
        collection_delete_ids_def io_simps chroma_down_env_def demo_env_def stored_world_def Let_def)
  moreover have "deleteDocument chroma_down_env ''d1'' stored_world =
     (Inl (Error ''The requested resource could not be found''),
      stored_world\<lparr>tick := 1,
        trace := [CollectionGetWhere ''d1'',
                  LogError ''Failed to delete documents from vector store'',
                  LogError ''Failed to delete document: d1'']\<rparr>)"
    by (simp add: deleteDocument_def deleteDocumentsByDocId_def collection_get_where_def
        collection_delete_ids_def io_simps chroma_down_env_def demo_env_def stored_world_def Let_def)
  ultimately show ?thesis using reindex_failure_run by simp
qed

text \<open>
  Claim C5 fails on the code. \<^verbatim>\<open>AIService\<close> hands the requested model name to the OpenAI
  provider as it is: a Gemini model name is sent to OpenAI, no warning is logged and the
  default model is not substituted, so the request fails when the provider rejects the name.
  In front of the controller the request validation rejects the same name.
\<close>

theorem other_provider_model_not_substituted:
  "isGeminiModel ''gemini-2.5-pro'' \<and>
   cfg_openai_model strict_openai_env = ''gpt-4o-mini'' \<and>
   aiService_chat strict_openai_env ''hello'' None None (Some ''gemini-2.5-pro'') empty_world =
     (Inl (Error ''404 The model does not exist or you do not have access to it.''),
      empty_world\<lparr>tick := 1,
        trace := [OpenAIChatCompletion ''gemini-2.5-pro''
                    [(''system'', ''You are a helpful AI assistant.\<newline>\<newline>Please provide a helpful and accurate answer based on the context provided. If the context doesn't contain enough information to answer the question, please say so clearly.''),
                     (''user'', ''hello'')],
                  LogError ''Failed to generate chat response'']\<rparr>) \<and>
   fst (chat strict_openai_env ''u1'' gemini_request empty_world) =
     Inl (Error ''404 The model does not exist or you do not have access to it.'') \<and>
   filter (\<lambda>ev. case ev of LogWarn m \<Rightarrow> True | _ \<Rightarrow> False)
     (trace (snd (chat strict_openai_env ''u1'' gemini_request empty_world))) = [] \<and>
   OpenAIChatCompletion ''gemini-2.5-pro''
       [(''system'', ''You are a helpful AI assistant.\<newline>\<newline>Please provide a helpful and accurate answer based on the context provided. If the context doesn't contain enough information to answer the question, please say so clearly.''),
        (''user'', ''hello'')]
     \<in> set (trace (snd (chat strict_openai_env ''u1'' gemini_request empty_world))) \<and>
   validate_model (Some ''gemini-2.5-pro'') =
     Inl (BadRequestException ''Model must be one of: gpt-4o-mini, gpt-4o, gpt-4-turbo, gpt-3.5-turbo'')"
  by (simp add: run_simps gemini_request_def strict_openai_env_def empty_world_def
        isGeminiModel_def validate_model_def OpenAIModel_def)




declare gemini_embeddings_loop.simps [simp del]


















end
